theory Spec2Isabelle
  imports Main "HOL-Library.Multiset"
begin

section \<open>Expression trees\<close>

text \<open>
  The pass \<^verbatim>\<open>expand_safe_reads.ts\<close> rewrites output-AST expressions. The node classes
  it tests with \<^verbatim>\<open>instanceof\<close> become the constructors of one datatype; the fields
  are the ones the pass reads (\<^verbatim>\<open>receiver\<close>, \<^verbatim>\<open>name\<close>, \<^verbatim>\<open>index\<close>,
  \<^verbatim>\<open>args\<close>, \<^verbatim>\<open>expr\<close>, \<^verbatim>\<open>xref\<close>, \<^verbatim>\<open>guard\<close>, \<^verbatim>\<open>condition\<close>,
  \<^verbatim>\<open>trueCase\<close>, \<^verbatim>\<open>falseCase\<close>, \<^verbatim>\<open>lhs\<close>, \<^verbatim>\<open>rhs\<close>). A temporary id
  (\<^verbatim>\<open>ir.XrefId\<close>) is a natural number. \<^verbatim>\<open>falseCase\<close> may be null, hence an option.
  For \<^verbatim>\<open>InvokeFunctionExpr\<close> the first field is the callee, which the pass reads as
  \<^verbatim>\<open>receiver\<close>.
\<close>

type_synonym XrefId = nat

datatype LiteralValue = NullValue | BoolValue bool | NumberValue int | StringValue string

datatype UnaryOperator = Minus | Plus

datatype BinaryOperator =
  Equals | NotEquals | Identical | NotIdentical | And | Or | Add | Subtract

datatype Expression =
    ReadVarExpr string
  | LiteralExpr LiteralValue
  | UnaryOperatorExpr UnaryOperator Expression
  | BinaryOperatorExpr BinaryOperator Expression Expression
  | ConditionalExpr Expression Expression "Expression option"
  | NotExpr Expression
  | LiteralArrayExpr "Expression list"
  | LiteralMapExpr "(string \<times> Expression) list"
  | ReadPropExpr Expression string
  | ReadKeyExpr Expression Expression
  | InvokeFunctionExpr Expression "Expression list"
  | SafePropertyReadExpr Expression string
  | SafeKeyedReadExpr Expression Expression
  | SafeInvokeFunctionExpr Expression "Expression list"
  | PipeBindingExpr string "Expression list"
  | AssignTemporaryExpr Expression XrefId
  | ReadTemporaryExpr XrefId
  | SafeTernaryExpr Expression Expression

datatype CompatibilityMode = Normal | TemplateDefinitionBuilder

text \<open>\<^verbatim>\<open>o.NULL_EXPR\<close>, the null literal.\<close>

definition NULL_EXPR :: Expression where
  "NULL_EXPR = LiteralExpr NullValue"

text \<open>
  Modelled from the spec: the node-building methods \<^verbatim>\<open>prop\<close> (here \<open>prop_of\<close>),
  \<^verbatim>\<open>key\<close> and \<^verbatim>\<open>callFn\<close> of the output AST and its \<^verbatim>\<open>clone\<close> are
  defined in \<^verbatim>\<open>output_ast\<close>, which the pass imports. The spec has them "apply the same
  access operation" (property name, index, call arguments) to a receiver, and has
  \<^verbatim>\<open>clone\<close> build "a structural copy"; on values a structural copy is the value
  itself.
\<close>

definition prop_of :: "Expression \<Rightarrow> string \<Rightarrow> Expression" where
  "prop_of r name = ReadPropExpr r name"

definition key :: "Expression \<Rightarrow> Expression \<Rightarrow> Expression" where
  "key r index = ReadKeyExpr r index"

definition callFn :: "Expression \<Rightarrow> Expression list \<Rightarrow> Expression" where
  "callFn r args = InvokeFunctionExpr r args"

definition clone :: "Expression \<Rightarrow> Expression" where
  "clone e = e"

section \<open>The tree visitor\<close>

text \<open>
  Modelled from the spec: \<^verbatim>\<open>ir.transformExpressionsInExpression\<close> and
  \<^verbatim>\<open>ir.transformExpressionsInOp\<close> are defined in the \<^verbatim>\<open>ir\<close> module, which the
  pass imports. The spec describes a generic recursive rewrite that applies a
  per-node transform to every expression reachable from an expression, each node once;
  a visited access finds its receiver "already rewritten", so children are rewritten
  before their parent, and the result of the transform takes the node's place. The
  transform may have an effect (minting an id, adding to a set): it is a function of a
  state \<open>'s\<close>. Children are visited left to right.

  \<open>transformInternalExpressions\<close> rewrites the children of a node and leaves the node
  itself in place: this is what a caller observes who keeps its own reference to the
  node and drops the visitor's return value.
\<close>

primrec
  transformInternalExpressions ::
    "(Expression \<Rightarrow> 's \<Rightarrow> Expression \<times> 's) \<Rightarrow> Expression \<Rightarrow> 's \<Rightarrow> Expression \<times> 's" and
  transformExpressionList ::
    "(Expression \<Rightarrow> 's \<Rightarrow> Expression \<times> 's) \<Rightarrow> Expression list \<Rightarrow> 's \<Rightarrow> Expression list \<times> 's" and
  transformOptionalExpression ::
    "(Expression \<Rightarrow> 's \<Rightarrow> Expression \<times> 's) \<Rightarrow> Expression option \<Rightarrow> 's \<Rightarrow> Expression option \<times> 's" and
  transformMapEntry ::
    "(Expression \<Rightarrow> 's \<Rightarrow> Expression \<times> 's) \<Rightarrow> string \<times> Expression \<Rightarrow> 's \<Rightarrow> (string \<times> Expression) \<times> 's" and
  transformMapEntries ::
    "(Expression \<Rightarrow> 's \<Rightarrow> Expression \<times> 's) \<Rightarrow> (string \<times> Expression) list \<Rightarrow> 's
      \<Rightarrow> (string \<times> Expression) list \<times> 's"
where
  "transformInternalExpressions f (ReadVarExpr x) s = (ReadVarExpr x, s)"
| "transformInternalExpressions f (LiteralExpr v) s = (LiteralExpr v, s)"
| "transformInternalExpressions f (UnaryOperatorExpr opr a) s =
     (case transformInternalExpressions f a s of (a0, s0) \<Rightarrow>
      case f a0 s0 of (a', s1) \<Rightarrow> (UnaryOperatorExpr opr a', s1))"
| "transformInternalExpressions f (BinaryOperatorExpr opr l r) s =
     (case transformInternalExpressions f l s of (l0, s0) \<Rightarrow>
      case f l0 s0 of (l', s1) \<Rightarrow>
      case transformInternalExpressions f r s1 of (r0, s2) \<Rightarrow>
      case f r0 s2 of (r', s3) \<Rightarrow> (BinaryOperatorExpr opr l' r', s3))"
| "transformInternalExpressions f (ConditionalExpr c t fc) s =
     (case transformInternalExpressions f c s of (c0, s0) \<Rightarrow>
      case f c0 s0 of (c', s1) \<Rightarrow>
      case transformInternalExpressions f t s1 of (t0, s2) \<Rightarrow>
      case f t0 s2 of (t', s3) \<Rightarrow>
      case transformOptionalExpression f fc s3 of (fc', s4) \<Rightarrow> (ConditionalExpr c' t' fc', s4))"
| "transformInternalExpressions f (NotExpr c) s =
     (case transformInternalExpressions f c s of (c0, s0) \<Rightarrow>
      case f c0 s0 of (c', s1) \<Rightarrow> (NotExpr c', s1))"
| "transformInternalExpressions f (LiteralArrayExpr entries) s =
     (case transformExpressionList f entries s of (entries', s1) \<Rightarrow> (LiteralArrayExpr entries', s1))"
| "transformInternalExpressions f (LiteralMapExpr entries) s =
     (case transformMapEntries f entries s of (entries', s1) \<Rightarrow> (LiteralMapExpr entries', s1))"
| "transformInternalExpressions f (ReadPropExpr r name) s =
     (case transformInternalExpressions f r s of (r0, s0) \<Rightarrow>
      case f r0 s0 of (r', s1) \<Rightarrow> (ReadPropExpr r' name, s1))"
| "transformInternalExpressions f (ReadKeyExpr r i) s =
     (case transformInternalExpressions f r s of (r0, s0) \<Rightarrow>
      case f r0 s0 of (r', s1) \<Rightarrow>
      case transformInternalExpressions f i s1 of (i0, s2) \<Rightarrow>
      case f i0 s2 of (i', s3) \<Rightarrow> (ReadKeyExpr r' i', s3))"
| "transformInternalExpressions f (InvokeFunctionExpr r args) s =
     (case transformInternalExpressions f r s of (r0, s0) \<Rightarrow>
      case f r0 s0 of (r', s1) \<Rightarrow>
      case transformExpressionList f args s1 of (args', s2) \<Rightarrow> (InvokeFunctionExpr r' args', s2))"
| "transformInternalExpressions f (SafePropertyReadExpr r name) s =
     (case transformInternalExpressions f r s of (r0, s0) \<Rightarrow>
      case f r0 s0 of (r', s1) \<Rightarrow> (SafePropertyReadExpr r' name, s1))"
| "transformInternalExpressions f (SafeKeyedReadExpr r i) s =
     (case transformInternalExpressions f r s of (r0, s0) \<Rightarrow>
      case f r0 s0 of (r', s1) \<Rightarrow>
      case transformInternalExpressions f i s1 of (i0, s2) \<Rightarrow>
      case f i0 s2 of (i', s3) \<Rightarrow> (SafeKeyedReadExpr r' i', s3))"
| "transformInternalExpressions f (SafeInvokeFunctionExpr r args) s =
     (case transformInternalExpressions f r s of (r0, s0) \<Rightarrow>
      case f r0 s0 of (r', s1) \<Rightarrow>
      case transformExpressionList f args s1 of (args', s2) \<Rightarrow>
        (SafeInvokeFunctionExpr r' args', s2))"
| "transformInternalExpressions f (PipeBindingExpr name args) s =
     (case transformExpressionList f args s of (args', s1) \<Rightarrow> (PipeBindingExpr name args', s1))"
| "transformInternalExpressions f (AssignTemporaryExpr a xref) s =
     (case transformInternalExpressions f a s of (a0, s0) \<Rightarrow>
      case f a0 s0 of (a', s1) \<Rightarrow> (AssignTemporaryExpr a' xref, s1))"
| "transformInternalExpressions f (ReadTemporaryExpr xref) s = (ReadTemporaryExpr xref, s)"
| "transformInternalExpressions f (SafeTernaryExpr g b) s =
     (case transformInternalExpressions f g s of (g0, s0) \<Rightarrow>
      case f g0 s0 of (g', s1) \<Rightarrow>
      case transformInternalExpressions f b s1 of (b0, s2) \<Rightarrow>
      case f b0 s2 of (b', s3) \<Rightarrow> (SafeTernaryExpr g' b', s3))"
| "transformExpressionList f [] s = ([], s)"
| "transformExpressionList f (e # es) s =
     (case transformInternalExpressions f e s of (e0, s0) \<Rightarrow>
      case f e0 s0 of (e', s1) \<Rightarrow>
      case transformExpressionList f es s1 of (es', s2) \<Rightarrow> (e' # es', s2))"
| "transformOptionalExpression f None s = (None, s)"
| "transformOptionalExpression f (Some e) s =
     (case transformInternalExpressions f e s of (e0, s0) \<Rightarrow>
      case f e0 s0 of (e', s1) \<Rightarrow> (Some e', s1))"
| "transformMapEntry f (k, v) s =
     (case transformInternalExpressions f v s of (v0, s0) \<Rightarrow>
      case f v0 s0 of (v', s1) \<Rightarrow> ((k, v'), s1))"
| "transformMapEntries f [] s = ([], s)"
| "transformMapEntries f (entry # entries) s =
     (case transformMapEntry f entry s of (entry', s1) \<Rightarrow>
      case transformMapEntries f entries s1 of (entries', s2) \<Rightarrow> (entry' # entries', s2))"

definition transformExpressionsInExpression ::
  "(Expression \<Rightarrow> 's \<Rightarrow> Expression \<times> 's) \<Rightarrow> Expression \<Rightarrow> 's \<Rightarrow> Expression \<times> 's" where
  "transformExpressionsInExpression f e s =
     (case transformInternalExpressions f e s of (e0, s0) \<Rightarrow> f e0 s0)"

text \<open>A transform without effect, as a transform of the visitor.\<close>

definition pureTransform :: "(Expression \<Rightarrow> Expression) \<Rightarrow> Expression \<Rightarrow> unit \<Rightarrow> Expression \<times> unit" where
  "pureTransform g e u = (g e, u)"

section \<open>The pass\<close>

subsection \<open>needsTemporaryInSafeAccess (lines 42-70)\<close>

fun needsTemporaryInSafeAccess :: "Expression \<Rightarrow> bool" where
  "needsTemporaryInSafeAccess (UnaryOperatorExpr opr e) = needsTemporaryInSafeAccess e"
| "needsTemporaryInSafeAccess (BinaryOperatorExpr opr l r) =
     (needsTemporaryInSafeAccess l \<or> needsTemporaryInSafeAccess r)"
| "needsTemporaryInSafeAccess (ConditionalExpr c t fc) =
     (if (case fc of None \<Rightarrow> False | Some fe \<Rightarrow> needsTemporaryInSafeAccess fe) then True
      else needsTemporaryInSafeAccess c \<or> needsTemporaryInSafeAccess t)"
| "needsTemporaryInSafeAccess (NotExpr c) = needsTemporaryInSafeAccess c"
| "needsTemporaryInSafeAccess (AssignTemporaryExpr e xref) = needsTemporaryInSafeAccess e"
| "needsTemporaryInSafeAccess (ReadPropExpr r name) = needsTemporaryInSafeAccess r"
| "needsTemporaryInSafeAccess (ReadKeyExpr r i) =
     (needsTemporaryInSafeAccess r \<or> needsTemporaryInSafeAccess i)"
| "needsTemporaryInSafeAccess (InvokeFunctionExpr r args) = True"
| "needsTemporaryInSafeAccess (LiteralArrayExpr entries) = True"
| "needsTemporaryInSafeAccess (LiteralMapExpr entries) = True"
| "needsTemporaryInSafeAccess (SafeInvokeFunctionExpr r args) = True"
| "needsTemporaryInSafeAccess (PipeBindingExpr name args) = True"
| "needsTemporaryInSafeAccess e = False"

subsection \<open>temporariesIn (lines 72-88)\<close>

text \<open>The visitor's callback adds the id of every assignment it meets to the set.\<close>

definition collectTemporary :: "Expression \<Rightarrow> XrefId set \<Rightarrow> Expression \<times> XrefId set" where
  "collectTemporary e temporaries =
     (case e of AssignTemporaryExpr a xref \<Rightarrow> (e, insert xref temporaries)
      | _ \<Rightarrow> (e, temporaries))"

definition temporariesIn :: "Expression \<Rightarrow> XrefId set" where
  "temporariesIn e = snd (transformExpressionsInExpression collectTemporary e {})"

subsection \<open>eliminateTemporaryAssignments (lines 90-115)\<close>

text \<open>The callback of lines 99-111.\<close>

definition eliminateAssignment :: "XrefId set \<Rightarrow> CompatibilityMode \<Rightarrow> Expression \<Rightarrow> Expression" where
  "eliminateAssignment tmps mode e =
     (case e of
        AssignTemporaryExpr a xref \<Rightarrow>
          (if xref \<in> tmps then
             (let read = ReadTemporaryExpr xref in
              if mode = TemplateDefinitionBuilder then AssignTemporaryExpr read xref else read)
           else e)
      | _ \<Rightarrow> e)"

text \<open>
  The function calls the visitor as a statement and returns its own argument \<^verbatim>\<open>e\<close>
  (lines 97 and 114): the children of \<^verbatim>\<open>e\<close> are rewritten in place, and what the
  callback returns for \<^verbatim>\<open>e\<close> itself is the visitor's return value, which is dropped.
\<close>

definition eliminateTemporaryAssignments ::
  "Expression \<Rightarrow> XrefId set \<Rightarrow> CompatibilityMode \<Rightarrow> Expression" where
  "eliminateTemporaryAssignments e tmps mode =
     fst (transformInternalExpressions (pureTransform (eliminateAssignment tmps mode)) e ())"

subsection \<open>safeTernaryWithTemporary (lines 122-140)\<close>

text \<open>
  The context \<^verbatim>\<open>ctx.job\<close> gives the pass two things: the read-only compatibility
  mode, passed here as \<open>mode\<close>, and \<^verbatim>\<open>allocateXrefId\<close>, whose state is threaded
  through the pass.
\<close>

text \<open>
  Modelled from the spec: \<^verbatim>\<open>allocateXrefId\<close> belongs to the compilation job, which the
  pass imports; the spec has it mint ids that are unique and never reused, so its state is
  the next unused id, which it returns and steps past.
\<close>

definition allocateXrefId :: "XrefId \<Rightarrow> XrefId \<times> XrefId" where
  "allocateXrefId n = (n, Suc n)"

definition safeTernaryWithTemporary ::
  "Expression \<Rightarrow> (Expression \<Rightarrow> Expression) \<Rightarrow> CompatibilityMode \<Rightarrow> XrefId \<Rightarrow> Expression \<times> XrefId" where
  "safeTernaryWithTemporary guard body mode n =
     (if needsTemporaryInSafeAccess guard then
        (case allocateXrefId n of (xref, n') \<Rightarrow>
           (SafeTernaryExpr (AssignTemporaryExpr guard xref) (body (ReadTemporaryExpr xref)), n'))
      else
        (SafeTernaryExpr guard
           (body (eliminateTemporaryAssignments (clone guard) (temporariesIn guard) mode)), n))"

subsection \<open>Access tests and deepestSafeTernary (lines 142-181)\<close>

definition isSafeAccessExpression :: "Expression \<Rightarrow> bool" where
  "isSafeAccessExpression e =
     (case e of SafePropertyReadExpr r name \<Rightarrow> True | SafeKeyedReadExpr r i \<Rightarrow> True
      | SafeInvokeFunctionExpr r args \<Rightarrow> True | _ \<Rightarrow> False)"

definition isUnsafeAccessExpression :: "Expression \<Rightarrow> bool" where
  "isUnsafeAccessExpression e =
     (case e of ReadPropExpr r name \<Rightarrow> True | ReadKeyExpr r i \<Rightarrow> True
      | InvokeFunctionExpr r args \<Rightarrow> True | _ \<Rightarrow> False)"

definition isAccessExpression :: "Expression \<Rightarrow> bool" where
  "isAccessExpression e = (isSafeAccessExpression e \<or> isUnsafeAccessExpression e)"

definition isSafeTernaryExpr :: "Expression \<Rightarrow> bool" where
  "isSafeTernaryExpr e = (case e of SafeTernaryExpr g b \<Rightarrow> True | _ \<Rightarrow> False)"

text \<open>The field \<^verbatim>\<open>receiver\<close>, which the six access classes have.\<close>

definition receiver :: "Expression \<Rightarrow> Expression option" where
  "receiver e =
     (case e of
        ReadPropExpr r name \<Rightarrow> Some r | ReadKeyExpr r i \<Rightarrow> Some r
      | InvokeFunctionExpr r args \<Rightarrow> Some r
      | SafePropertyReadExpr r name \<Rightarrow> Some r | SafeKeyedReadExpr r i \<Rightarrow> Some r
      | SafeInvokeFunctionExpr r args \<Rightarrow> Some r
      | _ \<Rightarrow> None)"

text \<open>
  The loop of lines 175-177: from a safe ternary, follow \<^verbatim>\<open>expr\<close> while it is a safe
  ternary again. The tree is finite, so the loop ends.
\<close>

fun deepestFrom :: "Expression \<Rightarrow> Expression" where
  "deepestFrom (SafeTernaryExpr g b) =
     (if isSafeTernaryExpr b then deepestFrom b else SafeTernaryExpr g b)"
| "deepestFrom e = e"

definition deepestSafeTernary :: "Expression \<Rightarrow> Expression option" where
  "deepestSafeTernary e =
     (if isAccessExpression e then
        (case receiver e of
           Some r \<Rightarrow> if isSafeTernaryExpr r then Some (deepestFrom r) else None
         | None \<Rightarrow> None)
      else None)"

text \<open>The field \<^verbatim>\<open>expr\<close> of a safe ternary.\<close>

fun exprOf :: "Expression \<Rightarrow> Expression" where
  "exprOf (SafeTernaryExpr g b) = b"
| "exprOf e = e"

text \<open>
  \<^verbatim>\<open>dst\<close> is a node inside \<^verbatim>\<open>e.receiver\<close>, reached along the \<^verbatim>\<open>expr\<close> fields, and
  the pass writes \<^verbatim>\<open>dst.expr = v\<close> and then returns \<^verbatim>\<open>e.receiver\<close>. Seen through
  the returned receiver, the write replaces the \<^verbatim>\<open>expr\<close> of the deepest safe ternary
  of that chain.
\<close>

fun assignDeepestExpr :: "Expression \<Rightarrow> Expression \<Rightarrow> Expression" where
  "assignDeepestExpr (SafeTernaryExpr g b) v =
     (if isSafeTernaryExpr b then SafeTernaryExpr g (assignDeepestExpr b v)
      else SafeTernaryExpr g v)"
| "assignDeepestExpr e v = e"

subsection \<open>safeTransform (lines 185-230)\<close>

definition safeTransform :: "CompatibilityMode \<Rightarrow> Expression \<Rightarrow> XrefId \<Rightarrow> Expression \<times> XrefId" where
  "safeTransform mode e n =
     (if \<not> isAccessExpression e then (e, n)
      else
        (case deepestSafeTernary e of
           Some dst \<Rightarrow>
             (case e of
                InvokeFunctionExpr r args \<Rightarrow> (assignDeepestExpr r (callFn (exprOf dst) args), n)
              | ReadPropExpr r name \<Rightarrow> (assignDeepestExpr r (prop_of (exprOf dst) name), n)
              | ReadKeyExpr r i \<Rightarrow> (assignDeepestExpr r (key (exprOf dst) i), n)
              | SafeInvokeFunctionExpr r args \<Rightarrow>
                  (case safeTernaryWithTemporary (exprOf dst) (\<lambda>r. callFn r args) mode n of
                     (st, n') \<Rightarrow> (assignDeepestExpr r st, n'))
              | SafePropertyReadExpr r name \<Rightarrow>
                  (case safeTernaryWithTemporary (exprOf dst) (\<lambda>r. prop_of r name) mode n of
                     (st, n') \<Rightarrow> (assignDeepestExpr r st, n'))
              | SafeKeyedReadExpr r i \<Rightarrow>
                  (case safeTernaryWithTemporary (exprOf dst) (\<lambda>r. key r i) mode n of
                     (st, n') \<Rightarrow> (assignDeepestExpr r st, n'))
              | _ \<Rightarrow> (e, n))
         | None \<Rightarrow>
             (case e of
                SafeInvokeFunctionExpr r args \<Rightarrow>
                  safeTernaryWithTemporary r (\<lambda>r. callFn r args) mode n
              | SafePropertyReadExpr r name \<Rightarrow>
                  safeTernaryWithTemporary r (\<lambda>r. prop_of r name) mode n
              | SafeKeyedReadExpr r i \<Rightarrow>
                  safeTernaryWithTemporary r (\<lambda>r. key r i) mode n
              | _ \<Rightarrow> (e, n))))"

subsection \<open>ternaryTransform (lines 232-241)\<close>

definition ternaryTransform :: "Expression \<Rightarrow> Expression" where
  "ternaryTransform e =
     (case e of
        SafeTernaryExpr g b \<Rightarrow>
          ConditionalExpr (BinaryOperatorExpr Equals g NULL_EXPR) NULL_EXPR (Some b)
      | _ \<Rightarrow> e)"

subsection \<open>expandSafeReads (lines 24-31)\<close>

text \<open>
  Modelled from the spec: the compilation job, its units and their ops are defined in
  \<^verbatim>\<open>compilation\<close>, which the pass imports. The spec has the pass run over "every
  expression in every
  instruction of every compilation unit": an op is the list of the expressions it holds,
  a unit the list of its ops, and the job carries the units, the compatibility mode and
  the id allocator. \<open>forEach\<close> is the \<^verbatim>\<open>for ... of\<close> loop, threading the allocator.
\<close>

type_synonym Op = "Expression list"

type_synonym CompilationUnit = "Op list"

record CompilationJob =
  compatibility :: CompatibilityMode
  nextXrefId :: XrefId
  units :: "CompilationUnit list"

primrec forEach :: "('a \<Rightarrow> 's \<Rightarrow> 'b \<times> 's) \<Rightarrow> 'a list \<Rightarrow> 's \<Rightarrow> 'b list \<times> 's" where
  "forEach f [] s = ([], s)"
| "forEach f (x # xs) s =
     (case f x s of (y, s1) \<Rightarrow> case forEach f xs s1 of (ys, s2) \<Rightarrow> (y # ys, s2))"

definition transformExpressionsInOp ::
  "(Expression \<Rightarrow> 's \<Rightarrow> Expression \<times> 's) \<Rightarrow> Op \<Rightarrow> 's \<Rightarrow> Op \<times> 's" where
  "transformExpressionsInOp f op s = forEach (transformExpressionsInExpression f) op s"

text \<open>The body of the inner loop: both sweeps over one op.\<close>

definition expandOp :: "CompatibilityMode \<Rightarrow> Op \<Rightarrow> XrefId \<Rightarrow> Op \<times> XrefId" where
  "expandOp mode op n =
     (case transformExpressionsInOp (safeTransform mode) op n of
        (op1, n1) \<Rightarrow>
          (fst (transformExpressionsInOp (pureTransform ternaryTransform) op1 ()), n1))"

definition expandSafeReads :: "CompilationJob \<Rightarrow> CompilationJob" where
  "expandSafeReads job =
     (case forEach (forEach (expandOp (compatibility job))) (units job) (nextXrefId job) of
        (units', n') \<Rightarrow> job\<lparr>nextXrefId := n', units := units'\<rparr>)"

text \<open>A job whose only op holds the one expression \<open>e\<close>.\<close>

definition singleExpressionJob :: "CompatibilityMode \<Rightarrow> XrefId \<Rightarrow> Expression \<Rightarrow> CompilationJob" where
  "singleExpressionJob mode n e = \<lparr>compatibility = mode, nextXrefId = n, units = [[[e]]]\<rparr>"

section \<open>Notions used in the statements\<close>

subsection \<open>Properties of every node of a tree\<close>

primrec everyNode :: "(Expression \<Rightarrow> bool) \<Rightarrow> Expression \<Rightarrow> bool" where
  "everyNode P (ReadVarExpr x) = P (ReadVarExpr x)"
| "everyNode P (LiteralExpr v) = P (LiteralExpr v)"
| "everyNode P (UnaryOperatorExpr opr a) = (P (UnaryOperatorExpr opr a) \<and> everyNode P a)"
| "everyNode P (BinaryOperatorExpr opr l r) =
     (P (BinaryOperatorExpr opr l r) \<and> everyNode P l \<and> everyNode P r)"
| "everyNode P (ConditionalExpr c t fc) =
     (P (ConditionalExpr c t fc) \<and> everyNode P c \<and> everyNode P t \<and> pred_option (everyNode P) fc)"
| "everyNode P (NotExpr c) = (P (NotExpr c) \<and> everyNode P c)"
| "everyNode P (LiteralArrayExpr entries) =
     (P (LiteralArrayExpr entries) \<and> list_all (everyNode P) entries)"
| "everyNode P (LiteralMapExpr entries) =
     (P (LiteralMapExpr entries) \<and> list_all (pred_prod (\<lambda>k. True) (everyNode P)) entries)"
| "everyNode P (ReadPropExpr r name) = (P (ReadPropExpr r name) \<and> everyNode P r)"
| "everyNode P (ReadKeyExpr r i) = (P (ReadKeyExpr r i) \<and> everyNode P r \<and> everyNode P i)"
| "everyNode P (InvokeFunctionExpr r args) =
     (P (InvokeFunctionExpr r args) \<and> everyNode P r \<and> list_all (everyNode P) args)"
| "everyNode P (SafePropertyReadExpr r name) = (P (SafePropertyReadExpr r name) \<and> everyNode P r)"
| "everyNode P (SafeKeyedReadExpr r i) =
     (P (SafeKeyedReadExpr r i) \<and> everyNode P r \<and> everyNode P i)"
| "everyNode P (SafeInvokeFunctionExpr r args) =
     (P (SafeInvokeFunctionExpr r args) \<and> everyNode P r \<and> list_all (everyNode P) args)"
| "everyNode P (PipeBindingExpr name args) =
     (P (PipeBindingExpr name args) \<and> list_all (everyNode P) args)"
| "everyNode P (AssignTemporaryExpr a xref) = (P (AssignTemporaryExpr a xref) \<and> everyNode P a)"
| "everyNode P (ReadTemporaryExpr xref) = P (ReadTemporaryExpr xref)"
| "everyNode P (SafeTernaryExpr g b) = (P (SafeTernaryExpr g b) \<and> everyNode P g \<and> everyNode P b)"

definition noSafeTernary :: "Expression \<Rightarrow> bool" where
  "noSafeTernary e = everyNode (\<lambda>x. \<not> isSafeTernaryExpr x) e"

definition noSafeAccess :: "Expression \<Rightarrow> bool" where
  "noSafeAccess e = everyNode (\<lambda>x. \<not> isSafeAccessExpression x) e"

text \<open>All expressions of a job, op by op.\<close>

definition jobExpressions :: "CompilationJob \<Rightarrow> Expression list" where
  "jobExpressions job = concat (concat (units job))"

subsection \<open>Ternary lowering, in the spec's words\<close>

text \<open>
  Section 4.3 of the spec: "replace every safe-ternary(guard, body) node, wherever it
  occurs, with conditional(guard == null, null-literal, body)".
\<close>

primrec lowered :: "Expression \<Rightarrow> Expression" where
  "lowered (ReadVarExpr x) = ReadVarExpr x"
| "lowered (LiteralExpr v) = LiteralExpr v"
| "lowered (UnaryOperatorExpr opr a) = UnaryOperatorExpr opr (lowered a)"
| "lowered (BinaryOperatorExpr opr l r) = BinaryOperatorExpr opr (lowered l) (lowered r)"
| "lowered (ConditionalExpr c t fc) =
     ConditionalExpr (lowered c) (lowered t) (map_option lowered fc)"
| "lowered (NotExpr c) = NotExpr (lowered c)"
| "lowered (LiteralArrayExpr entries) = LiteralArrayExpr (map lowered entries)"
| "lowered (LiteralMapExpr entries) = LiteralMapExpr (map (map_prod id lowered) entries)"
| "lowered (ReadPropExpr r name) = ReadPropExpr (lowered r) name"
| "lowered (ReadKeyExpr r i) = ReadKeyExpr (lowered r) (lowered i)"
| "lowered (InvokeFunctionExpr r args) = InvokeFunctionExpr (lowered r) (map lowered args)"
| "lowered (SafePropertyReadExpr r name) = SafePropertyReadExpr (lowered r) name"
| "lowered (SafeKeyedReadExpr r i) = SafeKeyedReadExpr (lowered r) (lowered i)"
| "lowered (SafeInvokeFunctionExpr r args) =
     SafeInvokeFunctionExpr (lowered r) (map lowered args)"
| "lowered (PipeBindingExpr name args) = PipeBindingExpr name (map lowered args)"
| "lowered (AssignTemporaryExpr a xref) = AssignTemporaryExpr (lowered a) xref"
| "lowered (ReadTemporaryExpr xref) = ReadTemporaryExpr xref"
| "lowered (SafeTernaryExpr g b) =
     ConditionalExpr (BinaryOperatorExpr Equals (lowered g) NULL_EXPR) NULL_EXPR
       (Some (lowered b))"

subsection \<open>The temporary-necessity classifier, in the spec's words\<close>

text \<open>
  Section 4.1 of the spec: the expression is, or structurally contains through a unary
  operand, either side of a binary operator, any branch of a conditional, a logical not,
  the inner expression of an assign-temporary, or the receiver or index of a plain or
  keyed read, one of function-invoke, array-literal, map-literal, safe-function-invoke,
  pipe-binding-call.
\<close>

inductive containsTemporaryRequiring :: "Expression \<Rightarrow> bool" where
  invoke: "containsTemporaryRequiring (InvokeFunctionExpr r args)"
| arrayLiteral: "containsTemporaryRequiring (LiteralArrayExpr entries)"
| mapLiteral: "containsTemporaryRequiring (LiteralMapExpr entries)"
| safeInvoke: "containsTemporaryRequiring (SafeInvokeFunctionExpr r args)"
| pipeBinding: "containsTemporaryRequiring (PipeBindingExpr name args)"
| unaryOperand:
    "containsTemporaryRequiring e \<Longrightarrow> containsTemporaryRequiring (UnaryOperatorExpr opr e)"
| binaryLhs:
    "containsTemporaryRequiring l \<Longrightarrow> containsTemporaryRequiring (BinaryOperatorExpr opr l r)"
| binaryRhs:
    "containsTemporaryRequiring r \<Longrightarrow> containsTemporaryRequiring (BinaryOperatorExpr opr l r)"
| condition:
    "containsTemporaryRequiring c \<Longrightarrow> containsTemporaryRequiring (ConditionalExpr c t fc)"
| trueCase:
    "containsTemporaryRequiring t \<Longrightarrow> containsTemporaryRequiring (ConditionalExpr c t fc)"
| falseCase:
    "containsTemporaryRequiring fe \<Longrightarrow> containsTemporaryRequiring (ConditionalExpr c t (Some fe))"
| notOperand:
    "containsTemporaryRequiring c \<Longrightarrow> containsTemporaryRequiring (NotExpr c)"
| assignInner:
    "containsTemporaryRequiring e \<Longrightarrow> containsTemporaryRequiring (AssignTemporaryExpr e xref)"
| propReceiver:
    "containsTemporaryRequiring r \<Longrightarrow> containsTemporaryRequiring (ReadPropExpr r name)"
| keyReceiver:
    "containsTemporaryRequiring r \<Longrightarrow> containsTemporaryRequiring (ReadKeyExpr r i)"
| keyIndex:
    "containsTemporaryRequiring i \<Longrightarrow> containsTemporaryRequiring (ReadKeyExpr r i)"

code_pred containsTemporaryRequiring .

subsection \<open>Chains of guards\<close>

text \<open>
  \<open>guardChain [g1, ..., gk] b\<close> is the safe ternary of guard \<open>g1\<close> whose \<open>expr\<close> is the
  safe ternary of guard \<open>g2\<close>, and so on down to the one of guard \<open>gk\<close>, whose
  \<open>expr\<close> is \<open>b\<close>. \<open>innermostExpr\<close> reads \<open>b\<close> back: it follows the \<open>expr\<close> fields
  as far as they lead to safe ternaries.
\<close>

primrec guardChain :: "Expression list \<Rightarrow> Expression \<Rightarrow> Expression" where
  "guardChain [] b = b"
| "guardChain (g # gs) b = SafeTernaryExpr g (guardChain gs b)"

fun innermostExpr :: "Expression \<Rightarrow> Expression" where
  "innermostExpr (SafeTernaryExpr g b) = innermostExpr b"
| "innermostExpr e = e"

text \<open>
  \<open>withInnermostExpr r v\<close> is \<open>r\<close> with \<open>v\<close> in the place of its innermost \<open>expr\<close>;
  when \<open>r\<close> is no safe ternary, that place is \<open>r\<close> itself.
\<close>

definition withInnermostExpr :: "Expression \<Rightarrow> Expression \<Rightarrow> Expression" where
  "withInnermostExpr r v = (if isSafeTernaryExpr r then assignDeepestExpr r v else v)"

subsection \<open>Temporaries assigned in a tree\<close>

definition isAssignTemporaryExpr :: "Expression \<Rightarrow> bool" where
  "isAssignTemporaryExpr e = (case e of AssignTemporaryExpr a xref \<Rightarrow> True | _ \<Rightarrow> False)"

text \<open>
  The ids of the assign-temporary nodes of a tree, one entry per node. Only
  assign-temporary and read-temporary nodes carry an id, so every occurrence of an id that
  is not listed here is a read.
\<close>

primrec
  assignedXrefs :: "Expression \<Rightarrow> XrefId list" and
  assignedXrefsList :: "Expression list \<Rightarrow> XrefId list" and
  assignedXrefsOption :: "Expression option \<Rightarrow> XrefId list" and
  assignedXrefsEntry :: "string \<times> Expression \<Rightarrow> XrefId list" and
  assignedXrefsEntries :: "(string \<times> Expression) list \<Rightarrow> XrefId list"
where
  "assignedXrefs (ReadVarExpr x) = []"
| "assignedXrefs (LiteralExpr v) = []"
| "assignedXrefs (UnaryOperatorExpr opr a) = assignedXrefs a"
| "assignedXrefs (BinaryOperatorExpr opr l r) = assignedXrefs l @ assignedXrefs r"
| "assignedXrefs (ConditionalExpr c t fc) =
     assignedXrefs c @ assignedXrefs t @ assignedXrefsOption fc"
| "assignedXrefs (NotExpr c) = assignedXrefs c"
| "assignedXrefs (LiteralArrayExpr entries) = assignedXrefsList entries"
| "assignedXrefs (LiteralMapExpr entries) = assignedXrefsEntries entries"
| "assignedXrefs (ReadPropExpr r name) = assignedXrefs r"
| "assignedXrefs (ReadKeyExpr r i) = assignedXrefs r @ assignedXrefs i"
| "assignedXrefs (InvokeFunctionExpr r args) = assignedXrefs r @ assignedXrefsList args"
| "assignedXrefs (SafePropertyReadExpr r name) = assignedXrefs r"
| "assignedXrefs (SafeKeyedReadExpr r i) = assignedXrefs r @ assignedXrefs i"
| "assignedXrefs (SafeInvokeFunctionExpr r args) = assignedXrefs r @ assignedXrefsList args"
| "assignedXrefs (PipeBindingExpr name args) = assignedXrefsList args"
| "assignedXrefs (AssignTemporaryExpr a xref) = xref # assignedXrefs a"
| "assignedXrefs (ReadTemporaryExpr xref) = []"
| "assignedXrefs (SafeTernaryExpr g b) = assignedXrefs g @ assignedXrefs b"
| "assignedXrefsList [] = []"
| "assignedXrefsList (e # es) = assignedXrefs e @ assignedXrefsList es"
| "assignedXrefsOption None = []"
| "assignedXrefsOption (Some e) = assignedXrefs e"
| "assignedXrefsEntry (k, v) = assignedXrefs v"
| "assignedXrefsEntries [] = []"
| "assignedXrefsEntries (entry # entries) =
     assignedXrefsEntry entry @ assignedXrefsEntries entries"

definition assignedXrefsInJob :: "CompilationJob \<Rightarrow> XrefId list" where
  "assignedXrefsInJob job = assignedXrefsList (jobExpressions job)"

text \<open>
  A self-assignment is a node assign-temporary(read-temporary(id), id), the node the
  deduplication writes in the legacy mode. \<open>definingXrefs\<close> lists the ids of the
  assign-temporary nodes of a tree that are not self-assignments, one entry per node.
\<close>

primrec
  definingXrefs :: "Expression \<Rightarrow> XrefId list" and
  definingXrefsList :: "Expression list \<Rightarrow> XrefId list" and
  definingXrefsOption :: "Expression option \<Rightarrow> XrefId list" and
  definingXrefsEntry :: "string \<times> Expression \<Rightarrow> XrefId list" and
  definingXrefsEntries :: "(string \<times> Expression) list \<Rightarrow> XrefId list"
where
  "definingXrefs (ReadVarExpr x) = []"
| "definingXrefs (LiteralExpr v) = []"
| "definingXrefs (UnaryOperatorExpr opr a) = definingXrefs a"
| "definingXrefs (BinaryOperatorExpr opr l r) = definingXrefs l @ definingXrefs r"
| "definingXrefs (ConditionalExpr c t fc) =
     definingXrefs c @ definingXrefs t @ definingXrefsOption fc"
| "definingXrefs (NotExpr c) = definingXrefs c"
| "definingXrefs (LiteralArrayExpr entries) = definingXrefsList entries"
| "definingXrefs (LiteralMapExpr entries) = definingXrefsEntries entries"
| "definingXrefs (ReadPropExpr r name) = definingXrefs r"
| "definingXrefs (ReadKeyExpr r i) = definingXrefs r @ definingXrefs i"
| "definingXrefs (InvokeFunctionExpr r args) = definingXrefs r @ definingXrefsList args"
| "definingXrefs (SafePropertyReadExpr r name) = definingXrefs r"
| "definingXrefs (SafeKeyedReadExpr r i) = definingXrefs r @ definingXrefs i"
| "definingXrefs (SafeInvokeFunctionExpr r args) = definingXrefs r @ definingXrefsList args"
| "definingXrefs (PipeBindingExpr name args) = definingXrefsList args"
| "definingXrefs (AssignTemporaryExpr a xref) =
     (if a = ReadTemporaryExpr xref then [] else [xref]) @ definingXrefs a"
| "definingXrefs (ReadTemporaryExpr xref) = []"
| "definingXrefs (SafeTernaryExpr g b) = definingXrefs g @ definingXrefs b"
| "definingXrefsList [] = []"
| "definingXrefsList (e # es) = definingXrefs e @ definingXrefsList es"
| "definingXrefsOption None = []"
| "definingXrefsOption (Some e) = definingXrefs e"
| "definingXrefsEntry (k, v) = definingXrefs v"
| "definingXrefsEntries [] = []"
| "definingXrefsEntries (entry # entries) =
     definingXrefsEntry entry @ definingXrefsEntries entries"

definition definingXrefsInJob :: "CompilationJob \<Rightarrow> XrefId list" where
  "definingXrefsInJob job = definingXrefsList (jobExpressions job)"

subsection \<open>Guards that are assignments\<close>

text \<open>
  The expression a safe access takes for its guard is the innermost \<open>expr\<close> of its
  receiver, as the first sweep has left the receiver. When that guard is itself an
  assign-temporary node which the classifier does not flag, the guard is reused and its
  copy keeps the assignment at its root. \<open>guardAssignmentFlagged\<close> holds of a guard that
  is no assign-temporary node, or one that the classifier flags;
  \<open>guardDefinitionFlagged\<close> holds of these guards and of self-assignments, whose copy is
  a self-assignment again.
\<close>

definition isSelfAssignment :: "Expression \<Rightarrow> bool" where
  "isSelfAssignment e =
     (case e of AssignTemporaryExpr a xref \<Rightarrow> a = ReadTemporaryExpr xref | _ \<Rightarrow> False)"

definition guardAssignmentFlagged :: "Expression \<Rightarrow> bool" where
  "guardAssignmentFlagged g = (\<not> isAssignTemporaryExpr g \<or> needsTemporaryInSafeAccess g)"

definition guardDefinitionFlagged :: "Expression \<Rightarrow> bool" where
  "guardDefinitionFlagged g = (guardAssignmentFlagged g \<or> isSelfAssignment g)"

text \<open>
  The same conditions, read off the tree before the sweep. \<open>leadsToSafeTernary e\<close>: the
  sweep turns \<open>e\<close> into a safe ternary; this is so for a safe ternary, for a safe access,
  and for a plain access whose receiver the sweep turns into a safe ternary (the access is
  folded into it). \<open>flaggedAfterSweep e\<close>: the classifier flags what the sweep turns
  \<open>e\<close> into; it follows the classifier of lines 42-70, with the answer false wherever the
  sweep has put a safe ternary, into which the classifier does not look.
\<close>

fun leadsToSafeTernary :: "Expression \<Rightarrow> bool" where
  "leadsToSafeTernary (SafeTernaryExpr g b) = True"
| "leadsToSafeTernary (SafePropertyReadExpr r name) = True"
| "leadsToSafeTernary (SafeKeyedReadExpr r i) = True"
| "leadsToSafeTernary (SafeInvokeFunctionExpr r args) = True"
| "leadsToSafeTernary (ReadPropExpr r name) = leadsToSafeTernary r"
| "leadsToSafeTernary (ReadKeyExpr r i) = leadsToSafeTernary r"
| "leadsToSafeTernary (InvokeFunctionExpr r args) = leadsToSafeTernary r"
| "leadsToSafeTernary e = False"

fun flaggedAfterSweep :: "Expression \<Rightarrow> bool" where
  "flaggedAfterSweep (UnaryOperatorExpr opr e) = flaggedAfterSweep e"
| "flaggedAfterSweep (BinaryOperatorExpr opr l r) = (flaggedAfterSweep l \<or> flaggedAfterSweep r)"
| "flaggedAfterSweep (ConditionalExpr c t fc) =
     (if (case fc of None \<Rightarrow> False | Some fe \<Rightarrow> flaggedAfterSweep fe) then True
      else flaggedAfterSweep c \<or> flaggedAfterSweep t)"
| "flaggedAfterSweep (NotExpr c) = flaggedAfterSweep c"
| "flaggedAfterSweep (AssignTemporaryExpr e xref) = flaggedAfterSweep e"
| "flaggedAfterSweep (ReadPropExpr r name) = (\<not> leadsToSafeTernary r \<and> flaggedAfterSweep r)"
| "flaggedAfterSweep (ReadKeyExpr r i) =
     (\<not> leadsToSafeTernary r \<and> (flaggedAfterSweep r \<or> flaggedAfterSweep i))"
| "flaggedAfterSweep (InvokeFunctionExpr r args) = (\<not> leadsToSafeTernary r)"
| "flaggedAfterSweep (LiteralArrayExpr entries) = True"
| "flaggedAfterSweep (LiteralMapExpr entries) = True"
| "flaggedAfterSweep (PipeBindingExpr name args) = True"
| "flaggedAfterSweep e = False"

definition assignmentStaysFlagged :: "Expression \<Rightarrow> bool" where
  "assignmentStaysFlagged g =
     (case g of AssignTemporaryExpr a xref \<Rightarrow> flaggedAfterSweep a | _ \<Rightarrow> True)"

definition definitionStaysFlagged :: "Expression \<Rightarrow> bool" where
  "definitionStaysFlagged g = (assignmentStaysFlagged g \<or> isSelfAssignment g)"

text \<open>
  \<open>guardSatisfies P e\<close>: when \<open>e\<close> is a safe access, the innermost \<open>expr\<close> of its
  receiver satisfies \<open>P\<close>. \<open>guardAssignmentsStayFlagged\<close> holds of a tree in which no
  safe access has for its guard an assign-temporary node that the classifier does not flag
  after the sweep; \<open>guardDefinitionsStayFlagged\<close> allows, in addition, guards that are
  self-assignments.
\<close>

definition guardSatisfies :: "(Expression \<Rightarrow> bool) \<Rightarrow> Expression \<Rightarrow> bool" where
  "guardSatisfies P e =
     (case e of
        SafePropertyReadExpr r name \<Rightarrow> P (innermostExpr r)
      | SafeKeyedReadExpr r i \<Rightarrow> P (innermostExpr r)
      | SafeInvokeFunctionExpr r args \<Rightarrow> P (innermostExpr r)
      | _ \<Rightarrow> True)"

definition guardAssignmentsStayFlagged :: "Expression \<Rightarrow> bool" where
  "guardAssignmentsStayFlagged e = everyNode (guardSatisfies assignmentStaysFlagged) e"

definition guardDefinitionsStayFlagged :: "Expression \<Rightarrow> bool" where
  "guardDefinitionsStayFlagged e = everyNode (guardSatisfies definitionStaysFlagged) e"

subsection \<open>Trees that differ by self-assignments only\<close>

text \<open>
  \<open>selfAssignVariant s l\<close>: the tree \<open>l\<close> is the tree \<open>s\<close>, except that at some places
  where \<open>s\<close> has a node read-temporary(id), \<open>l\<close> has assign-temporary(read-temporary(id), id).
\<close>

primrec
  selfAssignVariant :: "Expression \<Rightarrow> Expression \<Rightarrow> bool" and
  selfAssignVariantList :: "Expression list \<Rightarrow> Expression list \<Rightarrow> bool" and
  selfAssignVariantOption :: "Expression option \<Rightarrow> Expression option \<Rightarrow> bool" and
  selfAssignVariantEntry :: "string \<times> Expression \<Rightarrow> string \<times> Expression \<Rightarrow> bool" and
  selfAssignVariantEntries :: "(string \<times> Expression) list \<Rightarrow> (string \<times> Expression) list \<Rightarrow> bool"
where
  "selfAssignVariant (ReadVarExpr x) l = (l = ReadVarExpr x)"
| "selfAssignVariant (LiteralExpr v) l = (l = LiteralExpr v)"
| "selfAssignVariant (UnaryOperatorExpr opr a) l =
     (case l of UnaryOperatorExpr opr' a' \<Rightarrow> opr' = opr \<and> selfAssignVariant a a' | _ \<Rightarrow> False)"
| "selfAssignVariant (BinaryOperatorExpr opr a b) l =
     (case l of BinaryOperatorExpr opr' a' b' \<Rightarrow>
        opr' = opr \<and> selfAssignVariant a a' \<and> selfAssignVariant b b' | _ \<Rightarrow> False)"
| "selfAssignVariant (ConditionalExpr c t fc) l =
     (case l of ConditionalExpr c' t' fc' \<Rightarrow>
        selfAssignVariant c c' \<and> selfAssignVariant t t' \<and> selfAssignVariantOption fc fc'
      | _ \<Rightarrow> False)"
| "selfAssignVariant (NotExpr c) l =
     (case l of NotExpr c' \<Rightarrow> selfAssignVariant c c' | _ \<Rightarrow> False)"
| "selfAssignVariant (LiteralArrayExpr entries) l =
     (case l of LiteralArrayExpr entries' \<Rightarrow> selfAssignVariantList entries entries' | _ \<Rightarrow> False)"
| "selfAssignVariant (LiteralMapExpr entries) l =
     (case l of LiteralMapExpr entries' \<Rightarrow> selfAssignVariantEntries entries entries' | _ \<Rightarrow> False)"
| "selfAssignVariant (ReadPropExpr r name) l =
     (case l of ReadPropExpr r' name' \<Rightarrow> name' = name \<and> selfAssignVariant r r' | _ \<Rightarrow> False)"
| "selfAssignVariant (ReadKeyExpr r i) l =
     (case l of ReadKeyExpr r' i' \<Rightarrow> selfAssignVariant r r' \<and> selfAssignVariant i i'
      | _ \<Rightarrow> False)"
| "selfAssignVariant (InvokeFunctionExpr r args) l =
     (case l of InvokeFunctionExpr r' args' \<Rightarrow>
        selfAssignVariant r r' \<and> selfAssignVariantList args args' | _ \<Rightarrow> False)"
| "selfAssignVariant (SafePropertyReadExpr r name) l =
     (case l of SafePropertyReadExpr r' name' \<Rightarrow> name' = name \<and> selfAssignVariant r r'
      | _ \<Rightarrow> False)"
| "selfAssignVariant (SafeKeyedReadExpr r i) l =
     (case l of SafeKeyedReadExpr r' i' \<Rightarrow> selfAssignVariant r r' \<and> selfAssignVariant i i'
      | _ \<Rightarrow> False)"
| "selfAssignVariant (SafeInvokeFunctionExpr r args) l =
     (case l of SafeInvokeFunctionExpr r' args' \<Rightarrow>
        selfAssignVariant r r' \<and> selfAssignVariantList args args' | _ \<Rightarrow> False)"
| "selfAssignVariant (PipeBindingExpr name args) l =
     (case l of PipeBindingExpr name' args' \<Rightarrow>
        name' = name \<and> selfAssignVariantList args args' | _ \<Rightarrow> False)"
| "selfAssignVariant (AssignTemporaryExpr a xref) l =
     (case l of AssignTemporaryExpr a' xref' \<Rightarrow> xref' = xref \<and> selfAssignVariant a a'
      | _ \<Rightarrow> False)"
| "selfAssignVariant (ReadTemporaryExpr xref) l =
     (l = ReadTemporaryExpr xref \<or> l = AssignTemporaryExpr (ReadTemporaryExpr xref) xref)"
| "selfAssignVariant (SafeTernaryExpr g b) l =
     (case l of SafeTernaryExpr g' b' \<Rightarrow> selfAssignVariant g g' \<and> selfAssignVariant b b'
      | _ \<Rightarrow> False)"
| "selfAssignVariantList [] ls = (ls = [])"
| "selfAssignVariantList (e # es) ls =
     (case ls of [] \<Rightarrow> False | l # ls' \<Rightarrow> selfAssignVariant e l \<and> selfAssignVariantList es ls')"
| "selfAssignVariantOption None lo = (lo = None)"
| "selfAssignVariantOption (Some e) lo =
     (case lo of None \<Rightarrow> False | Some l \<Rightarrow> selfAssignVariant e l)"
| "selfAssignVariantEntry (k, v) le = (case le of (k', v') \<Rightarrow> k' = k \<and> selfAssignVariant v v')"
| "selfAssignVariantEntries [] ls = (ls = [])"
| "selfAssignVariantEntries (entry # entries) ls =
     (case ls of [] \<Rightarrow> False
      | l # ls' \<Rightarrow> selfAssignVariantEntry entry l \<and> selfAssignVariantEntries entries ls')"

subsection \<open>Function calls in a tree\<close>

text \<open>
  The function-invoke nodes of a tree, one entry per node, a node before the nodes below
  it and those from left to right. A call that is listed twice is written twice in the
  tree.
\<close>

primrec
  invokeNodes :: "Expression \<Rightarrow> Expression list" and
  invokeNodesList :: "Expression list \<Rightarrow> Expression list" and
  invokeNodesOption :: "Expression option \<Rightarrow> Expression list" and
  invokeNodesEntry :: "string \<times> Expression \<Rightarrow> Expression list" and
  invokeNodesEntries :: "(string \<times> Expression) list \<Rightarrow> Expression list"
where
  "invokeNodes (ReadVarExpr x) = []"
| "invokeNodes (LiteralExpr v) = []"
| "invokeNodes (UnaryOperatorExpr opr a) = invokeNodes a"
| "invokeNodes (BinaryOperatorExpr opr l r) = invokeNodes l @ invokeNodes r"
| "invokeNodes (ConditionalExpr c t fc) = invokeNodes c @ invokeNodes t @ invokeNodesOption fc"
| "invokeNodes (NotExpr c) = invokeNodes c"
| "invokeNodes (LiteralArrayExpr entries) = invokeNodesList entries"
| "invokeNodes (LiteralMapExpr entries) = invokeNodesEntries entries"
| "invokeNodes (ReadPropExpr r name) = invokeNodes r"
| "invokeNodes (ReadKeyExpr r i) = invokeNodes r @ invokeNodes i"
| "invokeNodes (InvokeFunctionExpr r args) =
     InvokeFunctionExpr r args # invokeNodes r @ invokeNodesList args"
| "invokeNodes (SafePropertyReadExpr r name) = invokeNodes r"
| "invokeNodes (SafeKeyedReadExpr r i) = invokeNodes r @ invokeNodes i"
| "invokeNodes (SafeInvokeFunctionExpr r args) = invokeNodes r @ invokeNodesList args"
| "invokeNodes (PipeBindingExpr name args) = invokeNodesList args"
| "invokeNodes (AssignTemporaryExpr a xref) = invokeNodes a"
| "invokeNodes (ReadTemporaryExpr xref) = []"
| "invokeNodes (SafeTernaryExpr g b) = invokeNodes g @ invokeNodes b"
| "invokeNodesList [] = []"
| "invokeNodesList (e # es) = invokeNodes e @ invokeNodesList es"
| "invokeNodesOption None = []"
| "invokeNodesOption (Some e) = invokeNodes e"
| "invokeNodesEntry (k, v) = invokeNodes v"
| "invokeNodesEntries [] = []"
| "invokeNodesEntries (entry # entries) = invokeNodesEntry entry @ invokeNodesEntries entries"

section \<open>The reads that the deduplication writes\<close>

text \<open>
  What the callback of the deduplication returns for an assign-temporary node whose id is
  in the set, lines 101-108: the bare read in the standard mode, the self-assignment in the
  legacy mode.
\<close>

definition selfAssignment :: "XrefId \<Rightarrow> Expression" where
  "selfAssignment xref = AssignTemporaryExpr (ReadTemporaryExpr xref) xref"

definition dedupWrite :: "CompatibilityMode \<Rightarrow> XrefId \<Rightarrow> Expression" where
  "dedupWrite mode xref =
     (if mode = TemplateDefinitionBuilder then selfAssignment xref else ReadTemporaryExpr xref)"

text \<open>
  To tell the reads that the deduplication writes from every other read-temporary node of
  the result, the pass is written once more with what the callback returns as a parameter:
  \<open>write xref\<close> stands where lines 101-108 build the node. Every other equation is the
  one of the pass, and the compatibility mode is no longer read. With
  \<open>dedupWrite mode\<close> for \<open>write\<close> this is the pass in the mode \<open>mode\<close>.
\<close>

definition eliminateAssignmentWriting ::
  "(XrefId \<Rightarrow> Expression) \<Rightarrow> XrefId set \<Rightarrow> Expression \<Rightarrow> Expression" where
  "eliminateAssignmentWriting write tmps e =
     (case e of
        AssignTemporaryExpr a xref \<Rightarrow> (if xref \<in> tmps then write xref else e)
      | _ \<Rightarrow> e)"

definition eliminateTemporaryAssignmentsWriting ::
  "(XrefId \<Rightarrow> Expression) \<Rightarrow> Expression \<Rightarrow> XrefId set \<Rightarrow> Expression" where
  "eliminateTemporaryAssignmentsWriting write e tmps =
     fst (transformInternalExpressions (pureTransform (eliminateAssignmentWriting write tmps)) e ())"

definition safeTernaryWithTemporaryWriting ::
  "(XrefId \<Rightarrow> Expression) \<Rightarrow> Expression \<Rightarrow> (Expression \<Rightarrow> Expression) \<Rightarrow> XrefId
     \<Rightarrow> Expression \<times> XrefId" where
  "safeTernaryWithTemporaryWriting write guard body n =
     (if needsTemporaryInSafeAccess guard then
        (case allocateXrefId n of (xref, n') \<Rightarrow>
           (SafeTernaryExpr (AssignTemporaryExpr guard xref) (body (ReadTemporaryExpr xref)), n'))
      else
        (SafeTernaryExpr guard
           (body (eliminateTemporaryAssignmentsWriting write (clone guard) (temporariesIn guard))),
         n))"

definition safeTransformWriting ::
  "(XrefId \<Rightarrow> Expression) \<Rightarrow> Expression \<Rightarrow> XrefId \<Rightarrow> Expression \<times> XrefId" where
  "safeTransformWriting write e n =
     (if \<not> isAccessExpression e then (e, n)
      else
        (case deepestSafeTernary e of
           Some dst \<Rightarrow>
             (case e of
                InvokeFunctionExpr r args \<Rightarrow> (assignDeepestExpr r (callFn (exprOf dst) args), n)
              | ReadPropExpr r name \<Rightarrow> (assignDeepestExpr r (prop_of (exprOf dst) name), n)
              | ReadKeyExpr r i \<Rightarrow> (assignDeepestExpr r (key (exprOf dst) i), n)
              | SafeInvokeFunctionExpr r args \<Rightarrow>
                  (case safeTernaryWithTemporaryWriting write (exprOf dst) (\<lambda>r. callFn r args) n of
                     (st, n') \<Rightarrow> (assignDeepestExpr r st, n'))
              | SafePropertyReadExpr r name \<Rightarrow>
                  (case safeTernaryWithTemporaryWriting write (exprOf dst) (\<lambda>r. prop_of r name) n of
                     (st, n') \<Rightarrow> (assignDeepestExpr r st, n'))
              | SafeKeyedReadExpr r i \<Rightarrow>
                  (case safeTernaryWithTemporaryWriting write (exprOf dst) (\<lambda>r. key r i) n of
                     (st, n') \<Rightarrow> (assignDeepestExpr r st, n'))
              | _ \<Rightarrow> (e, n))
         | None \<Rightarrow>
             (case e of
                SafeInvokeFunctionExpr r args \<Rightarrow>
                  safeTernaryWithTemporaryWriting write r (\<lambda>r. callFn r args) n
              | SafePropertyReadExpr r name \<Rightarrow>
                  safeTernaryWithTemporaryWriting write r (\<lambda>r. prop_of r name) n
              | SafeKeyedReadExpr r i \<Rightarrow>
                  safeTernaryWithTemporaryWriting write r (\<lambda>r. key r i) n
              | _ \<Rightarrow> (e, n))))"

definition expandOpWriting :: "(XrefId \<Rightarrow> Expression) \<Rightarrow> Op \<Rightarrow> XrefId \<Rightarrow> Op \<times> XrefId" where
  "expandOpWriting write op n =
     (case transformExpressionsInOp (safeTransformWriting write) op n of
        (op1, n1) \<Rightarrow>
          (fst (transformExpressionsInOp (pureTransform ternaryTransform) op1 ()), n1))"

definition expandSafeReadsWriting ::
  "(XrefId \<Rightarrow> Expression) \<Rightarrow> CompilationJob \<Rightarrow> CompilationJob" where
  "expandSafeReadsWriting write job =
     (case forEach (forEach (expandOpWriting write)) (units job) (nextXrefId job) of
        (units', n') \<Rightarrow> job\<lparr>nextXrefId := n', units := units'\<rparr>)"

text \<open>
  The tagged run: the deduplication writes read-temporary(M + id) where the standard mode
  writes read-temporary(id). When \<open>M\<close> is beyond the ids that the reads of the job and
  the pass use, the read-temporary nodes of the result with an id from \<open>M\<close> on are
  the reads that the deduplication has written, and the copies that later guards have taken
  of them.
\<close>

definition taggedRead :: "nat \<Rightarrow> XrefId \<Rightarrow> Expression" where
  "taggedRead M xref = ReadTemporaryExpr (M + xref)"

text \<open>
  \<open>replaceTagged write M e\<close> is the tree \<open>e\<close> with \<open>write id\<close> in the place of every
  tagged read read-temporary(M + id), and equal to \<open>e\<close> everywhere else.
\<close>

primrec
  replaceTagged :: "(XrefId \<Rightarrow> Expression) \<Rightarrow> nat \<Rightarrow> Expression \<Rightarrow> Expression" and
  replaceTaggedList ::
    "(XrefId \<Rightarrow> Expression) \<Rightarrow> nat \<Rightarrow> Expression list \<Rightarrow> Expression list" and
  replaceTaggedOption ::
    "(XrefId \<Rightarrow> Expression) \<Rightarrow> nat \<Rightarrow> Expression option \<Rightarrow> Expression option" and
  replaceTaggedEntry ::
    "(XrefId \<Rightarrow> Expression) \<Rightarrow> nat \<Rightarrow> string \<times> Expression \<Rightarrow> string \<times> Expression" and
  replaceTaggedEntries ::
    "(XrefId \<Rightarrow> Expression) \<Rightarrow> nat \<Rightarrow> (string \<times> Expression) list
      \<Rightarrow> (string \<times> Expression) list"
where
  "replaceTagged w M (ReadVarExpr x) = ReadVarExpr x"
| "replaceTagged w M (LiteralExpr v) = LiteralExpr v"
| "replaceTagged w M (UnaryOperatorExpr opr a) = UnaryOperatorExpr opr (replaceTagged w M a)"
| "replaceTagged w M (BinaryOperatorExpr opr l r) =
     BinaryOperatorExpr opr (replaceTagged w M l) (replaceTagged w M r)"
| "replaceTagged w M (ConditionalExpr c t fc) =
     ConditionalExpr (replaceTagged w M c) (replaceTagged w M t) (replaceTaggedOption w M fc)"
| "replaceTagged w M (NotExpr c) = NotExpr (replaceTagged w M c)"
| "replaceTagged w M (LiteralArrayExpr entries) = LiteralArrayExpr (replaceTaggedList w M entries)"
| "replaceTagged w M (LiteralMapExpr entries) = LiteralMapExpr (replaceTaggedEntries w M entries)"
| "replaceTagged w M (ReadPropExpr r name) = ReadPropExpr (replaceTagged w M r) name"
| "replaceTagged w M (ReadKeyExpr r i) = ReadKeyExpr (replaceTagged w M r) (replaceTagged w M i)"
| "replaceTagged w M (InvokeFunctionExpr r args) =
     InvokeFunctionExpr (replaceTagged w M r) (replaceTaggedList w M args)"
| "replaceTagged w M (SafePropertyReadExpr r name) =
     SafePropertyReadExpr (replaceTagged w M r) name"
| "replaceTagged w M (SafeKeyedReadExpr r i) =
     SafeKeyedReadExpr (replaceTagged w M r) (replaceTagged w M i)"
| "replaceTagged w M (SafeInvokeFunctionExpr r args) =
     SafeInvokeFunctionExpr (replaceTagged w M r) (replaceTaggedList w M args)"
| "replaceTagged w M (PipeBindingExpr name args) = PipeBindingExpr name (replaceTaggedList w M args)"
| "replaceTagged w M (AssignTemporaryExpr a xref) = AssignTemporaryExpr (replaceTagged w M a) xref"
| "replaceTagged w M (ReadTemporaryExpr xref) =
     (if M \<le> xref then w (xref - M) else ReadTemporaryExpr xref)"
| "replaceTagged w M (SafeTernaryExpr g b) =
     SafeTernaryExpr (replaceTagged w M g) (replaceTagged w M b)"
| "replaceTaggedList w M [] = []"
| "replaceTaggedList w M (e # es) = replaceTagged w M e # replaceTaggedList w M es"
| "replaceTaggedOption w M None = None"
| "replaceTaggedOption w M (Some e) = Some (replaceTagged w M e)"
| "replaceTaggedEntry w M (k, v) = (k, replaceTagged w M v)"
| "replaceTaggedEntries w M [] = []"
| "replaceTaggedEntries w M (entry # entries) =
     replaceTaggedEntry w M entry # replaceTaggedEntries w M entries"

text \<open>The ids of the read-temporary nodes of a tree, one entry per node.\<close>

primrec
  readXrefs :: "Expression \<Rightarrow> XrefId list" and
  readXrefsList :: "Expression list \<Rightarrow> XrefId list" and
  readXrefsOption :: "Expression option \<Rightarrow> XrefId list" and
  readXrefsEntry :: "string \<times> Expression \<Rightarrow> XrefId list" and
  readXrefsEntries :: "(string \<times> Expression) list \<Rightarrow> XrefId list"
where
  "readXrefs (ReadVarExpr x) = []"
| "readXrefs (LiteralExpr v) = []"
| "readXrefs (UnaryOperatorExpr opr a) = readXrefs a"
| "readXrefs (BinaryOperatorExpr opr l r) = readXrefs l @ readXrefs r"
| "readXrefs (ConditionalExpr c t fc) = readXrefs c @ readXrefs t @ readXrefsOption fc"
| "readXrefs (NotExpr c) = readXrefs c"
| "readXrefs (LiteralArrayExpr entries) = readXrefsList entries"
| "readXrefs (LiteralMapExpr entries) = readXrefsEntries entries"
| "readXrefs (ReadPropExpr r name) = readXrefs r"
| "readXrefs (ReadKeyExpr r i) = readXrefs r @ readXrefs i"
| "readXrefs (InvokeFunctionExpr r args) = readXrefs r @ readXrefsList args"
| "readXrefs (SafePropertyReadExpr r name) = readXrefs r"
| "readXrefs (SafeKeyedReadExpr r i) = readXrefs r @ readXrefs i"
| "readXrefs (SafeInvokeFunctionExpr r args) = readXrefs r @ readXrefsList args"
| "readXrefs (PipeBindingExpr name args) = readXrefsList args"
| "readXrefs (AssignTemporaryExpr a xref) = readXrefs a"
| "readXrefs (ReadTemporaryExpr xref) = [xref]"
| "readXrefs (SafeTernaryExpr g b) = readXrefs g @ readXrefs b"
| "readXrefsList [] = []"
| "readXrefsList (e # es) = readXrefs e @ readXrefsList es"
| "readXrefsOption None = []"
| "readXrefsOption (Some e) = readXrefs e"
| "readXrefsEntry (k, v) = readXrefs v"
| "readXrefsEntries [] = []"
| "readXrefsEntries (entry # entries) = readXrefsEntry entry @ readXrefsEntries entries"

definition readXrefsInJob :: "CompilationJob \<Rightarrow> XrefId list" where
  "readXrefsInJob job = readXrefsList (jobExpressions job)"

section \<open>Induction over expressions and the lists nested in them\<close>

lemmas Expression_conj_induct =
  transformInternalExpressions_transformExpressionList_transformOptionalExpression_transformMapEntry_transformMapEntries.induct

lemmas Expression_mutual_induct =
  Expression_conj_induct[THEN conjunct1]
  Expression_conj_induct[THEN conjunct2, THEN conjunct1]
  Expression_conj_induct[THEN conjunct2, THEN conjunct2, THEN conjunct1]
  Expression_conj_induct[THEN conjunct2, THEN conjunct2, THEN conjunct2, THEN conjunct1]
  Expression_conj_induct[THEN conjunct2, THEN conjunct2, THEN conjunct2, THEN conjunct2]

section \<open>The visitor, node by node\<close>

text \<open>The equations of the visitor, stated with the visitor itself on the children.\<close>

lemma transformInternalExpressions_node:
  "transformInternalExpressions f (ReadVarExpr x) s = (ReadVarExpr x, s)"
  "transformInternalExpressions f (LiteralExpr v) s = (LiteralExpr v, s)"
  "transformInternalExpressions f (UnaryOperatorExpr opr a) s =
     (case transformExpressionsInExpression f a s of (a', s1) \<Rightarrow> (UnaryOperatorExpr opr a', s1))"
  "transformInternalExpressions f (BinaryOperatorExpr bop l r) s =
     (case transformExpressionsInExpression f l s of (l', s1) \<Rightarrow>
      case transformExpressionsInExpression f r s1 of (r', s2) \<Rightarrow>
        (BinaryOperatorExpr bop l' r', s2))"
  "transformInternalExpressions f (ConditionalExpr c t fc) s =
     (case transformExpressionsInExpression f c s of (c', s1) \<Rightarrow>
      case transformExpressionsInExpression f t s1 of (t', s2) \<Rightarrow>
      case transformOptionalExpression f fc s2 of (fc', s3) \<Rightarrow> (ConditionalExpr c' t' fc', s3))"
  "transformInternalExpressions f (NotExpr c) s =
     (case transformExpressionsInExpression f c s of (c', s1) \<Rightarrow> (NotExpr c', s1))"
  "transformInternalExpressions f (LiteralArrayExpr es) s =
     (case transformExpressionList f es s of (es', s1) \<Rightarrow> (LiteralArrayExpr es', s1))"
  "transformInternalExpressions f (LiteralMapExpr entries) s =
     (case transformMapEntries f entries s of (entries', s1) \<Rightarrow> (LiteralMapExpr entries', s1))"
  "transformInternalExpressions f (ReadPropExpr r name) s =
     (case transformExpressionsInExpression f r s of (r', s1) \<Rightarrow> (ReadPropExpr r' name, s1))"
  "transformInternalExpressions f (ReadKeyExpr r i) s =
     (case transformExpressionsInExpression f r s of (r', s1) \<Rightarrow>
      case transformExpressionsInExpression f i s1 of (i', s2) \<Rightarrow> (ReadKeyExpr r' i', s2))"
  "transformInternalExpressions f (InvokeFunctionExpr r args) s =
     (case transformExpressionsInExpression f r s of (r', s1) \<Rightarrow>
      case transformExpressionList f args s1 of (args', s2) \<Rightarrow> (InvokeFunctionExpr r' args', s2))"
  "transformInternalExpressions f (SafePropertyReadExpr r name) s =
     (case transformExpressionsInExpression f r s of (r', s1) \<Rightarrow>
        (SafePropertyReadExpr r' name, s1))"
  "transformInternalExpressions f (SafeKeyedReadExpr r i) s =
     (case transformExpressionsInExpression f r s of (r', s1) \<Rightarrow>
      case transformExpressionsInExpression f i s1 of (i', s2) \<Rightarrow> (SafeKeyedReadExpr r' i', s2))"
  "transformInternalExpressions f (SafeInvokeFunctionExpr r args) s =
     (case transformExpressionsInExpression f r s of (r', s1) \<Rightarrow>
      case transformExpressionList f args s1 of (args', s2) \<Rightarrow>
        (SafeInvokeFunctionExpr r' args', s2))"
  "transformInternalExpressions f (PipeBindingExpr name args) s =
     (case transformExpressionList f args s of (args', s1) \<Rightarrow> (PipeBindingExpr name args', s1))"
  "transformInternalExpressions f (AssignTemporaryExpr a xref) s =
     (case transformExpressionsInExpression f a s of (a', s1) \<Rightarrow> (AssignTemporaryExpr a' xref, s1))"
  "transformInternalExpressions f (ReadTemporaryExpr xref) s = (ReadTemporaryExpr xref, s)"
  "transformInternalExpressions f (SafeTernaryExpr g b) s =
     (case transformExpressionsInExpression f g s of (g', s1) \<Rightarrow>
      case transformExpressionsInExpression f b s1 of (b', s2) \<Rightarrow> (SafeTernaryExpr g' b', s2))"
  by (simp_all add: transformExpressionsInExpression_def split: prod.splits)

lemma transformExpressionList_node:
  "transformExpressionList f [] s = ([], s)"
  "transformExpressionList f (e # es) s =
     (case transformExpressionsInExpression f e s of (e', s1) \<Rightarrow>
      case transformExpressionList f es s1 of (es', s2) \<Rightarrow> (e' # es', s2))"
  "transformOptionalExpression f None s = (None, s)"
  "transformOptionalExpression f (Some e) s =
     (case transformExpressionsInExpression f e s of (e', s1) \<Rightarrow> (Some e', s1))"
  "transformMapEntry f (k, v) s =
     (case transformExpressionsInExpression f v s of (v', s1) \<Rightarrow> ((k, v'), s1))"
  by (simp_all add: transformExpressionsInExpression_def split: prod.splits)

lemmas visit_children =
  transformInternalExpressions_node transformExpressionList_node transformMapEntries.simps

lemmas visit_primrec =
  transformInternalExpressions.simps transformExpressionList.simps
  transformOptionalExpression.simps transformMapEntry.simps

lemma transformExpressionsInExpression_node:
  "transformExpressionsInExpression f e s =
     (case transformInternalExpressions f e s of (e0, s0) \<Rightarrow> f e0 s0)"
  by (simp add: transformExpressionsInExpression_def)

text \<open>The visitor's equations for a whole node, constructor by constructor.\<close>

lemmas visit_node =
  transformExpressionsInExpression_node [of _ "ReadVarExpr _"]
  transformExpressionsInExpression_node [of _ "LiteralExpr _"]
  transformExpressionsInExpression_node [of _ "UnaryOperatorExpr _ _"]
  transformExpressionsInExpression_node [of _ "BinaryOperatorExpr _ _ _"]
  transformExpressionsInExpression_node [of _ "ConditionalExpr _ _ _"]
  transformExpressionsInExpression_node [of _ "NotExpr _"]
  transformExpressionsInExpression_node [of _ "LiteralArrayExpr _"]
  transformExpressionsInExpression_node [of _ "LiteralMapExpr _"]
  transformExpressionsInExpression_node [of _ "ReadPropExpr _ _"]
  transformExpressionsInExpression_node [of _ "ReadKeyExpr _ _"]
  transformExpressionsInExpression_node [of _ "InvokeFunctionExpr _ _"]
  transformExpressionsInExpression_node [of _ "SafePropertyReadExpr _ _"]
  transformExpressionsInExpression_node [of _ "SafeKeyedReadExpr _ _"]
  transformExpressionsInExpression_node [of _ "SafeInvokeFunctionExpr _ _"]
  transformExpressionsInExpression_node [of _ "PipeBindingExpr _ _"]
  transformExpressionsInExpression_node [of _ "AssignTemporaryExpr _ _"]
  transformExpressionsInExpression_node [of _ "ReadTemporaryExpr _"]
  transformExpressionsInExpression_node [of _ "SafeTernaryExpr _ _"]

text \<open>The visitor with a transform that has no effect.\<close>

lemma pureTransform_apply: "pureTransform g e u = (g e, u)"
  by (simp add: pureTransform_def)

section \<open>Evaluating the pass\<close>

lemmas pass_defs =
  singleExpressionJob_def expandSafeReads_def expandOp_def transformExpressionsInOp_def
  transformExpressionsInExpression_def safeTransform_def isAccessExpression_def
  isSafeAccessExpression_def isUnsafeAccessExpression_def deepestSafeTernary_def receiver_def
  isSafeTernaryExpr_def safeTernaryWithTemporary_def eliminateTemporaryAssignments_def
  pureTransform_def eliminateAssignment_def temporariesIn_def collectTemporary_def clone_def
  prop_of_def key_def callFn_def ternaryTransform_def allocateXrefId_def

section \<open>Double safe chain\<close>

text \<open>
  C1. For the input \<open>a?.b?.c\<close>, a safe property read whose receiver is a safe property
  read of the bare reference \<open>a\<close>, the full pass (the \<open>safeTransform\<close> sweep, then the
  \<open>ternaryTransform\<close> sweep) yields \<open>a == null ? null : (a.b == null ? null : a.b.c)\<close>:
  each safe operator has its own guard, the second nested in the body of the first. No
  temporary is minted, in either compatibility mode.
\<close>

theorem double_safe_chain_nested:
  "expandSafeReads
     (singleExpressionJob mode n
        (SafePropertyReadExpr (SafePropertyReadExpr (ReadVarExpr a) b) c)) =
   singleExpressionJob mode n
     (ConditionalExpr (BinaryOperatorExpr Equals (ReadVarExpr a) NULL_EXPR) NULL_EXPR
        (Some (ConditionalExpr
                 (BinaryOperatorExpr Equals (ReadPropExpr (ReadVarExpr a) b) NULL_EXPR) NULL_EXPR
                 (Some (ReadPropExpr (ReadPropExpr (ReadVarExpr a) b) c)))))"
  by (simp add: pass_defs)

section \<open>The classifier\<close>

inductive_simps containsTemporaryRequiring_simps:
  "containsTemporaryRequiring (ReadVarExpr x)"
  "containsTemporaryRequiring (LiteralExpr v)"
  "containsTemporaryRequiring (UnaryOperatorExpr opr e)"
  "containsTemporaryRequiring (BinaryOperatorExpr opr l r)"
  "containsTemporaryRequiring (ConditionalExpr c t fc)"
  "containsTemporaryRequiring (NotExpr c)"
  "containsTemporaryRequiring (ReadPropExpr r name)"
  "containsTemporaryRequiring (ReadKeyExpr r i)"
  "containsTemporaryRequiring (SafePropertyReadExpr r name)"
  "containsTemporaryRequiring (SafeKeyedReadExpr r i)"
  "containsTemporaryRequiring (AssignTemporaryExpr e xref)"
  "containsTemporaryRequiring (ReadTemporaryExpr xref)"
  "containsTemporaryRequiring (SafeTernaryExpr g b)"

lemma needsTemporary_iff_contains:
  "needsTemporaryInSafeAccess e = containsTemporaryRequiring e"
  by (induction e rule: needsTemporaryInSafeAccess.induct)
     (auto simp: containsTemporaryRequiring_simps containsTemporaryRequiring.intros
           split: option.splits)

text \<open>
  C7. \<open>needsTemporaryInSafeAccess\<close> is true of an expression exactly when the expression
  is, or contains along the paths the spec lists (a unary operand, either side of a binary
  operator, the condition, true case or false case of a conditional, the operand of a
  logical not, the inner expression of an assign-temporary, the receiver of a property read,
  the receiver or index of a keyed read), a function invoke, an array literal, a map literal,
  a safe function invoke or a pipe binding. It is false of every other shape: a safe
  property read and a safe keyed read (whose receivers are not looked into), a safe ternary,
  a read-temporary, a variable read, a literal.
\<close>

theorem classifier_matches_spec:
  "(needsTemporaryInSafeAccess e \<longleftrightarrow> containsTemporaryRequiring e) \<and>
   \<not> needsTemporaryInSafeAccess (SafePropertyReadExpr r name) \<and>
   \<not> needsTemporaryInSafeAccess (SafeKeyedReadExpr r i) \<and>
   \<not> needsTemporaryInSafeAccess (SafeTernaryExpr g b) \<and>
   \<not> needsTemporaryInSafeAccess (ReadTemporaryExpr xref) \<and>
   \<not> needsTemporaryInSafeAccess (ReadVarExpr x) \<and>
   \<not> needsTemporaryInSafeAccess (LiteralExpr v)"
  using needsTemporary_iff_contains [of e] by simp

theorem classifier_matches_spec_witness:
  "needsTemporaryInSafeAccess
     (ReadKeyExpr (ReadVarExpr ''a'') (NotExpr (InvokeFunctionExpr (ReadVarExpr ''f'') []))) \<and>
   containsTemporaryRequiring
     (ReadKeyExpr (ReadVarExpr ''a'') (NotExpr (InvokeFunctionExpr (ReadVarExpr ''f'') []))) \<and>
   \<not> containsTemporaryRequiring
     (SafePropertyReadExpr (InvokeFunctionExpr (ReadVarExpr ''f'') []) ''b'')"
  using classifier_matches_spec
    [of "ReadKeyExpr (ReadVarExpr ''a'') (NotExpr (InvokeFunctionExpr (ReadVarExpr ''f'') []))"]
    classifier_matches_spec
    [of "SafePropertyReadExpr (InvokeFunctionExpr (ReadVarExpr ''f'') []) ''b''"]
  by simp

section \<open>Ternary lowering\<close>

lemma sweep_ternaryTransform:
  "transformExpressionsInExpression (pureTransform ternaryTransform) e u = (lowered e, u)"
  "transformExpressionList (pureTransform ternaryTransform) es u = (map lowered es, u)"
  "transformOptionalExpression (pureTransform ternaryTransform) fc u = (map_option lowered fc, u)"
  "transformMapEntry (pureTransform ternaryTransform) entry u = (map_prod id lowered entry, u)"
  "transformMapEntries (pureTransform ternaryTransform) entries u =
     (map (map_prod id lowered) entries, u)"
  by (induct e and es and fc and entry and entries
        arbitrary: u and u and u and u and u rule: Expression_mutual_induct)
     (simp_all add: transformExpressionsInExpression_def pureTransform_def ternaryTransform_def
        split: prod.splits)

lemma lowered_everyNode_noSafeTernary:
  "everyNode (\<lambda>x. \<not> isSafeTernaryExpr x) (lowered e)"
  "list_all (everyNode (\<lambda>x. \<not> isSafeTernaryExpr x)) (map lowered es)"
  "pred_option (everyNode (\<lambda>x. \<not> isSafeTernaryExpr x)) (map_option lowered fc)"
  "pred_prod (\<lambda>k. True) (everyNode (\<lambda>x. \<not> isSafeTernaryExpr x))
     (map_prod id lowered (entry :: string \<times> Expression))"
  "list_all (pred_prod (\<lambda>k. True) (everyNode (\<lambda>x. \<not> isSafeTernaryExpr x)))
     (map (map_prod id lowered) (entries :: (string \<times> Expression) list))"
  by (induct e and es and fc and entry and entries rule: Expression_mutual_induct)
     (simp_all add: isSafeTernaryExpr_def NULL_EXPR_def id_def)

lemma noSafeTernary_lowered: "noSafeTernary (lowered e)"
  by (simp add: noSafeTernary_def lowered_everyNode_noSafeTernary)

lemma forEach_pure_sweep:
  "forEach (transformExpressionsInExpression (pureTransform ternaryTransform)) es u =
     (map lowered es, u)"
  by (induction es) (simp_all add: sweep_ternaryTransform)

lemma expandOp_lowered:
  "expandOp mode op n =
     (map lowered (fst (forEach (transformExpressionsInExpression (safeTransform mode)) op n)),
      snd (forEach (transformExpressionsInExpression (safeTransform mode)) op n))"
  by (simp add: expandOp_def transformExpressionsInOp_def forEach_pure_sweep split: prod.splits)

lemma expandOp_noSafeTernary: "list_all noSafeTernary (fst (expandOp mode op n))"
  by (simp add: expandOp_lowered list_all_iff noSafeTernary_lowered)

lemma forEach_list_all:
  assumes "\<And>x s. P (fst (f x s))"
  shows "list_all P (fst (forEach f xs s))"
  using assms by (induction xs arbitrary: s) (simp_all add: split_beta)

lemma list_all_concat_iff: "list_all P (concat xss) = list_all (list_all P) xss"
  by (induction xss) simp_all

lemma units_expandSafeReads:
  "units (expandSafeReads job) =
     fst (forEach (forEach (expandOp (compatibility job))) (units job) (nextXrefId job))"
  by (simp add: expandSafeReads_def split_beta)

lemma nextXrefId_expandSafeReads:
  "nextXrefId (expandSafeReads job) =
     snd (forEach (forEach (expandOp (compatibility job))) (units job) (nextXrefId job))"
  by (simp add: expandSafeReads_def split_beta)

lemma compatibility_expandSafeReads:
  "compatibility (expandSafeReads job) = compatibility job"
  by (simp add: expandSafeReads_def split_beta)

lemma expandSafeReads_noSafeTernary:
  "list_all noSafeTernary (jobExpressions (expandSafeReads job))"
  unfolding jobExpressions_def units_expandSafeReads list_all_concat_iff
  by (intro forEach_list_all expandOp_noSafeTernary)

text \<open>
  C8. \<open>ternaryTransform\<close> maps a safe ternary of guard \<open>g\<close> and body \<open>b\<close> to the
  conditional \<open>g == null ? null : b\<close> and leaves every other expression as it is. Swept
  over a tree by the visitor, it replaces the safe ternaries at every depth (the result is
  \<open>lowered\<close>, the spec's replacement of every safe ternary), and after the pass no
  expression of any op of the job contains a safe ternary.
\<close>

theorem ternary_lowering:
  "ternaryTransform (SafeTernaryExpr g b) =
     ConditionalExpr (BinaryOperatorExpr Equals g NULL_EXPR) NULL_EXPR (Some b) \<and>
   (\<not> isSafeTernaryExpr e \<longrightarrow> ternaryTransform e = e) \<and>
   transformExpressionsInExpression (pureTransform ternaryTransform) e () = (lowered e, ()) \<and>
   noSafeTernary (lowered e) \<and>
   list_all noSafeTernary (jobExpressions (expandSafeReads job))"
proof -
  have "\<not> isSafeTernaryExpr e \<longrightarrow> ternaryTransform e = e"
    by (cases e) (simp_all add: isSafeTernaryExpr_def ternaryTransform_def)
  then show ?thesis
    by (simp add: ternaryTransform_def sweep_ternaryTransform noSafeTernary_lowered
        expandSafeReads_noSafeTernary)
qed

theorem ternary_lowering_witness:
  "\<not> isSafeTernaryExpr (ReadVarExpr ''a'') \<and>
   ternaryTransform (ReadVarExpr ''a'') = ReadVarExpr ''a'' \<and>
   ternaryTransform (SafeTernaryExpr (ReadVarExpr ''a'') (ReadPropExpr (ReadVarExpr ''a'') ''b'')) =
     ConditionalExpr (BinaryOperatorExpr Equals (ReadVarExpr ''a'') NULL_EXPR) NULL_EXPR
       (Some (ReadPropExpr (ReadVarExpr ''a'') ''b'')) \<and>
   list_all noSafeTernary
     (jobExpressions (expandSafeReads (singleExpressionJob Normal 0
        (NotExpr (SafeTernaryExpr (SafeTernaryExpr (ReadVarExpr ''a'') (ReadVarExpr ''b''))
           (SafePropertyReadExpr (ReadVarExpr ''c'') ''d''))))))"
  using ternary_lowering [of "ReadVarExpr ''a''" "ReadPropExpr (ReadVarExpr ''a'') ''b''"
      "ReadVarExpr ''a''"
      "singleExpressionJob Normal 0
        (NotExpr (SafeTernaryExpr (SafeTernaryExpr (ReadVarExpr ''a'') (ReadVarExpr ''b''))
           (SafePropertyReadExpr (ReadVarExpr ''c'') ''d'')))"]
  by (simp add: isSafeTernaryExpr_def)

section \<open>Chains\<close>

lemma guardChain_decompose:
  "isSafeTernaryExpr r \<Longrightarrow>
   \<exists>gs b. gs \<noteq> [] \<and> \<not> isSafeTernaryExpr b \<and> r = guardChain gs b"
proof (induction r rule: innermostExpr.induct)
  case (1 g b)
  show ?case
  proof (cases "isSafeTernaryExpr b")
    case True
    with 1 obtain gs b' where "gs \<noteq> []" "\<not> isSafeTernaryExpr b'" "b = guardChain gs b'" by blast
    then have "g # gs \<noteq> [] \<and> \<not> isSafeTernaryExpr b' \<and> SafeTernaryExpr g b = guardChain (g # gs) b'"
      by simp
    then show ?thesis by blast
  next
    case False
    then have "[g] \<noteq> [] \<and> \<not> isSafeTernaryExpr b \<and> SafeTernaryExpr g b = guardChain [g] b" by simp
    then show ?thesis by blast
  qed
qed (simp_all add: isSafeTernaryExpr_def)

lemma isSafeTernaryExpr_guardChain:
  "isSafeTernaryExpr (guardChain gs b) = (gs \<noteq> [] \<or> isSafeTernaryExpr b)"
  by (cases gs) (simp_all add: isSafeTernaryExpr_def)

lemma exprOf_deepestFrom_guardChain:
  "\<not> isSafeTernaryExpr b \<Longrightarrow> exprOf (deepestFrom (guardChain gs b)) = b"
  by (induction gs) (auto simp: isSafeTernaryExpr_guardChain isSafeTernaryExpr_def split: Expression.splits)

lemma assignDeepestExpr_guardChain:
  "gs \<noteq> [] \<Longrightarrow> \<not> isSafeTernaryExpr b \<Longrightarrow> assignDeepestExpr (guardChain gs b) v = guardChain gs v"
  by (induction gs) (auto simp: isSafeTernaryExpr_guardChain)

text \<open>
  C2. A plain access (property read, keyed read or function invoke) whose receiver is a
  chain of safe ternaries with guards \<open>gs\<close> and innermost body \<open>b\<close> is rewritten by
  \<open>safeTransform\<close> to the same chain, with the same guards, whose innermost body is that
  access applied to \<open>b\<close>: the access is folded into the deepest open guard and the visited
  node is replaced by its receiver; no id is minted. So \<open>a?.b.c\<close> is lowered under a
  single guard, to \<open>a == null ? null : a.b.c\<close>.
\<close>

theorem plain_access_folds_into_open_guard:
  assumes "gs \<noteq> []" and "\<not> isSafeTernaryExpr b"
  shows
    "safeTransform mode (ReadPropExpr (guardChain gs b) name) n =
       (guardChain gs (ReadPropExpr b name), n) \<and>
     safeTransform mode (ReadKeyExpr (guardChain gs b) i) n =
       (guardChain gs (ReadKeyExpr b i), n) \<and>
     safeTransform mode (InvokeFunctionExpr (guardChain gs b) args) n =
       (guardChain gs (InvokeFunctionExpr b args), n) \<and>
     expandSafeReads
       (singleExpressionJob mode n
          (ReadPropExpr (SafePropertyReadExpr (ReadVarExpr a) p) c)) =
     singleExpressionJob mode n
       (ConditionalExpr (BinaryOperatorExpr Equals (ReadVarExpr a) NULL_EXPR) NULL_EXPR
          (Some (ReadPropExpr (ReadPropExpr (ReadVarExpr a) p) c)))"
proof -
  have st: "isSafeTernaryExpr (guardChain gs b)"
    using assms by (simp add: isSafeTernaryExpr_guardChain)
  have "safeTransform mode (ReadPropExpr (guardChain gs b) name) n =
       (guardChain gs (ReadPropExpr b name), n)"
    using st assms
    by (simp add: safeTransform_def isAccessExpression_def isUnsafeAccessExpression_def
        deepestSafeTernary_def receiver_def exprOf_deepestFrom_guardChain
        assignDeepestExpr_guardChain prop_of_def)
  moreover have "safeTransform mode (ReadKeyExpr (guardChain gs b) i) n =
       (guardChain gs (ReadKeyExpr b i), n)"
    using st assms
    by (simp add: safeTransform_def isAccessExpression_def isUnsafeAccessExpression_def
        deepestSafeTernary_def receiver_def exprOf_deepestFrom_guardChain
        assignDeepestExpr_guardChain key_def)
  moreover have "safeTransform mode (InvokeFunctionExpr (guardChain gs b) args) n =
       (guardChain gs (InvokeFunctionExpr b args), n)"
    using st assms
    by (simp add: safeTransform_def isAccessExpression_def isUnsafeAccessExpression_def
        deepestSafeTernary_def receiver_def exprOf_deepestFrom_guardChain
        assignDeepestExpr_guardChain callFn_def)
  moreover have "expandSafeReads
       (singleExpressionJob mode n
          (ReadPropExpr (SafePropertyReadExpr (ReadVarExpr a) p) c)) =
     singleExpressionJob mode n
       (ConditionalExpr (BinaryOperatorExpr Equals (ReadVarExpr a) NULL_EXPR) NULL_EXPR
          (Some (ReadPropExpr (ReadPropExpr (ReadVarExpr a) p) c)))"
    by (simp add: pass_defs)
  ultimately show ?thesis by simp
qed

theorem plain_access_folds_into_open_guard_witness:
  "[ReadVarExpr ''a'', ReadVarExpr ''x''] \<noteq> [] \<and>
   \<not> isSafeTernaryExpr (ReadPropExpr (ReadVarExpr ''x'') ''b'') \<and>
   safeTransform Normal
     (InvokeFunctionExpr
        (SafeTernaryExpr (ReadVarExpr ''a'')
           (SafeTernaryExpr (ReadVarExpr ''x'') (ReadPropExpr (ReadVarExpr ''x'') ''b'')))
        [ReadVarExpr ''y'']) 0 =
     (SafeTernaryExpr (ReadVarExpr ''a'')
        (SafeTernaryExpr (ReadVarExpr ''x'')
           (InvokeFunctionExpr (ReadPropExpr (ReadVarExpr ''x'') ''b'') [ReadVarExpr ''y''])), 0)"
  using plain_access_folds_into_open_guard
    [of "[ReadVarExpr ''a'', ReadVarExpr ''x'']" "ReadPropExpr (ReadVarExpr ''x'') ''b''"
      Normal "''n''" 0 "ReadVarExpr ''i''" "[ReadVarExpr ''y'']" "''a''" "''p''" "''c''"]
  by (simp add: isSafeTernaryExpr_def)

section \<open>Guard materialization\<close>

lemma eliminate_no_assignment:
  "assignedXrefs e = [] \<Longrightarrow>
     transformInternalExpressions (pureTransform (eliminateAssignment tmps mode)) e u = (e, u) \<and>
     transformExpressionsInExpression (pureTransform (eliminateAssignment tmps mode)) e u = (e, u)"
  "assignedXrefsList es = [] \<Longrightarrow>
     transformExpressionList (pureTransform (eliminateAssignment tmps mode)) es u = (es, u)"
  "assignedXrefsOption fc = [] \<Longrightarrow>
     transformOptionalExpression (pureTransform (eliminateAssignment tmps mode)) fc u = (fc, u)"
  "assignedXrefsEntry entry = [] \<Longrightarrow>
     transformMapEntry (pureTransform (eliminateAssignment tmps mode)) entry u = (entry, u)"
  "assignedXrefsEntries entries = [] \<Longrightarrow>
     transformMapEntries (pureTransform (eliminateAssignment tmps mode)) entries u = (entries, u)"
proof (induct e and es and fc and entry and entries
        arbitrary: u and u and u and u and u rule: Expression_mutual_induct)
qed (simp_all add: visit_children visit_node pureTransform_apply eliminateAssignment_def
       del: visit_primrec)

lemma eliminateTemporaryAssignments_no_assignment:
  "assignedXrefs e = [] \<Longrightarrow> eliminateTemporaryAssignments e tmps mode = e"
  by (simp add: eliminateTemporaryAssignments_def eliminate_no_assignment)

text \<open>
  C3. Building a safe ternary for a guard \<open>G\<close> follows the classifier. If
  \<open>needsTemporaryInSafeAccess G\<close>, a fresh id is taken from the allocator (the next id
  \<open>n\<close>, and the allocator steps to \<open>Suc n\<close>); the guard is assign-temporary(\<open>G\<close>, \<open>n\<close>)
  and the body is built over read-temporary(\<open>n\<close>). Otherwise \<open>G\<close> itself is the guard, the
  body is built over the copy of \<open>G\<close> (after the deduplication of its temporaries, which
  leaves a \<open>G\<close> without assignments as it is), and the allocator is untouched. So
  \<open>f()?.x\<close> becomes \<open>(t = f()) == null ? null : t.x\<close> with \<open>f()\<close> occurring once, and
  \<open>a?.x\<close> for a bare reference \<open>a\<close> mints no temporary.
\<close>

theorem guard_materialization:
  "(needsTemporaryInSafeAccess G \<longrightarrow>
      safeTernaryWithTemporary G body mode n =
        (SafeTernaryExpr (AssignTemporaryExpr G n) (body (ReadTemporaryExpr n)), Suc n)) \<and>
   (\<not> needsTemporaryInSafeAccess G \<longrightarrow>
      safeTernaryWithTemporary G body mode n =
        (SafeTernaryExpr G
           (body (eliminateTemporaryAssignments (clone G) (temporariesIn G) mode)), n)) \<and>
   (\<not> needsTemporaryInSafeAccess G \<and> assignedXrefs G = [] \<longrightarrow>
      safeTernaryWithTemporary G body mode n = (SafeTernaryExpr G (body G), n)) \<and>
   expandSafeReads
     (singleExpressionJob mode n
        (SafePropertyReadExpr (InvokeFunctionExpr (ReadVarExpr f) []) x)) =
     singleExpressionJob mode (Suc n)
       (ConditionalExpr
          (BinaryOperatorExpr Equals
             (AssignTemporaryExpr (InvokeFunctionExpr (ReadVarExpr f) []) n) NULL_EXPR)
          NULL_EXPR
          (Some (ReadPropExpr (ReadTemporaryExpr n) x))) \<and>
   expandSafeReads (singleExpressionJob mode n (SafePropertyReadExpr (ReadVarExpr a) x)) =
     singleExpressionJob mode n
       (ConditionalExpr (BinaryOperatorExpr Equals (ReadVarExpr a) NULL_EXPR) NULL_EXPR
          (Some (ReadPropExpr (ReadVarExpr a) x)))"
proof -
  have "expandSafeReads
     (singleExpressionJob mode n
        (SafePropertyReadExpr (InvokeFunctionExpr (ReadVarExpr f) []) x)) =
     singleExpressionJob mode (Suc n)
       (ConditionalExpr
          (BinaryOperatorExpr Equals
             (AssignTemporaryExpr (InvokeFunctionExpr (ReadVarExpr f) []) n) NULL_EXPR)
          NULL_EXPR
          (Some (ReadPropExpr (ReadTemporaryExpr n) x)))"
    by (simp add: pass_defs)
  moreover have "expandSafeReads (singleExpressionJob mode n (SafePropertyReadExpr (ReadVarExpr a) x)) =
     singleExpressionJob mode n
       (ConditionalExpr (BinaryOperatorExpr Equals (ReadVarExpr a) NULL_EXPR) NULL_EXPR
          (Some (ReadPropExpr (ReadVarExpr a) x)))"
    by (simp add: pass_defs)
  ultimately show ?thesis
    by (simp add: safeTernaryWithTemporary_def allocateXrefId_def clone_def
        eliminateTemporaryAssignments_no_assignment)
qed

theorem guard_materialization_witness:
  "needsTemporaryInSafeAccess (ReadPropExpr (InvokeFunctionExpr (ReadVarExpr ''f'') []) ''y'') \<and>
   safeTernaryWithTemporary (ReadPropExpr (InvokeFunctionExpr (ReadVarExpr ''f'') []) ''y'')
       (\<lambda>r. prop_of r ''x'') Normal 4 =
     (SafeTernaryExpr
        (AssignTemporaryExpr (ReadPropExpr (InvokeFunctionExpr (ReadVarExpr ''f'') []) ''y'') 4)
        (ReadPropExpr (ReadTemporaryExpr 4) ''x''), 5) \<and>
   \<not> needsTemporaryInSafeAccess (ReadPropExpr (ReadVarExpr ''a'') ''y'') \<and>
   assignedXrefs (ReadPropExpr (ReadVarExpr ''a'') ''y'') = [] \<and>
   safeTernaryWithTemporary (ReadPropExpr (ReadVarExpr ''a'') ''y'')
       (\<lambda>r. prop_of r ''x'') Normal 4 =
     (SafeTernaryExpr (ReadPropExpr (ReadVarExpr ''a'') ''y'')
        (ReadPropExpr (ReadPropExpr (ReadVarExpr ''a'') ''y'') ''x''), 4)"
  using guard_materialization
      [of "ReadPropExpr (InvokeFunctionExpr (ReadVarExpr ''f'') []) ''y''"
        "\<lambda>r. prop_of r ''x''" Normal 4 "''f''" "''x''" "''a''"]
    guard_materialization
      [of "ReadPropExpr (ReadVarExpr ''a'') ''y''"
        "\<lambda>r. prop_of r ''x''" Normal 4 "''f''" "''x''" "''a''"]
  by (simp add: pass_defs)

section \<open>safeTransform on the six access kinds\<close>

lemma exprOf_deepestFrom: "exprOf (deepestFrom r) = innermostExpr r"
  by (induction r rule: innermostExpr.induct)
     (auto simp: isSafeTernaryExpr_def split: Expression.splits)

lemma innermostExpr_not_ternary: "\<not> isSafeTernaryExpr r \<Longrightarrow> innermostExpr r = r"
  by (cases r) (simp_all add: isSafeTernaryExpr_def)

lemma safeTransform_ReadPropExpr:
  "safeTransform mode (ReadPropExpr r name) n =
     (if isSafeTernaryExpr r then assignDeepestExpr r (ReadPropExpr (innermostExpr r) name)
      else ReadPropExpr r name, n)"
  by (simp add: safeTransform_def isAccessExpression_def isUnsafeAccessExpression_def
      deepestSafeTernary_def receiver_def exprOf_deepestFrom prop_of_def)

lemma safeTransform_ReadKeyExpr:
  "safeTransform mode (ReadKeyExpr r i) n =
     (if isSafeTernaryExpr r then assignDeepestExpr r (ReadKeyExpr (innermostExpr r) i)
      else ReadKeyExpr r i, n)"
  by (simp add: safeTransform_def isAccessExpression_def isUnsafeAccessExpression_def
      deepestSafeTernary_def receiver_def exprOf_deepestFrom key_def)

lemma safeTransform_InvokeFunctionExpr:
  "safeTransform mode (InvokeFunctionExpr r args) n =
     (if isSafeTernaryExpr r
      then assignDeepestExpr r (InvokeFunctionExpr (innermostExpr r) args)
      else InvokeFunctionExpr r args, n)"
  by (simp add: safeTransform_def isAccessExpression_def isUnsafeAccessExpression_def
      deepestSafeTernary_def receiver_def exprOf_deepestFrom callFn_def)

lemma safeTransform_SafePropertyReadExpr:
  "safeTransform mode (SafePropertyReadExpr r name) n =
     (case safeTernaryWithTemporary (innermostExpr r) (\<lambda>x. ReadPropExpr x name) mode n of
        (st, n') \<Rightarrow> (withInnermostExpr r st, n'))"
  by (simp add: safeTransform_def isAccessExpression_def isSafeAccessExpression_def
      deepestSafeTernary_def receiver_def exprOf_deepestFrom prop_of_def withInnermostExpr_def
      innermostExpr_not_ternary split: prod.splits)

lemma safeTransform_SafeKeyedReadExpr:
  "safeTransform mode (SafeKeyedReadExpr r i) n =
     (case safeTernaryWithTemporary (innermostExpr r) (\<lambda>x. ReadKeyExpr x i) mode n of
        (st, n') \<Rightarrow> (withInnermostExpr r st, n'))"
  by (simp add: safeTransform_def isAccessExpression_def isSafeAccessExpression_def
      deepestSafeTernary_def receiver_def exprOf_deepestFrom key_def withInnermostExpr_def
      innermostExpr_not_ternary split: prod.splits)

lemma safeTransform_SafeInvokeFunctionExpr:
  "safeTransform mode (SafeInvokeFunctionExpr r args) n =
     (case safeTernaryWithTemporary (innermostExpr r) (\<lambda>x. InvokeFunctionExpr x args) mode n of
        (st, n') \<Rightarrow> (withInnermostExpr r st, n'))"
  by (simp add: safeTransform_def isAccessExpression_def isSafeAccessExpression_def
      deepestSafeTernary_def receiver_def exprOf_deepestFrom callFn_def withInnermostExpr_def
      innermostExpr_not_ternary split: prod.splits)

lemma safeTransform_other:
  "safeTransform mode (ReadVarExpr x) n = (ReadVarExpr x, n)"
  "safeTransform mode (LiteralExpr v) n = (LiteralExpr v, n)"
  "safeTransform mode (UnaryOperatorExpr opr a) n = (UnaryOperatorExpr opr a, n)"
  "safeTransform mode (BinaryOperatorExpr bop l r) n = (BinaryOperatorExpr bop l r, n)"
  "safeTransform mode (ConditionalExpr c t fc) n = (ConditionalExpr c t fc, n)"
  "safeTransform mode (NotExpr c) n = (NotExpr c, n)"
  "safeTransform mode (LiteralArrayExpr es) n = (LiteralArrayExpr es, n)"
  "safeTransform mode (LiteralMapExpr entries) n = (LiteralMapExpr entries, n)"
  "safeTransform mode (PipeBindingExpr name args) n = (PipeBindingExpr name args, n)"
  "safeTransform mode (AssignTemporaryExpr a xref) n = (AssignTemporaryExpr a xref, n)"
  "safeTransform mode (ReadTemporaryExpr xref) n = (ReadTemporaryExpr xref, n)"
  "safeTransform mode (SafeTernaryExpr g b) n = (SafeTernaryExpr g b, n)"
  by (simp_all add: safeTransform_def isAccessExpression_def isSafeAccessExpression_def
      isUnsafeAccessExpression_def)

lemmas safeTransform_plain_access =
  safeTransform_ReadPropExpr safeTransform_ReadKeyExpr safeTransform_InvokeFunctionExpr

lemmas safeTransform_safe_access =
  safeTransform_SafePropertyReadExpr safeTransform_SafeKeyedReadExpr
  safeTransform_SafeInvokeFunctionExpr

lemmas safeTransform_node =
  safeTransform_other safeTransform_plain_access safeTransform_safe_access

section \<open>Trees without safe accesses, trees without safe ternaries\<close>

lemma noSafeAccess_simps [simp]:
  "noSafeAccess (ReadVarExpr x)"
  "noSafeAccess (LiteralExpr v)"
  "noSafeAccess (UnaryOperatorExpr opr a) = noSafeAccess a"
  "noSafeAccess (BinaryOperatorExpr bop l r) = (noSafeAccess l \<and> noSafeAccess r)"
  "noSafeAccess (ConditionalExpr c t fc) =
     (noSafeAccess c \<and> noSafeAccess t \<and> pred_option noSafeAccess fc)"
  "noSafeAccess (NotExpr c) = noSafeAccess c"
  "noSafeAccess (LiteralArrayExpr es) = list_all noSafeAccess es"
  "noSafeAccess (LiteralMapExpr entries) = list_all (pred_prod (\<lambda>k. True) noSafeAccess) entries"
  "noSafeAccess (ReadPropExpr r name) = noSafeAccess r"
  "noSafeAccess (ReadKeyExpr r i) = (noSafeAccess r \<and> noSafeAccess i)"
  "noSafeAccess (InvokeFunctionExpr r args) = (noSafeAccess r \<and> list_all noSafeAccess args)"
  "\<not> noSafeAccess (SafePropertyReadExpr r name)"
  "\<not> noSafeAccess (SafeKeyedReadExpr r i)"
  "\<not> noSafeAccess (SafeInvokeFunctionExpr r args)"
  "noSafeAccess (PipeBindingExpr name args) = list_all noSafeAccess args"
  "noSafeAccess (AssignTemporaryExpr a xref) = noSafeAccess a"
  "noSafeAccess (ReadTemporaryExpr xref)"
  "noSafeAccess (SafeTernaryExpr g b) = (noSafeAccess g \<and> noSafeAccess b)"
  unfolding noSafeAccess_def [abs_def]
  by (simp_all add: isSafeAccessExpression_def)

lemma noSafeTernary_simps [simp]:
  "noSafeTernary (ReadVarExpr x)"
  "noSafeTernary (LiteralExpr v)"
  "noSafeTernary (UnaryOperatorExpr opr a) = noSafeTernary a"
  "noSafeTernary (BinaryOperatorExpr bop l r) = (noSafeTernary l \<and> noSafeTernary r)"
  "noSafeTernary (ConditionalExpr c t fc) =
     (noSafeTernary c \<and> noSafeTernary t \<and> pred_option noSafeTernary fc)"
  "noSafeTernary (NotExpr c) = noSafeTernary c"
  "noSafeTernary (LiteralArrayExpr es) = list_all noSafeTernary es"
  "noSafeTernary (LiteralMapExpr entries) = list_all (pred_prod (\<lambda>k. True) noSafeTernary) entries"
  "noSafeTernary (ReadPropExpr r name) = noSafeTernary r"
  "noSafeTernary (ReadKeyExpr r i) = (noSafeTernary r \<and> noSafeTernary i)"
  "noSafeTernary (InvokeFunctionExpr r args) = (noSafeTernary r \<and> list_all noSafeTernary args)"
  "noSafeTernary (SafePropertyReadExpr r name) = noSafeTernary r"
  "noSafeTernary (SafeKeyedReadExpr r i) = (noSafeTernary r \<and> noSafeTernary i)"
  "noSafeTernary (SafeInvokeFunctionExpr r args) =
     (noSafeTernary r \<and> list_all noSafeTernary args)"
  "noSafeTernary (PipeBindingExpr name args) = list_all noSafeTernary args"
  "noSafeTernary (AssignTemporaryExpr a xref) = noSafeTernary a"
  "noSafeTernary (ReadTemporaryExpr xref)"
  "\<not> noSafeTernary (SafeTernaryExpr g b)"
  unfolding noSafeTernary_def [abs_def]
  by (simp_all add: isSafeTernaryExpr_def)

lemma noSafeTernary_not_ternary: "noSafeTernary e \<Longrightarrow> \<not> isSafeTernaryExpr e"
  by (cases e) (simp_all add: isSafeTernaryExpr_def)

lemma noSafeAccess_innermostExpr: "noSafeAccess r \<Longrightarrow> noSafeAccess (innermostExpr r)"
  by (induction r rule: innermostExpr.induct) simp_all

lemma noSafeAccess_assignDeepestExpr:
  "noSafeAccess r \<Longrightarrow> noSafeAccess v \<Longrightarrow> noSafeAccess (assignDeepestExpr r v)"
  by (induction r v rule: assignDeepestExpr.induct) simp_all

lemma noSafeAccess_withInnermostExpr:
  "noSafeAccess r \<Longrightarrow> noSafeAccess v \<Longrightarrow> noSafeAccess (withInnermostExpr r v)"
  by (simp add: withInnermostExpr_def noSafeAccess_assignDeepestExpr)

section \<open>The first sweep removes every safe access\<close>

lemma eliminateAssignment_noSafeAccess:
  "noSafeAccess e \<Longrightarrow> noSafeAccess (eliminateAssignment tmps mode e)"
  by (cases e) (simp_all add: eliminateAssignment_def Let_def)

lemma eliminate_noSafeAccess:
  "noSafeAccess e \<Longrightarrow>
     noSafeAccess (fst (transformInternalExpressions
        (pureTransform (eliminateAssignment tmps mode)) e u)) \<and>
     noSafeAccess (fst (transformExpressionsInExpression
        (pureTransform (eliminateAssignment tmps mode)) e u))"
  "list_all noSafeAccess es \<Longrightarrow>
     list_all noSafeAccess (fst (transformExpressionList
        (pureTransform (eliminateAssignment tmps mode)) es u))"
  "pred_option noSafeAccess fc \<Longrightarrow>
     pred_option noSafeAccess (fst (transformOptionalExpression
        (pureTransform (eliminateAssignment tmps mode)) fc u))"
  "pred_prod (\<lambda>k. True) noSafeAccess entry \<Longrightarrow>
     pred_prod (\<lambda>k. True) noSafeAccess (fst (transformMapEntry
        (pureTransform (eliminateAssignment tmps mode)) entry u))"
  "list_all (pred_prod (\<lambda>k. True) noSafeAccess) entries \<Longrightarrow>
     list_all (pred_prod (\<lambda>k. True) noSafeAccess) (fst (transformMapEntries
        (pureTransform (eliminateAssignment tmps mode)) entries u))"
proof (induct e and es and fc and entry and entries
    arbitrary: u and u and u and u and u rule: Expression_mutual_induct)
qed (simp_all add: visit_children visit_node split_beta pureTransform_apply
      eliminateAssignment_noSafeAccess del: visit_primrec)

lemma eliminateTemporaryAssignments_noSafeAccess:
  "noSafeAccess e \<Longrightarrow> noSafeAccess (eliminateTemporaryAssignments e tmps mode)"
  by (simp add: eliminateTemporaryAssignments_def eliminate_noSafeAccess)

lemma safeTernaryWithTemporary_noSafeAccess:
  assumes "noSafeAccess G" and "\<And>x. noSafeAccess x \<Longrightarrow> noSafeAccess (body x)"
  shows "noSafeAccess (fst (safeTernaryWithTemporary G body mode n))"
  using assms
  by (simp add: safeTernaryWithTemporary_def allocateXrefId_def clone_def
      eliminateTemporaryAssignments_noSafeAccess)

lemma safeTransform_noSafeAccess:
  "noSafeAccess r \<Longrightarrow> noSafeAccess (fst (safeTransform mode (ReadPropExpr r name) n))"
  "noSafeAccess r \<Longrightarrow> noSafeAccess i \<Longrightarrow>
     noSafeAccess (fst (safeTransform mode (ReadKeyExpr r i) n))"
  "noSafeAccess r \<Longrightarrow> list_all noSafeAccess args \<Longrightarrow>
     noSafeAccess (fst (safeTransform mode (InvokeFunctionExpr r args) n))"
  "noSafeAccess r \<Longrightarrow> noSafeAccess (fst (safeTransform mode (SafePropertyReadExpr r name) n))"
  "noSafeAccess r \<Longrightarrow> noSafeAccess i \<Longrightarrow>
     noSafeAccess (fst (safeTransform mode (SafeKeyedReadExpr r i) n))"
  "noSafeAccess r \<Longrightarrow> list_all noSafeAccess args \<Longrightarrow>
     noSafeAccess (fst (safeTransform mode (SafeInvokeFunctionExpr r args) n))"
  by (simp_all add: safeTransform_node split_beta noSafeAccess_assignDeepestExpr
      noSafeAccess_innermostExpr noSafeAccess_withInnermostExpr
      safeTernaryWithTemporary_noSafeAccess)

lemma sweep_noSafeAccess:
  "noSafeAccess (fst (transformExpressionsInExpression (safeTransform mode) e n))"
  "list_all noSafeAccess (fst (transformExpressionList (safeTransform mode) es n))"
  "pred_option noSafeAccess (fst (transformOptionalExpression (safeTransform mode) fc n))"
  "pred_prod (\<lambda>k. True) noSafeAccess (fst (transformMapEntry (safeTransform mode) entry n))"
  "list_all (pred_prod (\<lambda>k. True) noSafeAccess)
     (fst (transformMapEntries (safeTransform mode) entries n))"
proof (induct e and es and fc and entry and entries
    arbitrary: n and n and n and n and n rule: Expression_mutual_induct)
qed (simp_all add: visit_children visit_node split_beta safeTransform_other
      safeTransform_noSafeAccess del: visit_primrec)

section \<open>Lowering keeps a tree free of safe accesses\<close>

lemma lowered_noSafeAccess:
  "noSafeAccess e \<Longrightarrow> noSafeAccess (lowered e)"
  "list_all noSafeAccess es \<Longrightarrow> list_all noSafeAccess (map lowered es)"
  "pred_option noSafeAccess fc \<Longrightarrow> pred_option noSafeAccess (map_option lowered fc)"
  "pred_prod (\<lambda>k. True) noSafeAccess (entry :: string \<times> Expression) \<Longrightarrow>
     pred_prod (\<lambda>k. True) noSafeAccess (map_prod id lowered entry)"
  "list_all (pred_prod (\<lambda>k. True) noSafeAccess) (entries :: (string \<times> Expression) list) \<Longrightarrow>
     list_all (pred_prod (\<lambda>k. True) noSafeAccess) (map (map_prod id lowered) entries)"
  by (induct e and es and fc and entry and entries rule: Expression_mutual_induct)
     (simp_all add: NULL_EXPR_def id_def)

section \<open>The pass leaves a tree without safe nodes as it is\<close>

lemma sweep_plain:
  "noSafeAccess e \<Longrightarrow> noSafeTernary e \<Longrightarrow>
     transformExpressionsInExpression (safeTransform mode) e n = (e, n)"
  "list_all noSafeAccess es \<Longrightarrow> list_all noSafeTernary es \<Longrightarrow>
     transformExpressionList (safeTransform mode) es n = (es, n)"
  "pred_option noSafeAccess fc \<Longrightarrow> pred_option noSafeTernary fc \<Longrightarrow>
     transformOptionalExpression (safeTransform mode) fc n = (fc, n)"
  "pred_prod (\<lambda>k. True) noSafeAccess entry \<Longrightarrow> pred_prod (\<lambda>k. True) noSafeTernary entry \<Longrightarrow>
     transformMapEntry (safeTransform mode) entry n = (entry, n)"
  "list_all (pred_prod (\<lambda>k. True) noSafeAccess) entries \<Longrightarrow>
   list_all (pred_prod (\<lambda>k. True) noSafeTernary) entries \<Longrightarrow>
     transformMapEntries (safeTransform mode) entries n = (entries, n)"
proof (induct e and es and fc and entry and entries
    arbitrary: n and n and n and n and n rule: Expression_mutual_induct)
qed (simp_all add: visit_children visit_node safeTransform_node noSafeTernary_not_ternary
      del: visit_primrec)

lemma lowered_plain:
  "noSafeTernary e \<Longrightarrow> lowered e = e"
  "list_all noSafeTernary es \<Longrightarrow> map lowered es = es"
  "pred_option noSafeTernary fc \<Longrightarrow> map_option lowered fc = fc"
  "pred_prod (\<lambda>k. True) noSafeTernary (entry :: string \<times> Expression) \<Longrightarrow>
     map_prod id lowered entry = entry"
  "list_all (pred_prod (\<lambda>k. True) noSafeTernary) (entries :: (string \<times> Expression) list) \<Longrightarrow>
     map (map_prod id lowered) entries = entries"
  by (induct e and es and fc and entry and entries rule: Expression_mutual_induct)
     (simp_all add: id_def)

section \<open>Idempotence\<close>

lemma forEach_sweep_noSafeAccess:
  "list_all noSafeAccess
     (fst (forEach (transformExpressionsInExpression (safeTransform mode)) op n))"
  by (intro forEach_list_all sweep_noSafeAccess)

lemma expandOp_plain_result:
  "list_all (\<lambda>e. noSafeAccess e \<and> noSafeTernary e) (fst (expandOp mode op n))"
  using forEach_sweep_noSafeAccess [of mode op n]
  by (simp add: expandOp_lowered list_all_iff noSafeTernary_lowered lowered_noSafeAccess)

lemma forEach_identity:
  "list_all (\<lambda>x. \<forall>s. f x s = (x, s)) xs \<Longrightarrow> forEach f xs s = (xs, s)"
  by (induction xs arbitrary: s) simp_all

lemma list_all_mono_strong:
  "list_all P xs \<Longrightarrow> (\<And>x. P x \<Longrightarrow> Q x) \<Longrightarrow> list_all Q xs"
  by (induction xs) simp_all

lemma expandOp_plain:
  assumes "list_all (\<lambda>e. noSafeAccess e \<and> noSafeTernary e) op"
  shows "expandOp mode op n = (op, n)"
proof -
  have "list_all (\<lambda>e. \<forall>s. transformExpressionsInExpression (safeTransform mode) e s = (e, s)) op"
    using assms by (rule list_all_mono_strong) (simp add: sweep_plain)
  then have "forEach (transformExpressionsInExpression (safeTransform mode)) op n = (op, n)"
    by (rule forEach_identity)
  moreover have "map lowered op = op"
    using assms by (induction op) (simp_all add: lowered_plain)
  ultimately show ?thesis by (simp add: expandOp_lowered)
qed

lemma expandSafeReads_plain_result:
  "list_all (list_all (list_all (\<lambda>e. noSafeAccess e \<and> noSafeTernary e)))
     (units (expandSafeReads job))"
  unfolding units_expandSafeReads
  by (intro forEach_list_all expandOp_plain_result)

lemma forEach_expandOp_plain:
  assumes "list_all (list_all (list_all (\<lambda>e. noSafeAccess e \<and> noSafeTernary e))) us"
  shows "forEach (forEach (expandOp mode)) us n = (us, n)"
proof -
  have "list_all (list_all (\<lambda>op. \<forall>s. expandOp mode op s = (op, s))) us"
    using assms
    by (rule list_all_mono_strong) (erule list_all_mono_strong, simp add: expandOp_plain)
  then have "list_all (\<lambda>u. \<forall>s. forEach (expandOp mode) u s = (u, s)) us"
    by (rule list_all_mono_strong) (simp add: forEach_identity)
  then show ?thesis by (rule forEach_identity)
qed

text \<open>
  C9. Running the pass twice gives what running it once gives. After the first run no
  expression of the job holds a safe access or a safe ternary; on such an expression the
  \<open>safeTransform\<close> sweep returns the expression and the allocator unchanged, and the
  \<open>ternaryTransform\<close> sweep returns the expression.
\<close>

theorem expandSafeReads_idempotent:
  "expandSafeReads (expandSafeReads job) = expandSafeReads job \<and>
   list_all (\<lambda>e. noSafeAccess e \<and> noSafeTernary e) (jobExpressions (expandSafeReads job)) \<and>
   list_all
     (\<lambda>e. (\<forall>n. transformExpressionsInExpression (safeTransform (compatibility job)) e n = (e, n)) \<and>
          transformExpressionsInExpression (pureTransform ternaryTransform) e () = (e, ()))
     (jobExpressions (expandSafeReads job))"
proof -
  let ?once = "expandSafeReads job"
  have plain: "list_all (list_all (list_all (\<lambda>e. noSafeAccess e \<and> noSafeTernary e))) (units ?once)"
    by (rule expandSafeReads_plain_result)
  then have again:
    "forEach (forEach (expandOp (compatibility job))) (units ?once) (nextXrefId ?once) =
       (units ?once, nextXrefId ?once)"
    by (rule forEach_expandOp_plain)
  have "expandSafeReads ?once = ?once"
    using again by (simp add: expandSafeReads_def [of ?once] compatibility_expandSafeReads)
  moreover have all: "list_all (\<lambda>e. noSafeAccess e \<and> noSafeTernary e) (jobExpressions ?once)"
    using plain by (simp add: jobExpressions_def list_all_concat_iff)
  moreover have "list_all
     (\<lambda>e. (\<forall>n. transformExpressionsInExpression (safeTransform (compatibility job)) e n = (e, n)) \<and>
          transformExpressionsInExpression (pureTransform ternaryTransform) e () = (e, ()))
     (jobExpressions ?once)"
    using all
    by (rule list_all_mono_strong) (simp add: sweep_plain sweep_ternaryTransform lowered_plain)
  ultimately show ?thesis by simp
qed

theorem expandSafeReads_idempotent_witness:
  "expandSafeReads (expandSafeReads (singleExpressionJob TemplateDefinitionBuilder 0
      (SafePropertyReadExpr
         (SafeKeyedReadExpr (ReadVarExpr ''a'')
            (SafePropertyReadExpr (InvokeFunctionExpr (ReadVarExpr ''f'') []) ''b''))
         ''c''))) =
   expandSafeReads (singleExpressionJob TemplateDefinitionBuilder 0
      (SafePropertyReadExpr
         (SafeKeyedReadExpr (ReadVarExpr ''a'')
            (SafePropertyReadExpr (InvokeFunctionExpr (ReadVarExpr ''f'') []) ''b''))
         ''c''))"
  using expandSafeReads_idempotent
    [of "singleExpressionJob TemplateDefinitionBuilder 0
      (SafePropertyReadExpr
         (SafeKeyedReadExpr (ReadVarExpr ''a'')
            (SafePropertyReadExpr (InvokeFunctionExpr (ReadVarExpr ''f'') []) ''b''))
         ''c'')"]
  by simp

section \<open>Trees that differ by self-assignments\<close>

lemma selfAssignVariant_refl:
  "selfAssignVariant e e"
  "selfAssignVariantList es es"
  "selfAssignVariantOption fc fc"
  "selfAssignVariantEntry entry entry"
  "selfAssignVariantEntries entries entries"
  by (induct e and es and fc and entry and entries rule: Expression_mutual_induct) simp_all

lemma selfAssignVariant_isSafeTernaryExpr:
  "selfAssignVariant s l \<Longrightarrow> isSafeTernaryExpr l = isSafeTernaryExpr s"
  by (cases s; cases l) (simp_all add: isSafeTernaryExpr_def)

lemma selfAssignVariant_needsTemporary:
  "selfAssignVariant s l \<Longrightarrow> needsTemporaryInSafeAccess l = needsTemporaryInSafeAccess s"
proof (induction s arbitrary: l)
  case (ConditionalExpr c t fc)
  then show ?case
    by (cases l; cases fc) (auto split: option.splits)
qed (case_tac l; simp; fail)+

lemma selfAssignVariant_innermostExpr:
  "selfAssignVariant s l \<Longrightarrow> selfAssignVariant (innermostExpr s) (innermostExpr l)"
proof (induction s arbitrary: l rule: innermostExpr.induct)
  case (1 g b)
  then show ?case by (cases l) simp_all
qed (case_tac l; auto; fail)+

lemma selfAssignVariant_assignDeepestExpr:
  "selfAssignVariant s l \<Longrightarrow> selfAssignVariant v w \<Longrightarrow>
     selfAssignVariant (assignDeepestExpr s v) (assignDeepestExpr l w)"
proof (induction s v arbitrary: l rule: assignDeepestExpr.induct)
  case (1 g b v)
  then show ?case
    by (cases l) (auto simp: selfAssignVariant_isSafeTernaryExpr)
qed (case_tac l; auto; fail)+

lemma selfAssignVariant_withInnermostExpr:
  "selfAssignVariant s l \<Longrightarrow> selfAssignVariant v w \<Longrightarrow>
     selfAssignVariant (withInnermostExpr s v) (withInnermostExpr l w)"
  by (simp add: withInnermostExpr_def selfAssignVariant_isSafeTernaryExpr
      selfAssignVariant_assignDeepestExpr)

section \<open>temporariesIn collects the assigned ids\<close>

lemma collectTemporary_sweep:
  "transformExpressionsInExpression collectTemporary e S = (e, S \<union> set (assignedXrefs e))"
  "transformExpressionList collectTemporary es S = (es, S \<union> set (assignedXrefsList es))"
  "transformOptionalExpression collectTemporary fc S = (fc, S \<union> set (assignedXrefsOption fc))"
  "transformMapEntry collectTemporary entry S = (entry, S \<union> set (assignedXrefsEntry entry))"
  "transformMapEntries collectTemporary entries S =
     (entries, S \<union> set (assignedXrefsEntries entries))"
proof (induct e and es and fc and entry and entries
    arbitrary: S and S and S and S and S rule: Expression_mutual_induct)
qed (simp_all add: visit_children visit_node collectTemporary_def Un_assoc del: visit_primrec)

lemma temporariesIn_assignedXrefs: "temporariesIn e = set (assignedXrefs e)"
  by (simp add: temporariesIn_def collectTemporary_sweep)

section \<open>Deduplication in the two modes\<close>

lemma eliminate_modes:
  "selfAssignVariant s l \<Longrightarrow> set (assignedXrefs s) \<subseteq> T \<Longrightarrow> set (assignedXrefs l) \<subseteq> T' \<Longrightarrow>
     selfAssignVariant
       (fst (transformExpressionsInExpression (pureTransform (eliminateAssignment T Normal)) s u))
       (fst (transformExpressionsInExpression
          (pureTransform (eliminateAssignment T' TemplateDefinitionBuilder)) l u'))"
  "selfAssignVariantList es ls \<Longrightarrow> set (assignedXrefsList es) \<subseteq> T \<Longrightarrow>
   set (assignedXrefsList ls) \<subseteq> T' \<Longrightarrow>
     selfAssignVariantList
       (fst (transformExpressionList (pureTransform (eliminateAssignment T Normal)) es u))
       (fst (transformExpressionList
          (pureTransform (eliminateAssignment T' TemplateDefinitionBuilder)) ls u'))"
  "selfAssignVariantOption fc lc \<Longrightarrow> set (assignedXrefsOption fc) \<subseteq> T \<Longrightarrow>
   set (assignedXrefsOption lc) \<subseteq> T' \<Longrightarrow>
     selfAssignVariantOption
       (fst (transformOptionalExpression (pureTransform (eliminateAssignment T Normal)) fc u))
       (fst (transformOptionalExpression
          (pureTransform (eliminateAssignment T' TemplateDefinitionBuilder)) lc u'))"
  "selfAssignVariantEntry entry lentry \<Longrightarrow> set (assignedXrefsEntry entry) \<subseteq> T \<Longrightarrow>
   set (assignedXrefsEntry lentry) \<subseteq> T' \<Longrightarrow>
     selfAssignVariantEntry
       (fst (transformMapEntry (pureTransform (eliminateAssignment T Normal)) entry u))
       (fst (transformMapEntry
          (pureTransform (eliminateAssignment T' TemplateDefinitionBuilder)) lentry u'))"
  "selfAssignVariantEntries entries lentries \<Longrightarrow> set (assignedXrefsEntries entries) \<subseteq> T \<Longrightarrow>
   set (assignedXrefsEntries lentries) \<subseteq> T' \<Longrightarrow>
     selfAssignVariantEntries
       (fst (transformMapEntries (pureTransform (eliminateAssignment T Normal)) entries u))
       (fst (transformMapEntries
          (pureTransform (eliminateAssignment T' TemplateDefinitionBuilder)) lentries u'))"
proof (induct s and es and fc and entry and entries
    arbitrary: l u u' and ls u u' and lc u u' and lentry u u' and lentries u u'
    rule: Expression_mutual_induct)
qed (auto simp add: visit_children visit_node split_beta pureTransform_apply
      eliminateAssignment_def Let_def simp del: visit_primrec
      split: Expression.splits list.splits option.splits)

lemma eliminateTemporaryAssignments_modes:
  assumes "selfAssignVariant s l"
  shows "selfAssignVariant
           (eliminateTemporaryAssignments s (temporariesIn s) Normal)
           (eliminateTemporaryAssignments l (temporariesIn l) TemplateDefinitionBuilder)"
  using assms unfolding eliminateTemporaryAssignments_def temporariesIn_assignedXrefs
  by (cases s; cases l)
     (auto simp add: visit_children visit_node split_beta pureTransform_apply
        eliminateAssignment_def simp del: visit_primrec intro!: eliminate_modes)

section \<open>The first sweep in the two modes\<close>

lemma safeTernaryWithTemporary_modes:
  assumes "selfAssignVariant G G'"
    and "\<And>x y. selfAssignVariant x y \<Longrightarrow> selfAssignVariant (body x) (body' y)"
  shows "selfAssignVariant
           (fst (safeTernaryWithTemporary G body Normal n))
           (fst (safeTernaryWithTemporary G' body' TemplateDefinitionBuilder n)) \<and>
         snd (safeTernaryWithTemporary G body Normal n) =
         snd (safeTernaryWithTemporary G' body' TemplateDefinitionBuilder n)"
  using assms
  by (simp add: safeTernaryWithTemporary_def allocateXrefId_def clone_def
      selfAssignVariant_needsTemporary [OF assms(1)] eliminateTemporaryAssignments_modes)

lemma safeTransform_modes:
  assumes "selfAssignVariant s l"
  shows "selfAssignVariant (fst (safeTransform Normal s n))
           (fst (safeTransform TemplateDefinitionBuilder l n)) \<and>
         snd (safeTransform Normal s n) = snd (safeTransform TemplateDefinitionBuilder l n)"
proof (cases s)
  case (SafePropertyReadExpr r name)
  with assms obtain r' where l: "l = SafePropertyReadExpr r' name" and r: "selfAssignVariant r r'"
    by (cases l) auto
  have "selfAssignVariant
           (fst (safeTernaryWithTemporary (innermostExpr r) (\<lambda>x. ReadPropExpr x name) Normal n))
           (fst (safeTernaryWithTemporary (innermostExpr r') (\<lambda>x. ReadPropExpr x name)
              TemplateDefinitionBuilder n)) \<and>
         snd (safeTernaryWithTemporary (innermostExpr r) (\<lambda>x. ReadPropExpr x name) Normal n) =
         snd (safeTernaryWithTemporary (innermostExpr r') (\<lambda>x. ReadPropExpr x name)
              TemplateDefinitionBuilder n)"
    by (rule safeTernaryWithTemporary_modes) (simp_all add: r selfAssignVariant_innermostExpr)
  then show ?thesis
    by (simp add: SafePropertyReadExpr l safeTransform_node split_beta r
        selfAssignVariant_withInnermostExpr)
next
  case (SafeKeyedReadExpr r i)
  with assms obtain r' i' where l: "l = SafeKeyedReadExpr r' i'"
    and r: "selfAssignVariant r r'" and i: "selfAssignVariant i i'"
    by (cases l) auto
  have "selfAssignVariant
           (fst (safeTernaryWithTemporary (innermostExpr r) (\<lambda>x. ReadKeyExpr x i) Normal n))
           (fst (safeTernaryWithTemporary (innermostExpr r') (\<lambda>x. ReadKeyExpr x i')
              TemplateDefinitionBuilder n)) \<and>
         snd (safeTernaryWithTemporary (innermostExpr r) (\<lambda>x. ReadKeyExpr x i) Normal n) =
         snd (safeTernaryWithTemporary (innermostExpr r') (\<lambda>x. ReadKeyExpr x i')
              TemplateDefinitionBuilder n)"
    by (rule safeTernaryWithTemporary_modes) (simp_all add: r i selfAssignVariant_innermostExpr)
  then show ?thesis
    by (simp add: SafeKeyedReadExpr l safeTransform_node split_beta r
        selfAssignVariant_withInnermostExpr)
next
  case (SafeInvokeFunctionExpr r args)
  with assms obtain r' args' where l: "l = SafeInvokeFunctionExpr r' args'"
    and r: "selfAssignVariant r r'" and a: "selfAssignVariantList args args'"
    by (cases l) auto
  have "selfAssignVariant
           (fst (safeTernaryWithTemporary (innermostExpr r) (\<lambda>x. InvokeFunctionExpr x args)
              Normal n))
           (fst (safeTernaryWithTemporary (innermostExpr r') (\<lambda>x. InvokeFunctionExpr x args')
              TemplateDefinitionBuilder n)) \<and>
         snd (safeTernaryWithTemporary (innermostExpr r) (\<lambda>x. InvokeFunctionExpr x args)
              Normal n) =
         snd (safeTernaryWithTemporary (innermostExpr r') (\<lambda>x. InvokeFunctionExpr x args')
              TemplateDefinitionBuilder n)"
    by (rule safeTernaryWithTemporary_modes) (simp_all add: r a selfAssignVariant_innermostExpr)
  then show ?thesis
    by (simp add: SafeInvokeFunctionExpr l safeTransform_node split_beta r
        selfAssignVariant_withInnermostExpr)
next
  case (ReadTemporaryExpr xref)
  with assms show ?thesis
    by (auto simp: safeTransform_node)
qed (use assms in \<open>cases l;
      auto simp add: safeTransform_node selfAssignVariant_isSafeTernaryExpr
        selfAssignVariant_assignDeepestExpr selfAssignVariant_innermostExpr; fail\<close>)+

lemma sweep_modes:
  "selfAssignVariant
     (fst (transformExpressionsInExpression (safeTransform Normal) e n))
     (fst (transformExpressionsInExpression (safeTransform TemplateDefinitionBuilder) e n)) \<and>
   snd (transformExpressionsInExpression (safeTransform Normal) e n) =
   snd (transformExpressionsInExpression (safeTransform TemplateDefinitionBuilder) e n)"
  "selfAssignVariantList
     (fst (transformExpressionList (safeTransform Normal) es n))
     (fst (transformExpressionList (safeTransform TemplateDefinitionBuilder) es n)) \<and>
   snd (transformExpressionList (safeTransform Normal) es n) =
   snd (transformExpressionList (safeTransform TemplateDefinitionBuilder) es n)"
  "selfAssignVariantOption
     (fst (transformOptionalExpression (safeTransform Normal) fc n))
     (fst (transformOptionalExpression (safeTransform TemplateDefinitionBuilder) fc n)) \<and>
   snd (transformOptionalExpression (safeTransform Normal) fc n) =
   snd (transformOptionalExpression (safeTransform TemplateDefinitionBuilder) fc n)"
  "selfAssignVariantEntry
     (fst (transformMapEntry (safeTransform Normal) entry n))
     (fst (transformMapEntry (safeTransform TemplateDefinitionBuilder) entry n)) \<and>
   snd (transformMapEntry (safeTransform Normal) entry n) =
   snd (transformMapEntry (safeTransform TemplateDefinitionBuilder) entry n)"
  "selfAssignVariantEntries
     (fst (transformMapEntries (safeTransform Normal) entries n))
     (fst (transformMapEntries (safeTransform TemplateDefinitionBuilder) entries n)) \<and>
   snd (transformMapEntries (safeTransform Normal) entries n) =
   snd (transformMapEntries (safeTransform TemplateDefinitionBuilder) entries n)"
proof (induct e and es and fc and entry and entries
    arbitrary: n and n and n and n and n rule: Expression_mutual_induct)
qed (auto simp add: visit_children visit_node split_beta safeTransform_other
      simp del: visit_primrec
      intro!: safeTransform_modes [THEN conjunct1] safeTransform_modes [THEN conjunct2])

section \<open>Lowering in the two modes\<close>

lemma lowered_modes:
  "selfAssignVariant s l \<Longrightarrow> selfAssignVariant (lowered s) (lowered l)"
  "selfAssignVariantList es ls \<Longrightarrow> selfAssignVariantList (map lowered es) (map lowered ls)"
  "selfAssignVariantOption fc lc \<Longrightarrow>
     selfAssignVariantOption (map_option lowered fc) (map_option lowered lc)"
  "selfAssignVariantEntry entry lentry \<Longrightarrow>
     selfAssignVariantEntry (map_prod id lowered entry) (map_prod id lowered lentry)"
  "selfAssignVariantEntries entries lentries \<Longrightarrow>
     selfAssignVariantEntries (map (map_prod id lowered) entries)
       (map (map_prod id lowered) lentries)"
proof (induct s and es and fc and entry and entries
    arbitrary: l and ls and lc and lentry and lentries rule: Expression_mutual_induct)
qed (auto simp add: NULL_EXPR_def split: Expression.splits list.splits option.splits)

section \<open>The pass in the two modes\<close>

lemma selfAssignVariantList_list_all2:
  "selfAssignVariantList es ls = list_all2 selfAssignVariant es ls"
  by (induction es arbitrary: ls) (auto simp: list_all2_Cons1 split: list.splits)

lemma forEach_related:
  assumes "\<And>x s. R (fst (f x s)) (fst (g x s)) \<and> snd (f x s) = snd (g x s)"
  shows "list_all2 R (fst (forEach f xs s)) (fst (forEach g xs s)) \<and>
         snd (forEach f xs s) = snd (forEach g xs s)"
proof (induction xs arbitrary: s)
  case Nil
  show ?case by simp
next
  case (Cons x xs)
  have x: "R (fst (f x s)) (fst (g x s))" and s: "snd (g x s) = snd (f x s)"
    using assms [of x s] by simp_all
  show ?case
    using Cons [of "snd (f x s)"] x by (simp add: split_beta s)
qed

lemma expandOp_modes:
  "list_all2 selfAssignVariant
     (fst (expandOp Normal op n)) (fst (expandOp TemplateDefinitionBuilder op n)) \<and>
   snd (expandOp Normal op n) = snd (expandOp TemplateDefinitionBuilder op n)"
proof -
  have swept: "list_all2 selfAssignVariant
      (fst (forEach (transformExpressionsInExpression (safeTransform Normal)) op n))
      (fst (forEach (transformExpressionsInExpression (safeTransform TemplateDefinitionBuilder))
         op n)) \<and>
    snd (forEach (transformExpressionsInExpression (safeTransform Normal)) op n) =
    snd (forEach (transformExpressionsInExpression (safeTransform TemplateDefinitionBuilder))
         op n)"
    by (rule forEach_related) (rule sweep_modes)
  then have "selfAssignVariantList
      (map lowered (fst (forEach (transformExpressionsInExpression (safeTransform Normal)) op n)))
      (map lowered (fst (forEach
         (transformExpressionsInExpression (safeTransform TemplateDefinitionBuilder)) op n)))"
    by (intro lowered_modes) (simp add: selfAssignVariantList_list_all2)
  with swept show ?thesis
    by (simp add: expandOp_lowered selfAssignVariantList_list_all2)
qed

lemma expandSafeReads_modes:
  "list_all2 (list_all2 (list_all2 selfAssignVariant))
     (units (expandSafeReads (job\<lparr>compatibility := Normal\<rparr>)))
     (units (expandSafeReads (job\<lparr>compatibility := TemplateDefinitionBuilder\<rparr>))) \<and>
   nextXrefId (expandSafeReads (job\<lparr>compatibility := Normal\<rparr>)) =
   nextXrefId (expandSafeReads (job\<lparr>compatibility := TemplateDefinitionBuilder\<rparr>))"
proof -
  have "list_all2 (list_all2 (list_all2 selfAssignVariant))
      (fst (forEach (forEach (expandOp Normal)) (units job) (nextXrefId job)))
      (fst (forEach (forEach (expandOp TemplateDefinitionBuilder)) (units job) (nextXrefId job))) \<and>
    snd (forEach (forEach (expandOp Normal)) (units job) (nextXrefId job)) =
    snd (forEach (forEach (expandOp TemplateDefinitionBuilder)) (units job) (nextXrefId job))"
    by (intro forEach_related expandOp_modes)
  then show ?thesis
    by (simp add: units_expandSafeReads nextXrefId_expandSafeReads)
qed

section \<open>The tests on the kind of a node, constructor by constructor\<close>

lemma isSafeTernaryExpr_node:
  "\<not> isSafeTernaryExpr (ReadVarExpr x)"
  "\<not> isSafeTernaryExpr (LiteralExpr v)"
  "\<not> isSafeTernaryExpr (UnaryOperatorExpr opr a)"
  "\<not> isSafeTernaryExpr (BinaryOperatorExpr bop l r)"
  "\<not> isSafeTernaryExpr (ConditionalExpr c t fc)"
  "\<not> isSafeTernaryExpr (NotExpr c)"
  "\<not> isSafeTernaryExpr (LiteralArrayExpr es)"
  "\<not> isSafeTernaryExpr (LiteralMapExpr entries)"
  "\<not> isSafeTernaryExpr (ReadPropExpr r name)"
  "\<not> isSafeTernaryExpr (ReadKeyExpr r i)"
  "\<not> isSafeTernaryExpr (InvokeFunctionExpr r args)"
  "\<not> isSafeTernaryExpr (SafePropertyReadExpr r name)"
  "\<not> isSafeTernaryExpr (SafeKeyedReadExpr r i)"
  "\<not> isSafeTernaryExpr (SafeInvokeFunctionExpr r args)"
  "\<not> isSafeTernaryExpr (PipeBindingExpr name args)"
  "\<not> isSafeTernaryExpr (AssignTemporaryExpr a xref)"
  "\<not> isSafeTernaryExpr (ReadTemporaryExpr xref)"
  "isSafeTernaryExpr (SafeTernaryExpr g b)"
  by (simp_all add: isSafeTernaryExpr_def)

lemma isAssignTemporaryExpr_node:
  "\<not> isAssignTemporaryExpr (ReadVarExpr x)"
  "\<not> isAssignTemporaryExpr (LiteralExpr v)"
  "\<not> isAssignTemporaryExpr (UnaryOperatorExpr opr a)"
  "\<not> isAssignTemporaryExpr (BinaryOperatorExpr bop l r)"
  "\<not> isAssignTemporaryExpr (ConditionalExpr c t fc)"
  "\<not> isAssignTemporaryExpr (NotExpr c)"
  "\<not> isAssignTemporaryExpr (LiteralArrayExpr es)"
  "\<not> isAssignTemporaryExpr (LiteralMapExpr entries)"
  "\<not> isAssignTemporaryExpr (ReadPropExpr r name)"
  "\<not> isAssignTemporaryExpr (ReadKeyExpr r i)"
  "\<not> isAssignTemporaryExpr (InvokeFunctionExpr r args)"
  "\<not> isAssignTemporaryExpr (SafePropertyReadExpr r name)"
  "\<not> isAssignTemporaryExpr (SafeKeyedReadExpr r i)"
  "\<not> isAssignTemporaryExpr (SafeInvokeFunctionExpr r args)"
  "\<not> isAssignTemporaryExpr (PipeBindingExpr name args)"
  "isAssignTemporaryExpr (AssignTemporaryExpr a xref)"
  "\<not> isAssignTemporaryExpr (ReadTemporaryExpr xref)"
  "\<not> isAssignTemporaryExpr (SafeTernaryExpr g b)"
  by (simp_all add: isAssignTemporaryExpr_def)

section \<open>The ids assigned after deduplication\<close>

lemma eliminate_all_assignments:
  "set (assignedXrefs e) \<subseteq> T \<Longrightarrow>
     assignedXrefs (fst (transformExpressionsInExpression
        (pureTransform (eliminateAssignment T Normal)) e u)) = []"
  "set (assignedXrefsList es) \<subseteq> T \<Longrightarrow>
     assignedXrefsList (fst (transformExpressionList
        (pureTransform (eliminateAssignment T Normal)) es u)) = []"
  "set (assignedXrefsOption fc) \<subseteq> T \<Longrightarrow>
     assignedXrefsOption (fst (transformOptionalExpression
        (pureTransform (eliminateAssignment T Normal)) fc u)) = []"
  "set (assignedXrefsEntry entry) \<subseteq> T \<Longrightarrow>
     assignedXrefsEntry (fst (transformMapEntry
        (pureTransform (eliminateAssignment T Normal)) entry u)) = []"
  "set (assignedXrefsEntries entries) \<subseteq> T \<Longrightarrow>
     assignedXrefsEntries (fst (transformMapEntries
        (pureTransform (eliminateAssignment T Normal)) entries u)) = []"
proof (induct e and es and fc and entry and entries
    arbitrary: u and u and u and u and u rule: Expression_mutual_induct)
qed (simp_all add: visit_children visit_node split_beta pureTransform_apply
      eliminateAssignment_def del: visit_primrec)

lemma eliminate_all_assignments_below_root:
  assumes "\<not> isAssignTemporaryExpr G" and "set (assignedXrefs G) \<subseteq> T"
  shows "assignedXrefs (fst (transformInternalExpressions
           (pureTransform (eliminateAssignment T Normal)) G u)) = []"
  using assms
  by (cases G)
     (simp_all add: visit_children split_beta isAssignTemporaryExpr_def
        eliminate_all_assignments del: visit_primrec)

lemma eliminateTemporaryAssignments_no_assignment_left:
  assumes "\<not> isAssignTemporaryExpr G"
  shows "assignedXrefs (eliminateTemporaryAssignments G (temporariesIn G) Normal) = []"
  using assms
  by (simp add: eliminateTemporaryAssignments_def temporariesIn_assignedXrefs
      eliminate_all_assignments_below_root)

text \<open>In either mode the deduplicated copy holds no assignment but self-assignments.\<close>

lemma eliminate_all_defining:
  "set (assignedXrefs e) \<subseteq> T \<Longrightarrow>
     definingXrefs (fst (transformExpressionsInExpression
        (pureTransform (eliminateAssignment T mode)) e u)) = []"
  "set (assignedXrefsList es) \<subseteq> T \<Longrightarrow>
     definingXrefsList (fst (transformExpressionList
        (pureTransform (eliminateAssignment T mode)) es u)) = []"
  "set (assignedXrefsOption fc) \<subseteq> T \<Longrightarrow>
     definingXrefsOption (fst (transformOptionalExpression
        (pureTransform (eliminateAssignment T mode)) fc u)) = []"
  "set (assignedXrefsEntry entry) \<subseteq> T \<Longrightarrow>
     definingXrefsEntry (fst (transformMapEntry
        (pureTransform (eliminateAssignment T mode)) entry u)) = []"
  "set (assignedXrefsEntries entries) \<subseteq> T \<Longrightarrow>
     definingXrefsEntries (fst (transformMapEntries
        (pureTransform (eliminateAssignment T mode)) entries u)) = []"
proof (induct e and es and fc and entry and entries
    arbitrary: u and u and u and u and u rule: Expression_mutual_induct)
qed (simp_all add: visit_children visit_node split_beta pureTransform_apply
      eliminateAssignment_def Let_def del: visit_primrec)

lemma eliminate_all_defining_below_root:
  assumes "\<not> isAssignTemporaryExpr G" and "set (assignedXrefs G) \<subseteq> T"
  shows "definingXrefs (fst (transformInternalExpressions
           (pureTransform (eliminateAssignment T mode)) G u)) = []"
  using assms
  by (cases G)
     (simp_all add: visit_children split_beta isAssignTemporaryExpr_def
        eliminate_all_defining del: visit_primrec)

lemma eliminateTemporaryAssignments_no_defining_left:
  assumes "\<not> isAssignTemporaryExpr G"
  shows "definingXrefs (eliminateTemporaryAssignments G (temporariesIn G) mode) = []"
  using assms
  by (simp add: eliminateTemporaryAssignments_def temporariesIn_assignedXrefs
      eliminate_all_defining_below_root)

section \<open>The ids assigned after one step of safeTransform\<close>

lemma innermostExpr_assignDeepestExpr:
  "isSafeTernaryExpr r \<Longrightarrow> \<not> isSafeTernaryExpr v \<Longrightarrow>
     innermostExpr (assignDeepestExpr r v) = v"
  by (induction r v rule: assignDeepestExpr.induct)
     (auto simp: isSafeTernaryExpr_def innermostExpr_not_ternary split: Expression.splits)

lemma assignedXrefs_assignDeepestExpr:
  "isSafeTernaryExpr r \<Longrightarrow>
     mset (assignedXrefs (assignDeepestExpr r v)) + mset (assignedXrefs (innermostExpr r)) =
     mset (assignedXrefs r) + mset (assignedXrefs v)"
proof (induction r v rule: assignDeepestExpr.induct)
  case (1 g b v)
  show ?case
  proof (cases "isSafeTernaryExpr b")
    case True
    with 1 have "mset (assignedXrefs (assignDeepestExpr b v)) + mset (assignedXrefs (innermostExpr b)) =
      mset (assignedXrefs b) + mset (assignedXrefs v)"
      by simp
    with True show ?thesis by (simp add: ac_simps)
  next
    case False
    then show ?thesis by (simp add: innermostExpr_not_ternary ac_simps)
  qed
qed (simp_all add: isSafeTernaryExpr_def)

lemma assignedXrefs_withInnermostExpr:
  "mset (assignedXrefs (withInnermostExpr r v)) + mset (assignedXrefs (innermostExpr r)) =
     mset (assignedXrefs r) + mset (assignedXrefs v)"
  by (simp add: withInnermostExpr_def assignedXrefs_assignDeepestExpr innermostExpr_not_ternary)

lemma definingXrefs_assignDeepestExpr:
  "isSafeTernaryExpr r \<Longrightarrow>
     mset (definingXrefs (assignDeepestExpr r v)) + mset (definingXrefs (innermostExpr r)) =
     mset (definingXrefs r) + mset (definingXrefs v)"
proof (induction r v rule: assignDeepestExpr.induct)
  case (1 g b v)
  show ?case
  proof (cases "isSafeTernaryExpr b")
    case True
    with 1 have "mset (definingXrefs (assignDeepestExpr b v)) + mset (definingXrefs (innermostExpr b)) =
      mset (definingXrefs b) + mset (definingXrefs v)"
      by simp
    with True show ?thesis by (simp add: ac_simps)
  next
    case False
    then show ?thesis by (simp add: innermostExpr_not_ternary ac_simps)
  qed
qed (simp_all add: isSafeTernaryExpr_def)

lemma definingXrefs_withInnermostExpr:
  "mset (definingXrefs (withInnermostExpr r v)) + mset (definingXrefs (innermostExpr r)) =
     mset (definingXrefs r) + mset (definingXrefs v)"
  by (simp add: withInnermostExpr_def definingXrefs_assignDeepestExpr innermostExpr_not_ternary)

lemma safeTernaryWithTemporary_assignedXrefs:
  assumes "guardAssignmentFlagged G" and "\<And>x. assignedXrefs (body x) = assignedXrefs x @ B"
  shows "mset (assignedXrefs (fst (safeTernaryWithTemporary G body Normal n))) =
           mset (assignedXrefs G) + mset B +
           mset [n..<snd (safeTernaryWithTemporary G body Normal n)] \<and>
         n \<le> snd (safeTernaryWithTemporary G body Normal n)"
  using assms
  by (auto simp add: safeTernaryWithTemporary_def allocateXrefId_def clone_def
      guardAssignmentFlagged_def eliminateTemporaryAssignments_no_assignment_left)

lemma eliminateTemporaryAssignments_self_assignment:
  "eliminateTemporaryAssignments (AssignTemporaryExpr (ReadTemporaryExpr xref) xref) tmps mode =
     AssignTemporaryExpr (ReadTemporaryExpr xref) xref"
  by (simp add: eliminateTemporaryAssignments_def visit_children visit_node pureTransform_apply
      eliminateAssignment_def del: visit_primrec)

lemma safeTernaryWithTemporary_definingXrefs:
  assumes "guardDefinitionFlagged G" and "\<And>x. definingXrefs (body x) = definingXrefs x @ B"
  shows "mset (definingXrefs (fst (safeTernaryWithTemporary G body mode n))) =
           mset (definingXrefs G) + mset B +
           mset [n..<snd (safeTernaryWithTemporary G body mode n)] \<and>
         n \<le> snd (safeTernaryWithTemporary G body mode n)"
  using assms
  by (auto simp add: safeTernaryWithTemporary_def allocateXrefId_def clone_def
      guardAssignmentFlagged_def guardDefinitionFlagged_def isSelfAssignment_def
      eliminateTemporaryAssignments_no_defining_left
      eliminateTemporaryAssignments_self_assignment split: Expression.splits)

lemma guardSatisfies_simps [simp]:
  "guardSatisfies P (ReadVarExpr x)"
  "guardSatisfies P (LiteralExpr v)"
  "guardSatisfies P (UnaryOperatorExpr opr a)"
  "guardSatisfies P (BinaryOperatorExpr bop l r)"
  "guardSatisfies P (ConditionalExpr c t fc)"
  "guardSatisfies P (NotExpr c)"
  "guardSatisfies P (LiteralArrayExpr es)"
  "guardSatisfies P (LiteralMapExpr entries)"
  "guardSatisfies P (ReadPropExpr r name)"
  "guardSatisfies P (ReadKeyExpr r i)"
  "guardSatisfies P (InvokeFunctionExpr r args)"
  "guardSatisfies P (SafePropertyReadExpr r name) = P (innermostExpr r)"
  "guardSatisfies P (SafeKeyedReadExpr r i) = P (innermostExpr r)"
  "guardSatisfies P (SafeInvokeFunctionExpr r args) = P (innermostExpr r)"
  "guardSatisfies P (PipeBindingExpr name args)"
  "guardSatisfies P (AssignTemporaryExpr a xref)"
  "guardSatisfies P (ReadTemporaryExpr xref)"
  "guardSatisfies P (SafeTernaryExpr g b)"
  by (simp_all add: guardSatisfies_def)

lemma safeTransform_assignedXrefs:
  assumes "guardSatisfies guardAssignmentFlagged x"
  shows "mset (assignedXrefs (fst (safeTransform Normal x n))) =
           mset (assignedXrefs x) + mset [n..<snd (safeTransform Normal x n)] \<and>
         n \<le> snd (safeTransform Normal x n)"
proof (cases x)
  case (ReadPropExpr r name)
  then show ?thesis
    using assignedXrefs_assignDeepestExpr [of r "ReadPropExpr (innermostExpr r) name"]
    by (simp add: safeTransform_node)
next
  case (ReadKeyExpr r i)
  then show ?thesis
    using assignedXrefs_assignDeepestExpr [of r "ReadKeyExpr (innermostExpr r) i"]
    by (simp add: safeTransform_node)
next
  case (InvokeFunctionExpr r args)
  then show ?thesis
    using assignedXrefs_assignDeepestExpr [of r "InvokeFunctionExpr (innermostExpr r) args"]
    by (simp add: safeTransform_node)
next
  case (SafePropertyReadExpr r name)
  with assms have g: "guardAssignmentFlagged (innermostExpr r)"
    by simp
  let ?st = "safeTernaryWithTemporary (innermostExpr r) (\<lambda>x. ReadPropExpr x name) Normal n"
  have "mset (assignedXrefs (fst ?st)) =
          mset (assignedXrefs (innermostExpr r)) + mset [] + mset [n..<snd ?st] \<and> n \<le> snd ?st"
    using g by (rule safeTernaryWithTemporary_assignedXrefs) simp
  then show ?thesis
    using assignedXrefs_withInnermostExpr [of r "fst ?st"]
    by (simp add: SafePropertyReadExpr safeTransform_node split_beta)
next
  case (SafeKeyedReadExpr r i)
  with assms have g: "guardAssignmentFlagged (innermostExpr r)"
    by simp
  let ?st = "safeTernaryWithTemporary (innermostExpr r) (\<lambda>x. ReadKeyExpr x i) Normal n"
  have "mset (assignedXrefs (fst ?st)) =
          mset (assignedXrefs (innermostExpr r)) + mset (assignedXrefs i) + mset [n..<snd ?st] \<and>
        n \<le> snd ?st"
    using g by (rule safeTernaryWithTemporary_assignedXrefs) simp
  then show ?thesis
    using assignedXrefs_withInnermostExpr [of r "fst ?st"]
    by (simp add: SafeKeyedReadExpr safeTransform_node split_beta)
next
  case (SafeInvokeFunctionExpr r args)
  with assms have g: "guardAssignmentFlagged (innermostExpr r)"
    by simp
  let ?st = "safeTernaryWithTemporary (innermostExpr r) (\<lambda>x. InvokeFunctionExpr x args) Normal n"
  have "mset (assignedXrefs (fst ?st)) =
          mset (assignedXrefs (innermostExpr r)) + mset (assignedXrefsList args) +
          mset [n..<snd ?st] \<and>
        n \<le> snd ?st"
    using g by (rule safeTernaryWithTemporary_assignedXrefs) simp
  then show ?thesis
    using assignedXrefs_withInnermostExpr [of r "fst ?st"]
    by (simp add: SafeInvokeFunctionExpr safeTransform_node split_beta)
qed (simp_all add: safeTransform_node)

lemma safeTransform_definingXrefs:
  assumes "guardSatisfies guardDefinitionFlagged x"
  shows "mset (definingXrefs (fst (safeTransform mode x n))) =
           mset (definingXrefs x) + mset [n..<snd (safeTransform mode x n)] \<and>
         n \<le> snd (safeTransform mode x n)"
proof (cases x)
  case (ReadPropExpr r name)
  then show ?thesis
    using definingXrefs_assignDeepestExpr [of r "ReadPropExpr (innermostExpr r) name"]
    by (simp add: safeTransform_node)
next
  case (ReadKeyExpr r i)
  then show ?thesis
    using definingXrefs_assignDeepestExpr [of r "ReadKeyExpr (innermostExpr r) i"]
    by (simp add: safeTransform_node)
next
  case (InvokeFunctionExpr r args)
  then show ?thesis
    using definingXrefs_assignDeepestExpr [of r "InvokeFunctionExpr (innermostExpr r) args"]
    by (simp add: safeTransform_node)
next
  case (SafePropertyReadExpr r name)
  with assms have g: "guardDefinitionFlagged (innermostExpr r)"
    by simp
  let ?st = "safeTernaryWithTemporary (innermostExpr r) (\<lambda>x. ReadPropExpr x name) mode n"
  have "mset (definingXrefs (fst ?st)) =
          mset (definingXrefs (innermostExpr r)) + mset [] + mset [n..<snd ?st] \<and> n \<le> snd ?st"
    using g by (rule safeTernaryWithTemporary_definingXrefs) simp
  then show ?thesis
    using definingXrefs_withInnermostExpr [of r "fst ?st"]
    by (simp add: SafePropertyReadExpr safeTransform_node split_beta)
next
  case (SafeKeyedReadExpr r i)
  with assms have g: "guardDefinitionFlagged (innermostExpr r)"
    by simp
  let ?st = "safeTernaryWithTemporary (innermostExpr r) (\<lambda>x. ReadKeyExpr x i) mode n"
  have "mset (definingXrefs (fst ?st)) =
          mset (definingXrefs (innermostExpr r)) + mset (definingXrefs i) + mset [n..<snd ?st] \<and>
        n \<le> snd ?st"
    using g by (rule safeTernaryWithTemporary_definingXrefs) simp
  then show ?thesis
    using definingXrefs_withInnermostExpr [of r "fst ?st"]
    by (simp add: SafeKeyedReadExpr safeTransform_node split_beta)
next
  case (SafeInvokeFunctionExpr r args)
  with assms have g: "guardDefinitionFlagged (innermostExpr r)"
    by simp
  let ?st = "safeTernaryWithTemporary (innermostExpr r) (\<lambda>x. InvokeFunctionExpr x args) mode n"
  have "mset (definingXrefs (fst ?st)) =
          mset (definingXrefs (innermostExpr r)) + mset (definingXrefsList args) +
          mset [n..<snd ?st] \<and>
        n \<le> snd ?st"
    using g by (rule safeTernaryWithTemporary_definingXrefs) simp
  then show ?thesis
    using definingXrefs_withInnermostExpr [of r "fst ?st"]
    by (simp add: SafeInvokeFunctionExpr safeTransform_node split_beta)
qed (simp_all add: safeTransform_node)

section \<open>What a safe access takes for its guard, after the sweep of its receiver\<close>

lemma innermostExpr_safeTernaryWithTemporary:
  assumes "\<And>x. \<not> isSafeTernaryExpr (body x)"
  shows "innermostExpr (withInnermostExpr r (fst (safeTernaryWithTemporary G body mode n))) =
           innermostExpr (fst (safeTernaryWithTemporary G body mode n))"
proof (cases "isSafeTernaryExpr r")
  case True
  have st: "isSafeTernaryExpr (fst (safeTernaryWithTemporary G body mode n))"
    by (simp add: safeTernaryWithTemporary_def allocateXrefId_def isSafeTernaryExpr_def)
  have "innermostExpr (assignDeepestExpr r v) = innermostExpr v" if "isSafeTernaryExpr r" for r v
    using that
    by (induction r v rule: assignDeepestExpr.induct)
       (auto simp: isSafeTernaryExpr_def split: Expression.splits)
  with True show ?thesis by (simp add: withInnermostExpr_def)
next
  case False
  then show ?thesis by (simp add: withInnermostExpr_def)
qed

lemma innermostExpr_built_body:
  assumes "\<And>y. \<not> isSafeTernaryExpr (body y)"
  shows "\<exists>y. innermostExpr (fst (safeTernaryWithTemporary G body mode n)) = body y"
  using assms
  by (auto simp add: safeTernaryWithTemporary_def allocateXrefId_def innermostExpr_not_ternary)

lemma safeTransform_access_not_assignment:
  assumes "isAccessExpression x"
  shows "\<not> isAssignTemporaryExpr (innermostExpr (fst (safeTransform mode x n)))"
proof (cases x)
  case (SafePropertyReadExpr r name)
  obtain y where "innermostExpr (fst (safeTernaryWithTemporary (innermostExpr r)
      (\<lambda>x. ReadPropExpr x name) mode n)) = ReadPropExpr y name"
    using innermostExpr_built_body [of "\<lambda>x. ReadPropExpr x name" "innermostExpr r" mode n]
    by (auto simp: isSafeTernaryExpr_def)
  then show ?thesis
    by (simp add: SafePropertyReadExpr safeTransform_node split_beta
        innermostExpr_safeTernaryWithTemporary isSafeTernaryExpr_def isAssignTemporaryExpr_def)
next
  case (SafeKeyedReadExpr r i)
  obtain y where "innermostExpr (fst (safeTernaryWithTemporary (innermostExpr r)
      (\<lambda>x. ReadKeyExpr x i) mode n)) = ReadKeyExpr y i"
    using innermostExpr_built_body [of "\<lambda>x. ReadKeyExpr x i" "innermostExpr r" mode n]
    by (auto simp: isSafeTernaryExpr_def)
  then show ?thesis
    by (simp add: SafeKeyedReadExpr safeTransform_node split_beta
        innermostExpr_safeTernaryWithTemporary isSafeTernaryExpr_def isAssignTemporaryExpr_def)
next
  case (SafeInvokeFunctionExpr r args)
  obtain y where "innermostExpr (fst (safeTernaryWithTemporary (innermostExpr r)
      (\<lambda>x. InvokeFunctionExpr x args) mode n)) = InvokeFunctionExpr y args"
    using innermostExpr_built_body [of "\<lambda>x. InvokeFunctionExpr x args" "innermostExpr r" mode n]
    by (auto simp: isSafeTernaryExpr_def)
  then show ?thesis
    by (simp add: SafeInvokeFunctionExpr safeTransform_node split_beta
        innermostExpr_safeTernaryWithTemporary isSafeTernaryExpr_def isAssignTemporaryExpr_def)
qed (use assms in \<open>auto simp add: safeTransform_node isAccessExpression_def
      isSafeAccessExpression_def isUnsafeAccessExpression_def
      innermostExpr_assignDeepestExpr isSafeTernaryExpr_def isAssignTemporaryExpr_def\<close>)

section \<open>What the classifier answers after the sweep\<close>

lemma isSafeTernaryExpr_assignDeepestExpr:
  "isSafeTernaryExpr r \<Longrightarrow> isSafeTernaryExpr (assignDeepestExpr r v)"
  by (cases r) (simp_all add: isSafeTernaryExpr_def)

lemma isSafeTernaryExpr_safeTernaryWithTemporary:
  "isSafeTernaryExpr (fst (safeTernaryWithTemporary G body mode n))"
  by (simp add: safeTernaryWithTemporary_def allocateXrefId_def isSafeTernaryExpr_def)

lemma isSafeTernaryExpr_withInnermostExpr:
  "isSafeTernaryExpr v \<Longrightarrow> isSafeTernaryExpr (withInnermostExpr r v)"
  by (simp add: withInnermostExpr_def isSafeTernaryExpr_assignDeepestExpr)

lemma needsTemporary_safe_ternary:
  "isSafeTernaryExpr e \<Longrightarrow> \<not> needsTemporaryInSafeAccess e"
  by (cases e) (simp_all add: isSafeTernaryExpr_def)

lemma sweep_isSafeTernaryExpr:
  "isSafeTernaryExpr (fst (transformExpressionsInExpression (safeTransform mode) e n)) =
     leadsToSafeTernary e"
proof (induction e arbitrary: n)
qed (simp_all add: visit_node visit_children split_beta safeTransform_node
      isSafeTernaryExpr_node isSafeTernaryExpr_assignDeepestExpr
      isSafeTernaryExpr_withInnermostExpr isSafeTernaryExpr_safeTernaryWithTemporary
      del: visit_primrec)

lemma sweep_needsTemporary:
  "needsTemporaryInSafeAccess (fst (transformExpressionsInExpression (safeTransform mode) e n)) =
     flaggedAfterSweep e"
proof (induction e arbitrary: n)
  case (ConditionalExpr c t fc)
  then show ?case
    by (cases fc)
       (simp_all add: visit_node visit_children split_beta safeTransform_node
          del: visit_primrec)
qed (simp_all add: visit_node visit_children split_beta safeTransform_node
      sweep_isSafeTernaryExpr needsTemporary_safe_ternary
      isSafeTernaryExpr_assignDeepestExpr isSafeTernaryExpr_withInnermostExpr
      isSafeTernaryExpr_safeTernaryWithTemporary del: visit_primrec)

text \<open>The sweep yields a bare read-temporary only from one.\<close>

lemma safeTransform_not_read:
  "x \<noteq> ReadTemporaryExpr y \<Longrightarrow> fst (safeTransform mode x n) \<noteq> ReadTemporaryExpr y"
proof (cases x)
qed (auto simp add: safeTransform_node split_beta withInnermostExpr_def
      safeTernaryWithTemporary_def allocateXrefId_def isSafeTernaryExpr_def
      split: Expression.splits if_splits)

lemma sweep_is_read:
  "(fst (transformExpressionsInExpression (safeTransform mode) e n) = ReadTemporaryExpr y) =
     (e = ReadTemporaryExpr y)"
  by (cases e)
     (simp_all add: visit_node visit_children split_beta safeTransform_other
        safeTransform_not_read del: visit_primrec)

lemma sweep_guard_assignment:
  "assignmentStaysFlagged (innermostExpr e) \<Longrightarrow>
     guardAssignmentFlagged
        (innermostExpr (fst (transformExpressionsInExpression (safeTransform mode) e n)))"
proof (induction e arbitrary: n rule: innermostExpr.induct)
qed (simp_all add: visit_node visit_children split_beta safeTransform_other
      safeTransform_access_not_assignment isAccessExpression_def isUnsafeAccessExpression_def
      isSafeAccessExpression_def isAssignTemporaryExpr_node guardAssignmentFlagged_def
      assignmentStaysFlagged_def sweep_needsTemporary
      del: visit_primrec)

lemma sweep_guard_definition:
  "definitionStaysFlagged (innermostExpr e) \<Longrightarrow>
     guardDefinitionFlagged
        (innermostExpr (fst (transformExpressionsInExpression (safeTransform mode) e n)))"
proof (induction e arbitrary: n rule: innermostExpr.induct)
qed (auto simp add: visit_node visit_children split_beta safeTransform_other
      safeTransform_access_not_assignment isAccessExpression_def isUnsafeAccessExpression_def
      isSafeAccessExpression_def isAssignTemporaryExpr_node guardAssignmentFlagged_def
      guardDefinitionFlagged_def definitionStaysFlagged_def isSelfAssignment_def
      assignmentStaysFlagged_def sweep_needsTemporary sweep_is_read
      simp del: visit_primrec)

section \<open>Counting assignments through the first sweep\<close>

lemma guardAssignmentsStayFlagged_simps [simp]:
  "guardAssignmentsStayFlagged (ReadVarExpr x)"
  "guardAssignmentsStayFlagged (LiteralExpr v)"
  "guardAssignmentsStayFlagged (UnaryOperatorExpr opr a) = guardAssignmentsStayFlagged a"
  "guardAssignmentsStayFlagged (BinaryOperatorExpr bop l r) =
     (guardAssignmentsStayFlagged l \<and> guardAssignmentsStayFlagged r)"
  "guardAssignmentsStayFlagged (ConditionalExpr c t fc) =
     (guardAssignmentsStayFlagged c \<and> guardAssignmentsStayFlagged t \<and>
      pred_option guardAssignmentsStayFlagged fc)"
  "guardAssignmentsStayFlagged (NotExpr c) = guardAssignmentsStayFlagged c"
  "guardAssignmentsStayFlagged (LiteralArrayExpr es) = list_all guardAssignmentsStayFlagged es"
  "guardAssignmentsStayFlagged (LiteralMapExpr entries) =
     list_all (pred_prod (\<lambda>k. True) guardAssignmentsStayFlagged) entries"
  "guardAssignmentsStayFlagged (ReadPropExpr r name) = guardAssignmentsStayFlagged r"
  "guardAssignmentsStayFlagged (ReadKeyExpr r i) =
     (guardAssignmentsStayFlagged r \<and> guardAssignmentsStayFlagged i)"
  "guardAssignmentsStayFlagged (InvokeFunctionExpr r args) =
     (guardAssignmentsStayFlagged r \<and> list_all guardAssignmentsStayFlagged args)"
  "guardAssignmentsStayFlagged (SafePropertyReadExpr r name) =
     (assignmentStaysFlagged (innermostExpr r) \<and> guardAssignmentsStayFlagged r)"
  "guardAssignmentsStayFlagged (SafeKeyedReadExpr r i) =
     (assignmentStaysFlagged (innermostExpr r) \<and> guardAssignmentsStayFlagged r \<and>
      guardAssignmentsStayFlagged i)"
  "guardAssignmentsStayFlagged (SafeInvokeFunctionExpr r args) =
     (assignmentStaysFlagged (innermostExpr r) \<and> guardAssignmentsStayFlagged r \<and>
      list_all guardAssignmentsStayFlagged args)"
  "guardAssignmentsStayFlagged (PipeBindingExpr name args) = list_all guardAssignmentsStayFlagged args"
  "guardAssignmentsStayFlagged (AssignTemporaryExpr a xref) = guardAssignmentsStayFlagged a"
  "guardAssignmentsStayFlagged (ReadTemporaryExpr xref)"
  "guardAssignmentsStayFlagged (SafeTernaryExpr g b) =
     (guardAssignmentsStayFlagged g \<and> guardAssignmentsStayFlagged b)"
  unfolding guardAssignmentsStayFlagged_def [abs_def]
  by simp_all

lemma guardDefinitionsStayFlagged_simps [simp]:
  "guardDefinitionsStayFlagged (ReadVarExpr x)"
  "guardDefinitionsStayFlagged (LiteralExpr v)"
  "guardDefinitionsStayFlagged (UnaryOperatorExpr opr a) = guardDefinitionsStayFlagged a"
  "guardDefinitionsStayFlagged (BinaryOperatorExpr bop l r) =
     (guardDefinitionsStayFlagged l \<and> guardDefinitionsStayFlagged r)"
  "guardDefinitionsStayFlagged (ConditionalExpr c t fc) =
     (guardDefinitionsStayFlagged c \<and> guardDefinitionsStayFlagged t \<and>
      pred_option guardDefinitionsStayFlagged fc)"
  "guardDefinitionsStayFlagged (NotExpr c) = guardDefinitionsStayFlagged c"
  "guardDefinitionsStayFlagged (LiteralArrayExpr es) = list_all guardDefinitionsStayFlagged es"
  "guardDefinitionsStayFlagged (LiteralMapExpr entries) =
     list_all (pred_prod (\<lambda>k. True) guardDefinitionsStayFlagged) entries"
  "guardDefinitionsStayFlagged (ReadPropExpr r name) = guardDefinitionsStayFlagged r"
  "guardDefinitionsStayFlagged (ReadKeyExpr r i) =
     (guardDefinitionsStayFlagged r \<and> guardDefinitionsStayFlagged i)"
  "guardDefinitionsStayFlagged (InvokeFunctionExpr r args) =
     (guardDefinitionsStayFlagged r \<and> list_all guardDefinitionsStayFlagged args)"
  "guardDefinitionsStayFlagged (SafePropertyReadExpr r name) =
     (definitionStaysFlagged (innermostExpr r) \<and> guardDefinitionsStayFlagged r)"
  "guardDefinitionsStayFlagged (SafeKeyedReadExpr r i) =
     (definitionStaysFlagged (innermostExpr r) \<and> guardDefinitionsStayFlagged r \<and>
      guardDefinitionsStayFlagged i)"
  "guardDefinitionsStayFlagged (SafeInvokeFunctionExpr r args) =
     (definitionStaysFlagged (innermostExpr r) \<and> guardDefinitionsStayFlagged r \<and>
      list_all guardDefinitionsStayFlagged args)"
  "guardDefinitionsStayFlagged (PipeBindingExpr name args) = list_all guardDefinitionsStayFlagged args"
  "guardDefinitionsStayFlagged (AssignTemporaryExpr a xref) = guardDefinitionsStayFlagged a"
  "guardDefinitionsStayFlagged (ReadTemporaryExpr xref)"
  "guardDefinitionsStayFlagged (SafeTernaryExpr g b) =
     (guardDefinitionsStayFlagged g \<and> guardDefinitionsStayFlagged b)"
  unfolding guardDefinitionsStayFlagged_def [abs_def]
  by simp_all

lemma count_list_upt: "count_list [n..<m] a = (if n \<le> a \<and> a < m then 1 else 0)"
  by (induction m) auto

lemma safeTransform_state_mono: "m \<le> n \<Longrightarrow> m \<le> snd (safeTransform mode x n)"
  by (cases x)
     (simp_all add: safeTransform_node split_beta safeTernaryWithTemporary_def
        allocateXrefId_def)

lemma sweep_state_mono:
  "m \<le> n \<Longrightarrow> m \<le> snd (transformExpressionsInExpression (safeTransform mode) e n)"
  "m \<le> n \<Longrightarrow> m \<le> snd (transformExpressionList (safeTransform mode) es n)"
  "m \<le> n \<Longrightarrow> m \<le> snd (transformOptionalExpression (safeTransform mode) fc n)"
  "m \<le> n \<Longrightarrow> m \<le> snd (transformMapEntry (safeTransform mode) entry n)"
  "m \<le> n \<Longrightarrow> m \<le> snd (transformMapEntries (safeTransform mode) entries n)"
proof (induct e and es and fc and entry and entries
    arbitrary: n and n and n and n and n rule: Expression_mutual_induct)
qed (simp_all add: visit_children visit_node split_beta safeTransform_state_mono
      del: visit_primrec)

lemma safeTransform_count:
  assumes "guardSatisfies guardAssignmentFlagged x"
  shows "int (count_list (assignedXrefs (fst (safeTransform Normal x n))) a) =
           int (count_list (assignedXrefs x) a) +
           of_bool (a < snd (safeTransform Normal x n)) - of_bool (a < n)"
proof -
  let ?n' = "snd (safeTransform Normal x n)"
  have eq: "mset (assignedXrefs (fst (safeTransform Normal x n))) =
      mset (assignedXrefs x) + mset [n..<?n']" and le: "n \<le> ?n'"
    using safeTransform_assignedXrefs [OF assms, of n] by simp_all
  have "mset (assignedXrefs (fst (safeTransform Normal x n))) =
      mset (assignedXrefs x @ [n..<?n'])"
    by (simp only: eq mset_append)
  then have "count (mset (assignedXrefs (fst (safeTransform Normal x n)))) a =
      count (mset (assignedXrefs x @ [n..<?n'])) a"
    by (simp only:)
  then have "count_list (assignedXrefs (fst (safeTransform Normal x n))) a =
      count_list (assignedXrefs x) a + count_list [n..<?n'] a"
    by (simp only: count_mset count_list_append)
  with le show ?thesis
    by (auto simp add: count_list_upt)
qed

lemma sweep_count:
  "guardAssignmentsStayFlagged e \<Longrightarrow>
     int (count_list (assignedXrefs
        (fst (transformExpressionsInExpression (safeTransform Normal) e n))) a) =
     int (count_list (assignedXrefs e) a) +
     of_bool (a < snd (transformExpressionsInExpression (safeTransform Normal) e n)) -
     of_bool (a < n)"
  "list_all guardAssignmentsStayFlagged es \<Longrightarrow>
     int (count_list (assignedXrefsList
        (fst (transformExpressionList (safeTransform Normal) es n))) a) =
     int (count_list (assignedXrefsList es) a) +
     of_bool (a < snd (transformExpressionList (safeTransform Normal) es n)) - of_bool (a < n)"
  "pred_option guardAssignmentsStayFlagged fc \<Longrightarrow>
     int (count_list (assignedXrefsOption
        (fst (transformOptionalExpression (safeTransform Normal) fc n))) a) =
     int (count_list (assignedXrefsOption fc) a) +
     of_bool (a < snd (transformOptionalExpression (safeTransform Normal) fc n)) -
     of_bool (a < n)"
  "pred_prod (\<lambda>k. True) guardAssignmentsStayFlagged entry \<Longrightarrow>
     int (count_list (assignedXrefsEntry
        (fst (transformMapEntry (safeTransform Normal) entry n))) a) =
     int (count_list (assignedXrefsEntry entry) a) +
     of_bool (a < snd (transformMapEntry (safeTransform Normal) entry n)) - of_bool (a < n)"
  "list_all (pred_prod (\<lambda>k. True) guardAssignmentsStayFlagged) entries \<Longrightarrow>
     int (count_list (assignedXrefsEntries
        (fst (transformMapEntries (safeTransform Normal) entries n))) a) =
     int (count_list (assignedXrefsEntries entries) a) +
     of_bool (a < snd (transformMapEntries (safeTransform Normal) entries n)) - of_bool (a < n)"
proof (induct e and es and fc and entry and entries
    arbitrary: n and n and n and n and n rule: Expression_mutual_induct)
qed (simp_all add: visit_children visit_node split_beta safeTransform_count
      sweep_guard_assignment sweep_is_read del: visit_primrec split del: split_of_bool)

lemma safeTransform_defining_count:
  assumes "guardSatisfies guardDefinitionFlagged x"
  shows "int (count_list (definingXrefs (fst (safeTransform mode x n))) a) =
           int (count_list (definingXrefs x) a) +
           of_bool (a < snd (safeTransform mode x n)) - of_bool (a < n)"
proof -
  let ?n' = "snd (safeTransform mode x n)"
  have eq: "mset (definingXrefs (fst (safeTransform mode x n))) =
      mset (definingXrefs x) + mset [n..<?n']" and le: "n \<le> ?n'"
    using safeTransform_definingXrefs [OF assms, of mode n] by simp_all
  have "mset (definingXrefs (fst (safeTransform mode x n))) =
      mset (definingXrefs x @ [n..<?n'])"
    by (simp only: eq mset_append)
  then have "count (mset (definingXrefs (fst (safeTransform mode x n)))) a =
      count (mset (definingXrefs x @ [n..<?n'])) a"
    by (simp only:)
  then have "count_list (definingXrefs (fst (safeTransform mode x n))) a =
      count_list (definingXrefs x) a + count_list [n..<?n'] a"
    by (simp only: count_mset count_list_append)
  with le show ?thesis
    by (auto simp add: count_list_upt)
qed

lemma sweep_defining_count:
  "guardDefinitionsStayFlagged e \<Longrightarrow>
     int (count_list (definingXrefs
        (fst (transformExpressionsInExpression (safeTransform mode) e n))) a) =
     int (count_list (definingXrefs e) a) +
     of_bool (a < snd (transformExpressionsInExpression (safeTransform mode) e n)) -
     of_bool (a < n)"
  "list_all guardDefinitionsStayFlagged es \<Longrightarrow>
     int (count_list (definingXrefsList
        (fst (transformExpressionList (safeTransform mode) es n))) a) =
     int (count_list (definingXrefsList es) a) +
     of_bool (a < snd (transformExpressionList (safeTransform mode) es n)) - of_bool (a < n)"
  "pred_option guardDefinitionsStayFlagged fc \<Longrightarrow>
     int (count_list (definingXrefsOption
        (fst (transformOptionalExpression (safeTransform mode) fc n))) a) =
     int (count_list (definingXrefsOption fc) a) +
     of_bool (a < snd (transformOptionalExpression (safeTransform mode) fc n)) -
     of_bool (a < n)"
  "pred_prod (\<lambda>k. True) guardDefinitionsStayFlagged entry \<Longrightarrow>
     int (count_list (definingXrefsEntry
        (fst (transformMapEntry (safeTransform mode) entry n))) a) =
     int (count_list (definingXrefsEntry entry) a) +
     of_bool (a < snd (transformMapEntry (safeTransform mode) entry n)) - of_bool (a < n)"
  "list_all (pred_prod (\<lambda>k. True) guardDefinitionsStayFlagged) entries \<Longrightarrow>
     int (count_list (definingXrefsEntries
        (fst (transformMapEntries (safeTransform mode) entries n))) a) =
     int (count_list (definingXrefsEntries entries) a) +
     of_bool (a < snd (transformMapEntries (safeTransform mode) entries n)) - of_bool (a < n)"
proof (induct e and es and fc and entry and entries
    arbitrary: n and n and n and n and n rule: Expression_mutual_induct)
qed (simp_all add: visit_children visit_node split_beta safeTransform_defining_count
      sweep_guard_definition sweep_is_read del: visit_primrec split del: split_of_bool)

section \<open>Counting assignments through the pass\<close>

lemma lowered_is_read: "(lowered e = ReadTemporaryExpr y) = (e = ReadTemporaryExpr y)"
  by (cases e) (auto simp add: NULL_EXPR_def)

lemma forEach_visitor:
  "forEach (transformExpressionsInExpression f) es s = transformExpressionList f es s"
  by (induction es arbitrary: s) (simp_all add: visit_children del: visit_primrec)

lemma expandOp_state_mono: "m \<le> n \<Longrightarrow> m \<le> snd (expandOp mode op n)"
  by (simp add: expandOp_lowered forEach_visitor sweep_state_mono)

lemma forEach_count:
  assumes "\<And>x s. H x \<Longrightarrow>
      int (count_list (A (fst (f x s))) a) =
        int (count_list (A x) a) + of_bool (a < snd (f x s)) - of_bool (a < s)"
    and "list_all H xs"
  shows "int (count_list (concat (map A (fst (forEach f xs s)))) a) =
           int (count_list (concat (map A xs)) a) +
           of_bool (a < snd (forEach f xs s)) - of_bool (a < s)"
  using assms(2)
proof (induction xs arbitrary: s)
  case Nil
  show ?case by simp
next
  case (Cons x xs)
  then have x: "H x" and xs: "list_all H xs" by simp_all
  show ?case
    using assms(1) [OF x, of s] Cons.IH [OF xs, of "snd (f x s)"]
    by (simp add: split_beta split del: split_of_bool)
qed

lemma forEach_state_mono:
  assumes "\<And>x s m. m \<le> s \<Longrightarrow> m \<le> snd (f x s)"
  shows "m \<le> s \<Longrightarrow> m \<le> snd (forEach f xs s)"
  by (induction xs arbitrary: s) (simp_all add: split_beta assms)

lemma assignedXrefs_lowered:
  "assignedXrefs (lowered e) = assignedXrefs e"
  "assignedXrefsList (map lowered es) = assignedXrefsList es"
  "assignedXrefsOption (map_option lowered fc) = assignedXrefsOption fc"
  "assignedXrefsEntry (map_prod id lowered entry) = assignedXrefsEntry entry"
  "assignedXrefsEntries (map (map_prod id lowered) entries) = assignedXrefsEntries entries"
  by (induct e and es and fc and entry and entries rule: Expression_mutual_induct)
     (simp_all add: NULL_EXPR_def id_def lowered_is_read)

lemma expandOp_count:
  assumes "list_all guardAssignmentsStayFlagged op"
  shows "int (count_list (assignedXrefsList (fst (expandOp Normal op n))) a) =
           int (count_list (assignedXrefsList op) a) +
           of_bool (a < snd (expandOp Normal op n)) - of_bool (a < n)"
  using sweep_count(2) [OF assms, of n a]
  by (simp add: expandOp_lowered forEach_visitor assignedXrefs_lowered split del: split_of_bool)

lemma assignedXrefsList_append:
  "assignedXrefsList (xs @ ys) = assignedXrefsList xs @ assignedXrefsList ys"
  by (induction xs) simp_all

lemma assignedXrefsList_concat:
  "assignedXrefsList (concat ops) = concat (map assignedXrefsList ops)"
  by (induction ops) (simp_all add: assignedXrefsList_append)

lemma assignedXrefsInJob_units:
  "assignedXrefsInJob job =
     concat (map (\<lambda>u. concat (map assignedXrefsList u)) (units job))"
proof -
  have "assignedXrefsList (concat (concat us)) =
      concat (map (\<lambda>u. concat (map assignedXrefsList u)) us)" for us
    by (induction us) (simp_all add: assignedXrefsList_append assignedXrefsList_concat)
  then show ?thesis
    by (simp add: assignedXrefsInJob_def jobExpressions_def)
qed

lemma expandSafeReads_count:
  assumes "compatibility job = Normal"
    and "list_all guardAssignmentsStayFlagged (jobExpressions job)"
  shows "int (count_list (assignedXrefsInJob (expandSafeReads job)) a) =
           int (count_list (assignedXrefsInJob job) a) +
           of_bool (a < nextXrefId (expandSafeReads job)) - of_bool (a < nextXrefId job)"
proof -
  have guards: "list_all (list_all (list_all guardAssignmentsStayFlagged)) (units job)"
    using assms(2) by (simp add: jobExpressions_def list_all_concat_iff)
  have unit: "int (count_list (concat (map assignedXrefsList (fst (forEach (expandOp Normal) u s)))) a) =
      int (count_list (concat (map assignedXrefsList u)) a) +
      of_bool (a < snd (forEach (expandOp Normal) u s)) - of_bool (a < s)"
    if "list_all (list_all guardAssignmentsStayFlagged) u" for u s
    using _ that by (rule forEach_count) (rule expandOp_count)
  have "int (count_list (concat (map (\<lambda>u. concat (map assignedXrefsList u))
        (fst (forEach (forEach (expandOp Normal)) (units job) (nextXrefId job))))) a) =
      int (count_list (concat (map (\<lambda>u. concat (map assignedXrefsList u)) (units job))) a) +
      of_bool (a < snd (forEach (forEach (expandOp Normal)) (units job) (nextXrefId job))) -
      of_bool (a < nextXrefId job)"
    using _ guards by (rule forEach_count) (rule unit)
  then show ?thesis
    by (simp add: assignedXrefsInJob_units units_expandSafeReads nextXrefId_expandSafeReads
        assms(1) split del: split_of_bool)
qed

lemma definingXrefs_lowered:
  "definingXrefs (lowered e) = definingXrefs e"
  "definingXrefsList (map lowered es) = definingXrefsList es"
  "definingXrefsOption (map_option lowered fc) = definingXrefsOption fc"
  "definingXrefsEntry (map_prod id lowered entry) = definingXrefsEntry entry"
  "definingXrefsEntries (map (map_prod id lowered) entries) = definingXrefsEntries entries"
  by (induct e and es and fc and entry and entries rule: Expression_mutual_induct)
     (simp_all add: NULL_EXPR_def id_def lowered_is_read)

lemma expandOp_defining_count:
  assumes "list_all guardDefinitionsStayFlagged op"
  shows "int (count_list (definingXrefsList (fst (expandOp mode op n))) a) =
           int (count_list (definingXrefsList op) a) +
           of_bool (a < snd (expandOp mode op n)) - of_bool (a < n)"
  using sweep_defining_count(2) [OF assms, of mode n a]
  by (simp add: expandOp_lowered forEach_visitor definingXrefs_lowered split del: split_of_bool)

lemma definingXrefsList_append:
  "definingXrefsList (xs @ ys) = definingXrefsList xs @ definingXrefsList ys"
  by (induction xs) simp_all

lemma definingXrefsList_concat:
  "definingXrefsList (concat ops) = concat (map definingXrefsList ops)"
  by (induction ops) (simp_all add: definingXrefsList_append)

lemma definingXrefsInJob_units:
  "definingXrefsInJob job =
     concat (map (\<lambda>u. concat (map definingXrefsList u)) (units job))"
proof -
  have "definingXrefsList (concat (concat us)) =
      concat (map (\<lambda>u. concat (map definingXrefsList u)) us)" for us
    by (induction us) (simp_all add: definingXrefsList_append definingXrefsList_concat)
  then show ?thesis
    by (simp add: definingXrefsInJob_def jobExpressions_def)
qed

lemma expandSafeReads_defining_count:
  assumes "list_all guardDefinitionsStayFlagged (jobExpressions job)"
  shows "int (count_list (definingXrefsInJob (expandSafeReads job)) a) =
           int (count_list (definingXrefsInJob job) a) +
           of_bool (a < nextXrefId (expandSafeReads job)) - of_bool (a < nextXrefId job)"
proof -
  have guards: "list_all (list_all (list_all guardDefinitionsStayFlagged)) (units job)"
    using assms by (simp add: jobExpressions_def list_all_concat_iff)
  have unit: "int (count_list (concat (map definingXrefsList (fst (forEach (expandOp (compatibility job)) u s)))) a) =
      int (count_list (concat (map definingXrefsList u)) a) +
      of_bool (a < snd (forEach (expandOp (compatibility job)) u s)) - of_bool (a < s)"
    if "list_all (list_all guardDefinitionsStayFlagged) u" for u s
    using _ that by (rule forEach_count) (rule expandOp_defining_count)
  have "int (count_list (concat (map (\<lambda>u. concat (map definingXrefsList u))
        (fst (forEach (forEach (expandOp (compatibility job))) (units job) (nextXrefId job))))) a) =
      int (count_list (concat (map (\<lambda>u. concat (map definingXrefsList u)) (units job))) a) +
      of_bool (a < snd (forEach (forEach (expandOp (compatibility job))) (units job) (nextXrefId job))) -
      of_bool (a < nextXrefId job)"
    using _ guards by (rule forEach_count) (rule unit)
  then show ?thesis
    by (simp add: definingXrefsInJob_units units_expandSafeReads nextXrefId_expandSafeReads
         split del: split_of_bool)
qed

lemma expandSafeReads_state_mono: "nextXrefId job \<le> nextXrefId (expandSafeReads job)"
  unfolding nextXrefId_expandSafeReads
  by (intro forEach_state_mono expandOp_state_mono order_refl)

lemma distinct_count_list: "distinct xs \<longleftrightarrow> (\<forall>a. count_list xs a \<le> 1)"
proof (induction xs)
  case Nil
  show ?case by simp
next
  case (Cons x xs)
  show ?case
  proof
    assume d: "distinct (x # xs)"
    then have "x \<notin> set xs" and "\<forall>a. count_list xs a \<le> 1"
      using Cons by simp_all
    then show "\<forall>a. count_list (x # xs) a \<le> 1"
      by (auto simp: count_list_0_iff)
  next
    assume c: "\<forall>a. count_list (x # xs) a \<le> 1"
    then have "count_list (x # xs) x \<le> 1" by blast
    then have "count_list xs x = 0" by simp
    then have x: "x \<notin> set xs" by (simp add: count_list_0_iff)
    have "count_list xs a \<le> 1" for a
      using c [rule_format, of a] by (simp split: if_splits)
    with x Cons show "distinct (x # xs)" by simp
  qed
qed

lemma single_count:
  fixes n n' :: nat
  assumes le: "n \<le> n'"
    and old: "distinct before"
    and below: "list_all (\<lambda>x. x < n) before"
    and count: "\<And>a. int (count_list after a) =
        int (count_list before a) + of_bool (a < n') - of_bool (a < n)"
  shows "distinct after \<and> set after = set before \<union> {n..<n'}"
proof -
  have old1: "count_list before a \<le> 1" for a
    using old by (simp add: distinct_count_list)
  have zero: "count_list before a = 0" if "n \<le> a" for a
  proof -
    have "a \<notin> set before"
      using below that by (auto simp: list_all_iff)
    then show ?thesis by simp
  qed
  have after: "count_list after a =
      (if a < n then count_list before a else if a < n' then 1 else 0)" for a
    using count [of a] le zero [of a] by (auto split: if_splits)
  have "count_list after a \<le> 1" for a
    using old1 [of a] by (simp add: after)
  then have "distinct after" by (simp add: distinct_count_list)
  moreover have "a \<in> set after \<longleftrightarrow> a \<in> set before \<union> {n..<n'}" for a
  proof -
    have "a \<in> set after \<longleftrightarrow> count_list after a \<noteq> 0"
      by (simp add: count_list_0_iff)
    also have "\<dots> \<longleftrightarrow> (a < n \<and> count_list before a \<noteq> 0) \<or> (n \<le> a \<and> a < n')"
      by (auto simp add: after)
    also have "\<dots> \<longleftrightarrow> a \<in> set before \<union> {n..<n'}"
      using below by (auto simp: count_list_0_iff list_all_iff)
    finally show ?thesis .
  qed
  ultimately show ?thesis by blast
qed

section \<open>Single definition of a temporary\<close>

text \<open>
  C6, as the code has it. A defining assignment is an assign-temporary node that is not
  the self-assignment assign-temporary(read-temporary(id), id) which the deduplication
  writes in the legacy mode.

  In either compatibility mode: when no safe access of the job takes for its guard an
  assign-temporary node which defines its id and which the classifier does not flag
  (\<open>guardDefinitionsStayFlagged\<close>; on such a guard the copy keeps the assignment at its
  root, the slip of C4), and the ids of the defining assignments of the job are pairwise
  distinct and below the allocator's next id, then after the pass every id has at most one
  defining assignment in the job, and the ids defined are those defined before together
  with the ids the pass has minted.

  In the standard mode (\<open>Normal\<close>) the same holds of all assign-temporary nodes: when no
  safe access takes for its guard an assign-temporary node which the classifier does not
  flag (\<open>guardAssignmentsStayFlagged\<close>), and the ids assigned in the job are pairwise
  distinct and below the allocator's next id, then after the pass every id is assigned by at
  most one assign-temporary node.

  Only assign-temporary and read-temporary nodes carry an id, so every other occurrence of
  an id is a read-temporary or, in the legacy mode, a self-assignment.
\<close>

theorem single_defining_assignment:
  "(list_all guardDefinitionsStayFlagged (jobExpressions job) \<and>
    distinct (definingXrefsInJob job) \<and>
    list_all (\<lambda>x. x < nextXrefId job) (definingXrefsInJob job) \<longrightarrow>
      distinct (definingXrefsInJob (expandSafeReads job)) \<and>
      set (definingXrefsInJob (expandSafeReads job)) =
        set (definingXrefsInJob job) \<union> {nextXrefId job..<nextXrefId (expandSafeReads job)}) \<and>
   (compatibility job = Normal \<and>
    list_all guardAssignmentsStayFlagged (jobExpressions job) \<and>
    distinct (assignedXrefsInJob job) \<and>
    list_all (\<lambda>x. x < nextXrefId job) (assignedXrefsInJob job) \<longrightarrow>
      distinct (assignedXrefsInJob (expandSafeReads job)) \<and>
      set (assignedXrefsInJob (expandSafeReads job)) =
        set (assignedXrefsInJob job) \<union> {nextXrefId job..<nextXrefId (expandSafeReads job)})"
proof (intro conjI impI)
  assume a: "list_all guardDefinitionsStayFlagged (jobExpressions job) \<and>
    distinct (definingXrefsInJob job) \<and>
    list_all (\<lambda>x. x < nextXrefId job) (definingXrefsInJob job)"
  then have g: "list_all guardDefinitionsStayFlagged (jobExpressions job)"
    and d: "distinct (definingXrefsInJob job)"
    and b: "list_all (\<lambda>x. x < nextXrefId job) (definingXrefsInJob job)"
    by simp_all
  have "distinct (definingXrefsInJob (expandSafeReads job)) \<and>
      set (definingXrefsInJob (expandSafeReads job)) =
        set (definingXrefsInJob job) \<union> {nextXrefId job..<nextXrefId (expandSafeReads job)}"
    using expandSafeReads_state_mono d b
  proof (rule single_count)
    show "int (count_list (definingXrefsInJob (expandSafeReads job)) a) =
        int (count_list (definingXrefsInJob job) a) +
        of_bool (a < nextXrefId (expandSafeReads job)) - of_bool (a < nextXrefId job)" for a
      using g by (rule expandSafeReads_defining_count)
  qed
  then show "distinct (definingXrefsInJob (expandSafeReads job))"
    and "set (definingXrefsInJob (expandSafeReads job)) =
        set (definingXrefsInJob job) \<union> {nextXrefId job..<nextXrefId (expandSafeReads job)}"
    by simp_all
next
  assume a: "compatibility job = Normal \<and>
    list_all guardAssignmentsStayFlagged (jobExpressions job) \<and>
    distinct (assignedXrefsInJob job) \<and>
    list_all (\<lambda>x. x < nextXrefId job) (assignedXrefsInJob job)"
  then have mode: "compatibility job = Normal"
    and g: "list_all guardAssignmentsStayFlagged (jobExpressions job)"
    and d: "distinct (assignedXrefsInJob job)"
    and b: "list_all (\<lambda>x. x < nextXrefId job) (assignedXrefsInJob job)"
    by simp_all
  have "distinct (assignedXrefsInJob (expandSafeReads job)) \<and>
      set (assignedXrefsInJob (expandSafeReads job)) =
        set (assignedXrefsInJob job) \<union> {nextXrefId job..<nextXrefId (expandSafeReads job)}"
    using expandSafeReads_state_mono d b
  proof (rule single_count)
    show "int (count_list (assignedXrefsInJob (expandSafeReads job)) a) =
        int (count_list (assignedXrefsInJob job) a) +
        of_bool (a < nextXrefId (expandSafeReads job)) - of_bool (a < nextXrefId job)" for a
      using mode g by (rule expandSafeReads_count)
  qed
  then show "distinct (assignedXrefsInJob (expandSafeReads job))"
    and "set (assignedXrefsInJob (expandSafeReads job)) =
        set (assignedXrefsInJob job) \<union> {nextXrefId job..<nextXrefId (expandSafeReads job)}"
    by simp_all
qed

theorem single_defining_assignment_witness:
  "list_all guardDefinitionsStayFlagged (jobExpressions (singleExpressionJob
     TemplateDefinitionBuilder 0
     (SafePropertyReadExpr
        (SafeKeyedReadExpr (ReadVarExpr ''a'')
           (SafePropertyReadExpr (InvokeFunctionExpr (ReadVarExpr ''f'') []) ''b''))
        ''c''))) \<and>
   definingXrefsInJob (singleExpressionJob TemplateDefinitionBuilder 0
     (SafePropertyReadExpr
        (SafeKeyedReadExpr (ReadVarExpr ''a'')
           (SafePropertyReadExpr (InvokeFunctionExpr (ReadVarExpr ''f'') []) ''b''))
        ''c'')) = [] \<and>
   assignedXrefsInJob (expandSafeReads (singleExpressionJob TemplateDefinitionBuilder 0
     (SafePropertyReadExpr
        (SafeKeyedReadExpr (ReadVarExpr ''a'')
           (SafePropertyReadExpr (InvokeFunctionExpr (ReadVarExpr ''f'') []) ''b''))
        ''c''))) = [0, 0] \<and>
   definingXrefsInJob (expandSafeReads (singleExpressionJob TemplateDefinitionBuilder 0
     (SafePropertyReadExpr
        (SafeKeyedReadExpr (ReadVarExpr ''a'')
           (SafePropertyReadExpr (InvokeFunctionExpr (ReadVarExpr ''f'') []) ''b''))
        ''c''))) = [0] \<and>
   distinct (definingXrefsInJob (expandSafeReads (singleExpressionJob TemplateDefinitionBuilder 0
     (SafePropertyReadExpr
        (SafeKeyedReadExpr (ReadVarExpr ''a'')
           (SafePropertyReadExpr (InvokeFunctionExpr (ReadVarExpr ''f'') []) ''b''))
        ''c'')))) \<and>
   set (definingXrefsInJob (expandSafeReads (singleExpressionJob TemplateDefinitionBuilder 0
     (SafePropertyReadExpr
        (SafeKeyedReadExpr (ReadVarExpr ''a'')
           (SafePropertyReadExpr (InvokeFunctionExpr (ReadVarExpr ''f'') []) ''b''))
        ''c'')))) = {0} \<and>
   list_all guardAssignmentsStayFlagged (jobExpressions (singleExpressionJob Normal 1
     (SafePropertyReadExpr
        (AssignTemporaryExpr (InvokeFunctionExpr (ReadVarExpr ''f'') []) 0) ''b''))) \<and>
   assignedXrefsInJob (singleExpressionJob Normal 1
     (SafePropertyReadExpr
        (AssignTemporaryExpr (InvokeFunctionExpr (ReadVarExpr ''f'') []) 0) ''b'')) = [0] \<and>
   assignedXrefsInJob (expandSafeReads (singleExpressionJob Normal 1
     (SafePropertyReadExpr
        (AssignTemporaryExpr (InvokeFunctionExpr (ReadVarExpr ''f'') []) 0) ''b''))) = [1, 0] \<and>
   distinct (assignedXrefsInJob (expandSafeReads (singleExpressionJob Normal 1
     (SafePropertyReadExpr
        (AssignTemporaryExpr (InvokeFunctionExpr (ReadVarExpr ''f'') []) 0) ''b'')))) \<and>
   set (assignedXrefsInJob (expandSafeReads (singleExpressionJob Normal 1
     (SafePropertyReadExpr
        (AssignTemporaryExpr (InvokeFunctionExpr (ReadVarExpr ''f'') []) 0) ''b'')))) = {0, 1}"
proof -
  let ?l = "singleExpressionJob TemplateDefinitionBuilder 0
     (SafePropertyReadExpr
        (SafeKeyedReadExpr (ReadVarExpr ''a'')
           (SafePropertyReadExpr (InvokeFunctionExpr (ReadVarExpr ''f'') []) ''b''))
        ''c'')"
  let ?s = "singleExpressionJob Normal 1
     (SafePropertyReadExpr
        (AssignTemporaryExpr (InvokeFunctionExpr (ReadVarExpr ''f'') []) 0) ''b'')"
  have gl: "list_all guardDefinitionsStayFlagged (jobExpressions ?l)"
    by (simp add: jobExpressions_def singleExpressionJob_def definitionStaysFlagged_def
        assignmentStaysFlagged_def)
  have gs: "list_all guardAssignmentsStayFlagged (jobExpressions ?s)"
    by (simp add: jobExpressions_def singleExpressionJob_def assignmentStaysFlagged_def)
  have dl: "definingXrefsInJob ?l = []"
    by (simp add: definingXrefsInJob_def jobExpressions_def singleExpressionJob_def)
  have as: "assignedXrefsInJob ?s = [0]"
    by (simp add: assignedXrefsInJob_def jobExpressions_def singleExpressionJob_def)
  have ms: "compatibility ?s = Normal" and ns: "nextXrefId ?s = 1"
    by (simp_all add: singleExpressionJob_def)
  have al: "assignedXrefsInJob (expandSafeReads ?l) = [0, 0]"
    by (simp add: assignedXrefsInJob_def jobExpressions_def pass_defs NULL_EXPR_def)
  have el: "definingXrefsInJob (expandSafeReads ?l) = [0]"
    by (simp add: definingXrefsInJob_def jobExpressions_def pass_defs NULL_EXPR_def)
  have es: "assignedXrefsInJob (expandSafeReads ?s) = [1, 0]"
    by (simp add: assignedXrefsInJob_def jobExpressions_def pass_defs NULL_EXPR_def)
  have nl: "nextXrefId (expandSafeReads ?l) = 1" and ns': "nextXrefId (expandSafeReads ?s) = 2"
    by (simp_all add: pass_defs)
  have minted: "{Suc 0..<2} = {Suc 0}"
    by auto
  show ?thesis
    using single_defining_assignment [of ?l] single_defining_assignment [of ?s]
      gl gs dl as ms ns al el es nl ns' minted
    by (simp add: singleExpressionJob_def insert_commute)
qed

text \<open>
  C6 as stated, for either mode, fails in the legacy mode: for \<open>a?.[f()?.b]?.c\<close> the
  result holds the defining assign-temporary of id 0 and, in the copied guard, the
  self-assignment of id 0.
\<close>

theorem legacy_mode_assigns_twice:
  "assignedXrefsInJob (expandSafeReads (singleExpressionJob TemplateDefinitionBuilder 0
     (SafePropertyReadExpr
        (SafeKeyedReadExpr (ReadVarExpr ''a'')
           (SafePropertyReadExpr (InvokeFunctionExpr (ReadVarExpr ''f'') []) ''b''))
        ''c''))) = [0, 0] \<and>
   \<not> distinct (assignedXrefsInJob (expandSafeReads (singleExpressionJob TemplateDefinitionBuilder 0
     (SafePropertyReadExpr
        (SafeKeyedReadExpr (ReadVarExpr ''a'')
           (SafePropertyReadExpr (InvokeFunctionExpr (ReadVarExpr ''f'') []) ''b''))
        ''c''))))"
  by (simp add: assignedXrefsInJob_def jobExpressions_def pass_defs NULL_EXPR_def)

section \<open>Deduplication of the copied guard\<close>

lemma nested_safe_access_defines_once:
  "assignedXrefsInJob (expandSafeReads (singleExpressionJob Normal 0
     (SafePropertyReadExpr
        (SafeKeyedReadExpr (ReadVarExpr ''a'')
           (SafePropertyReadExpr (InvokeFunctionExpr (ReadVarExpr ''f'') []) ''b''))
        ''c''))) = [0]"
  by (simp add: assignedXrefsInJob_def jobExpressions_def pass_defs NULL_EXPR_def)

lemma copy_below_root_deduplicated:
  "\<not> isAssignTemporaryExpr G \<Longrightarrow>
     assignedXrefs (eliminateTemporaryAssignments (clone G) (temporariesIn G) Normal) = []"
  by (simp add: clone_def eliminateTemporaryAssignments_no_assignment_left)

text \<open>
  C4, at the input on which the code departs from it. The safe property read
  \<open>(t7 = a)?.b\<close> has for its guard an assign-temporary whose inner expression needs no
  temporary, so the guard is reused and copied. Id 7 is defined in the guard and the
  callback of the deduplication turns the copy into read-temporary(7); but
  \<open>eliminateTemporaryAssignments\<close> drops what the visitor returns for the root of the copy
  and returns the copy as it was, so the body keeps a second assign-temporary of id 7.
\<close>

theorem root_assignment_of_copy_kept:
  "temporariesIn (AssignTemporaryExpr (ReadVarExpr ''a'') 7) = {7} \<and>
   eliminateAssignment {7} Normal (AssignTemporaryExpr (ReadVarExpr ''a'') 7) =
     ReadTemporaryExpr 7 \<and>
   eliminateTemporaryAssignments (clone (AssignTemporaryExpr (ReadVarExpr ''a'') 7)) {7} Normal =
     AssignTemporaryExpr (ReadVarExpr ''a'') 7 \<and>
   expandSafeReads (singleExpressionJob Normal 8
     (SafePropertyReadExpr (AssignTemporaryExpr (ReadVarExpr ''a'') 7) ''b'')) =
   singleExpressionJob Normal 8
     (ConditionalExpr
        (BinaryOperatorExpr Equals (AssignTemporaryExpr (ReadVarExpr ''a'') 7) NULL_EXPR)
        NULL_EXPR
        (Some (ReadPropExpr (AssignTemporaryExpr (ReadVarExpr ''a'') 7) ''b''))) \<and>
   assignedXrefsInJob (expandSafeReads (singleExpressionJob Normal 8
     (SafePropertyReadExpr (AssignTemporaryExpr (ReadVarExpr ''a'') 7) ''b''))) = [7, 7]"
  by (simp add: assignedXrefsInJob_def jobExpressions_def pass_defs NULL_EXPR_def)

section \<open>A guard the classifier does not flag is copied whole\<close>

text \<open>
  The classifier does not look into a safe ternary. In \<open>a?.[b?.c()]?.d\<close> the key
  \<open>b?.c()\<close> has become a safe ternary when the outer safe read is expanded, so the
  guard \<open>a[...]\<close> of the outer read gets no temporary and is copied into the body, the
  call \<open>b.c()\<close> with it: the call occurs in the guard and again in the body.
\<close>

lemma unflagged_guard_copied_with_call:
  "expandSafeReads (singleExpressionJob mode n
     (SafePropertyReadExpr
        (SafeKeyedReadExpr (ReadVarExpr ''a'')
           (InvokeFunctionExpr (SafePropertyReadExpr (ReadVarExpr ''b'') ''c'') []))
        ''d'')) =
   singleExpressionJob mode n
     (ConditionalExpr (BinaryOperatorExpr Equals (ReadVarExpr ''a'') NULL_EXPR) NULL_EXPR
        (Some (ConditionalExpr
           (BinaryOperatorExpr Equals
              (ReadKeyExpr (ReadVarExpr ''a'')
                 (ConditionalExpr (BinaryOperatorExpr Equals (ReadVarExpr ''b'') NULL_EXPR)
                    NULL_EXPR
                    (Some (InvokeFunctionExpr (ReadPropExpr (ReadVarExpr ''b'') ''c'') []))))
              NULL_EXPR)
           NULL_EXPR
           (Some (ReadPropExpr
              (ReadKeyExpr (ReadVarExpr ''a'')
                 (ConditionalExpr (BinaryOperatorExpr Equals (ReadVarExpr ''b'') NULL_EXPR)
                    NULL_EXPR
                    (Some (InvokeFunctionExpr (ReadPropExpr (ReadVarExpr ''b'') ''c'') []))))
              ''d'')))))"
  by (simp add: pass_defs)

lemma unflagged_guard_copied_with_safe_call:
  "expandSafeReads (singleExpressionJob mode n
     (SafePropertyReadExpr
        (SafeKeyedReadExpr (ReadVarExpr ''a'')
           (SafeInvokeFunctionExpr (ReadPropExpr (ReadVarExpr ''b'') ''c'') []))
        ''d'')) =
   singleExpressionJob mode n
     (ConditionalExpr (BinaryOperatorExpr Equals (ReadVarExpr ''a'') NULL_EXPR) NULL_EXPR
        (Some (ConditionalExpr
           (BinaryOperatorExpr Equals
              (ReadKeyExpr (ReadVarExpr ''a'')
                 (ConditionalExpr
                    (BinaryOperatorExpr Equals (ReadPropExpr (ReadVarExpr ''b'') ''c'') NULL_EXPR)
                    NULL_EXPR
                    (Some (InvokeFunctionExpr (ReadPropExpr (ReadVarExpr ''b'') ''c'') []))))
              NULL_EXPR)
           NULL_EXPR
           (Some (ReadPropExpr
              (ReadKeyExpr (ReadVarExpr ''a'')
                 (ConditionalExpr
                    (BinaryOperatorExpr Equals (ReadPropExpr (ReadVarExpr ''b'') ''c'') NULL_EXPR)
                    NULL_EXPR
                    (Some (InvokeFunctionExpr (ReadPropExpr (ReadVarExpr ''b'') ''c'') []))))
              ''d'')))))"
  by (simp add: pass_defs)

text \<open>
  C10, at the input on which the code departs from it. The claim has the side effects of
  every guard occur exactly once when the output is evaluated. What the output evaluates is
  written in its tree: a call is made once for each function-invoke node that the
  evaluation reaches, and when a guard is not null the conditional evaluates its condition
  (the guard) and then its false case (the guarded body).

  The input is \<open>a?.[b?.c()]?.d\<close>, the example of the comment at lines 133-136, in either
  compatibility mode and any allocator state. It holds one call. When the outer safe read
  \<open>?.d\<close> is expanded, its guard is \<open>a[G]\<close>, where \<open>G\<close> is the safe ternary that
  \<open>b?.c()\<close> has become. The classifier answers false for this guard, since it does not
  look into a safe ternary, so the pass mints no temporary and copies the guard into the
  body. The output is
  \<open>a == null ? null : (a[b == null ? null : b.c()] == null ? null : a[b == null ? null : b.c()].d)\<close>:
  the call \<open>b.c()\<close> is written once in the guard of \<open>?.d\<close> and once more in the body
  that this guard protects, and no temporary has been minted (the allocator state is the
  one before the pass).
\<close>

theorem call_in_unflagged_guard_written_twice:
  "invokeNodes
     (SafePropertyReadExpr
        (SafeKeyedReadExpr (ReadVarExpr ''a'')
           (InvokeFunctionExpr (SafePropertyReadExpr (ReadVarExpr ''b'') ''c'') []))
        ''d'') =
     [InvokeFunctionExpr (SafePropertyReadExpr (ReadVarExpr ''b'') ''c'') []] \<and>
   \<not> needsTemporaryInSafeAccess
     (ReadKeyExpr (ReadVarExpr ''a'')
        (SafeTernaryExpr (ReadVarExpr ''b'')
           (InvokeFunctionExpr (ReadPropExpr (ReadVarExpr ''b'') ''c'') []))) \<and>
   safeTransform mode
     (SafePropertyReadExpr
        (SafeTernaryExpr (ReadVarExpr ''a'')
           (ReadKeyExpr (ReadVarExpr ''a'')
              (SafeTernaryExpr (ReadVarExpr ''b'')
                 (InvokeFunctionExpr (ReadPropExpr (ReadVarExpr ''b'') ''c'') []))))
        ''d'') n =
     (SafeTernaryExpr (ReadVarExpr ''a'')
        (SafeTernaryExpr
           (ReadKeyExpr (ReadVarExpr ''a'')
              (SafeTernaryExpr (ReadVarExpr ''b'')
                 (InvokeFunctionExpr (ReadPropExpr (ReadVarExpr ''b'') ''c'') [])))
           (ReadPropExpr
              (ReadKeyExpr (ReadVarExpr ''a'')
                 (SafeTernaryExpr (ReadVarExpr ''b'')
                    (InvokeFunctionExpr (ReadPropExpr (ReadVarExpr ''b'') ''c'') [])))
              ''d'')), n) \<and>
   expandSafeReads (singleExpressionJob mode n
     (SafePropertyReadExpr
        (SafeKeyedReadExpr (ReadVarExpr ''a'')
           (InvokeFunctionExpr (SafePropertyReadExpr (ReadVarExpr ''b'') ''c'') []))
        ''d'')) =
   singleExpressionJob mode n
     (ConditionalExpr (BinaryOperatorExpr Equals (ReadVarExpr ''a'') NULL_EXPR) NULL_EXPR
        (Some (ConditionalExpr
           (BinaryOperatorExpr Equals
              (ReadKeyExpr (ReadVarExpr ''a'')
                 (ConditionalExpr (BinaryOperatorExpr Equals (ReadVarExpr ''b'') NULL_EXPR)
                    NULL_EXPR
                    (Some (InvokeFunctionExpr (ReadPropExpr (ReadVarExpr ''b'') ''c'') []))))
              NULL_EXPR)
           NULL_EXPR
           (Some (ReadPropExpr
              (ReadKeyExpr (ReadVarExpr ''a'')
                 (ConditionalExpr (BinaryOperatorExpr Equals (ReadVarExpr ''b'') NULL_EXPR)
                    NULL_EXPR
                    (Some (InvokeFunctionExpr (ReadPropExpr (ReadVarExpr ''b'') ''c'') []))))
              ''d''))))) \<and>
   invokeNodesList (jobExpressions (expandSafeReads (singleExpressionJob mode n
     (SafePropertyReadExpr
        (SafeKeyedReadExpr (ReadVarExpr ''a'')
           (InvokeFunctionExpr (SafePropertyReadExpr (ReadVarExpr ''b'') ''c'') []))
        ''d'')))) =
     [InvokeFunctionExpr (ReadPropExpr (ReadVarExpr ''b'') ''c'') [],
      InvokeFunctionExpr (ReadPropExpr (ReadVarExpr ''b'') ''c'') []] \<and>
   nextXrefId (expandSafeReads (singleExpressionJob mode n
     (SafePropertyReadExpr
        (SafeKeyedReadExpr (ReadVarExpr ''a'')
           (InvokeFunctionExpr (SafePropertyReadExpr (ReadVarExpr ''b'') ''c'') []))
        ''d''))) = n"
  by (simp add: unflagged_guard_copied_with_call)
     (simp add: jobExpressions_def pass_defs NULL_EXPR_def)

section \<open>The parametrised pass is the pass\<close>

lemma eliminateAssignment_writing:
  "eliminateAssignment tmps mode e = eliminateAssignmentWriting (dedupWrite mode) tmps e"
  by (cases e)
     (simp_all add: eliminateAssignment_def eliminateAssignmentWriting_def dedupWrite_def
        selfAssignment_def Let_def)

lemma eliminateTemporaryAssignments_writing:
  "eliminateTemporaryAssignments e tmps mode =
     eliminateTemporaryAssignmentsWriting (dedupWrite mode) e tmps"
proof -
  have "eliminateAssignment tmps mode = eliminateAssignmentWriting (dedupWrite mode) tmps"
    by (rule ext) (rule eliminateAssignment_writing)
  then show ?thesis
    by (simp add: eliminateTemporaryAssignments_def eliminateTemporaryAssignmentsWriting_def)
qed

lemma safeTernaryWithTemporary_writing:
  "safeTernaryWithTemporary guard body mode n =
     safeTernaryWithTemporaryWriting (dedupWrite mode) guard body n"
  by (simp add: safeTernaryWithTemporary_def safeTernaryWithTemporaryWriting_def
      eliminateTemporaryAssignments_writing)

lemma dedupWrite_modes:
  "dedupWrite Normal = ReadTemporaryExpr"
  "dedupWrite TemplateDefinitionBuilder = selfAssignment"
  by (simp_all add: dedupWrite_def fun_eq_iff)

section \<open>The parametrised safeTransform on the six access kinds\<close>

lemma safeTransformWriting_ReadPropExpr:
  "safeTransformWriting write (ReadPropExpr r name) n =
     (if isSafeTernaryExpr r then assignDeepestExpr r (ReadPropExpr (innermostExpr r) name)
      else ReadPropExpr r name, n)"
  by (simp add: safeTransformWriting_def isAccessExpression_def isUnsafeAccessExpression_def
      deepestSafeTernary_def receiver_def exprOf_deepestFrom prop_of_def)

lemma safeTransformWriting_ReadKeyExpr:
  "safeTransformWriting write (ReadKeyExpr r i) n =
     (if isSafeTernaryExpr r then assignDeepestExpr r (ReadKeyExpr (innermostExpr r) i)
      else ReadKeyExpr r i, n)"
  by (simp add: safeTransformWriting_def isAccessExpression_def isUnsafeAccessExpression_def
      deepestSafeTernary_def receiver_def exprOf_deepestFrom key_def)

lemma safeTransformWriting_InvokeFunctionExpr:
  "safeTransformWriting write (InvokeFunctionExpr r args) n =
     (if isSafeTernaryExpr r
      then assignDeepestExpr r (InvokeFunctionExpr (innermostExpr r) args)
      else InvokeFunctionExpr r args, n)"
  by (simp add: safeTransformWriting_def isAccessExpression_def isUnsafeAccessExpression_def
      deepestSafeTernary_def receiver_def exprOf_deepestFrom callFn_def)

lemma safeTransformWriting_SafePropertyReadExpr:
  "safeTransformWriting write (SafePropertyReadExpr r name) n =
     (case safeTernaryWithTemporaryWriting write (innermostExpr r) (\<lambda>x. ReadPropExpr x name) n of
        (st, n') \<Rightarrow> (withInnermostExpr r st, n'))"
  by (simp add: safeTransformWriting_def isAccessExpression_def isSafeAccessExpression_def
      deepestSafeTernary_def receiver_def exprOf_deepestFrom prop_of_def withInnermostExpr_def
      innermostExpr_not_ternary split: prod.splits)

lemma safeTransformWriting_SafeKeyedReadExpr:
  "safeTransformWriting write (SafeKeyedReadExpr r i) n =
     (case safeTernaryWithTemporaryWriting write (innermostExpr r) (\<lambda>x. ReadKeyExpr x i) n of
        (st, n') \<Rightarrow> (withInnermostExpr r st, n'))"
  by (simp add: safeTransformWriting_def isAccessExpression_def isSafeAccessExpression_def
      deepestSafeTernary_def receiver_def exprOf_deepestFrom key_def withInnermostExpr_def
      innermostExpr_not_ternary split: prod.splits)

lemma safeTransformWriting_SafeInvokeFunctionExpr:
  "safeTransformWriting write (SafeInvokeFunctionExpr r args) n =
     (case safeTernaryWithTemporaryWriting write (innermostExpr r) (\<lambda>x. InvokeFunctionExpr x args) n of
        (st, n') \<Rightarrow> (withInnermostExpr r st, n'))"
  by (simp add: safeTransformWriting_def isAccessExpression_def isSafeAccessExpression_def
      deepestSafeTernary_def receiver_def exprOf_deepestFrom callFn_def withInnermostExpr_def
      innermostExpr_not_ternary split: prod.splits)

lemma safeTransformWriting_other:
  "safeTransformWriting write (ReadVarExpr x) n = (ReadVarExpr x, n)"
  "safeTransformWriting write (LiteralExpr v) n = (LiteralExpr v, n)"
  "safeTransformWriting write (UnaryOperatorExpr opr a) n = (UnaryOperatorExpr opr a, n)"
  "safeTransformWriting write (BinaryOperatorExpr bop l r) n = (BinaryOperatorExpr bop l r, n)"
  "safeTransformWriting write (ConditionalExpr c t fc) n = (ConditionalExpr c t fc, n)"
  "safeTransformWriting write (NotExpr c) n = (NotExpr c, n)"
  "safeTransformWriting write (LiteralArrayExpr es) n = (LiteralArrayExpr es, n)"
  "safeTransformWriting write (LiteralMapExpr entries) n = (LiteralMapExpr entries, n)"
  "safeTransformWriting write (PipeBindingExpr name args) n = (PipeBindingExpr name args, n)"
  "safeTransformWriting write (AssignTemporaryExpr a xref) n = (AssignTemporaryExpr a xref, n)"
  "safeTransformWriting write (ReadTemporaryExpr xref) n = (ReadTemporaryExpr xref, n)"
  "safeTransformWriting write (SafeTernaryExpr g b) n = (SafeTernaryExpr g b, n)"
  by (simp_all add: safeTransformWriting_def isAccessExpression_def isSafeAccessExpression_def
      isUnsafeAccessExpression_def)

lemmas safeTransformWriting_plain_access =
  safeTransformWriting_ReadPropExpr safeTransformWriting_ReadKeyExpr safeTransformWriting_InvokeFunctionExpr

lemmas safeTransformWriting_safe_access =
  safeTransformWriting_SafePropertyReadExpr safeTransformWriting_SafeKeyedReadExpr
  safeTransformWriting_SafeInvokeFunctionExpr

lemmas safeTransformWriting_node =
  safeTransformWriting_other safeTransformWriting_plain_access safeTransformWriting_safe_access

lemma safeTransform_writing:
  "safeTransform mode = safeTransformWriting (dedupWrite mode)"
proof (intro ext)
  fix e n
  show "safeTransform mode e n = safeTransformWriting (dedupWrite mode) e n"
    by (cases e)
       (simp_all add: safeTransform_node safeTransformWriting_node
          safeTernaryWithTemporary_writing)
qed

lemma expandOp_writing: "expandOp mode = expandOpWriting (dedupWrite mode)"
  by (intro ext) (simp add: expandOp_def expandOpWriting_def safeTransform_writing)

lemma expandSafeReads_writing:
  "expandSafeReads job = expandSafeReadsWriting (dedupWrite (compatibility job)) job"
  by (simp add: expandSafeReads_def expandSafeReadsWriting_def expandOp_writing)

section \<open>Replacing the tagged reads\<close>

lemma assignDeepestExpr_not_ternary: "\<not> isSafeTernaryExpr r \<Longrightarrow> assignDeepestExpr r v = r"
  by (cases r) (simp_all add: isSafeTernaryExpr_def)

lemma replaceTagged_needsTemporary:
  "needsTemporaryInSafeAccess (replaceTagged (dedupWrite mode) M e) =
     needsTemporaryInSafeAccess e"
proof (induction e)
  case (ConditionalExpr c t fc)
  then show ?case by (cases fc) simp_all
qed (simp_all add: dedupWrite_def selfAssignment_def)

lemma replaceTagged_isSafeTernaryExpr:
  "isSafeTernaryExpr (replaceTagged (dedupWrite mode) M e) = isSafeTernaryExpr e"
  by (cases e) (simp_all add: isSafeTernaryExpr_def dedupWrite_def selfAssignment_def)

lemma replaceTagged_innermostExpr:
  "innermostExpr (replaceTagged (dedupWrite mode) M e) =
     replaceTagged (dedupWrite mode) M (innermostExpr e)"
  by (induction e rule: innermostExpr.induct)
     (simp_all add: dedupWrite_def selfAssignment_def)

lemma replaceTagged_assignDeepestExpr:
  "replaceTagged (dedupWrite mode) M (assignDeepestExpr r v) =
     assignDeepestExpr (replaceTagged (dedupWrite mode) M r) (replaceTagged (dedupWrite mode) M v)"
proof (cases "isSafeTernaryExpr r")
  case False
  then have "\<not> isSafeTernaryExpr (replaceTagged (dedupWrite mode) M r)"
    by (simp add: replaceTagged_isSafeTernaryExpr del: replaceTagged.simps)
  with False show ?thesis
    by (simp add: assignDeepestExpr_not_ternary del: replaceTagged.simps)
next
  case True
  then show ?thesis
    by (induction r v rule: assignDeepestExpr.induct)
       (simp_all add: replaceTagged_isSafeTernaryExpr isSafeTernaryExpr_node)
qed

lemma replaceTagged_withInnermostExpr:
  "replaceTagged (dedupWrite mode) M (withInnermostExpr r v) =
     withInnermostExpr (replaceTagged (dedupWrite mode) M r) (replaceTagged (dedupWrite mode) M v)"
  by (simp add: withInnermostExpr_def replaceTagged_isSafeTernaryExpr
      replaceTagged_assignDeepestExpr)

lemma replaceTaggedList_map:
  "replaceTaggedList w M es = map (replaceTagged w M) es"
  by (induction es) simp_all

lemma replaceTagged_reads_below:
  "list_all (\<lambda>x. x < M) (readXrefs e) \<Longrightarrow> replaceTagged w M e = e"
  "list_all (\<lambda>x. x < M) (readXrefsList es) \<Longrightarrow> replaceTaggedList w M es = es"
  "list_all (\<lambda>x. x < M) (readXrefsOption fc) \<Longrightarrow> replaceTaggedOption w M fc = fc"
  "list_all (\<lambda>x. x < M) (readXrefsEntry entry) \<Longrightarrow> replaceTaggedEntry w M entry = entry"
  "list_all (\<lambda>x. x < M) (readXrefsEntries entries) \<Longrightarrow>
     replaceTaggedEntries w M entries = entries"
  by (induct e and es and fc and entry and entries rule: Expression_mutual_induct) simp_all

lemma readXrefsList_append:
  "readXrefsList (xs @ ys) = readXrefsList xs @ readXrefsList ys"
  by (induction xs) simp_all

lemma readXrefsList_concat:
  "readXrefsList (concat ops) = concat (map readXrefsList ops)"
  by (induction ops) (simp_all add: readXrefsList_append)

lemma replaceTagged_job_reads_below:
  assumes "list_all (\<lambda>x. x < M) (readXrefsInJob job)"
  shows "map (map (map (replaceTagged w M))) (units job) = units job"
proof -
  have op: "map (replaceTagged w M) op = op" if "list_all (\<lambda>x. x < M) (readXrefsList op)" for op
    using replaceTagged_reads_below(2) [OF that] by (simp add: replaceTaggedList_map)
  have unit: "map (map (replaceTagged w M)) u = u"
    if "list_all (\<lambda>x. x < M) (readXrefsList (concat u))" for u
    using that by (induction u) (simp_all add: readXrefsList_append op)
  have "map (map (map (replaceTagged w M))) us = us"
    if "list_all (\<lambda>x. x < M) (readXrefsList (concat (concat us)))" for us
    using that by (induction us) (simp_all add: readXrefsList_append unit)
  then show ?thesis
    using assms by (simp add: readXrefsInJob_def jobExpressions_def)
qed

lemma below_sum_list: "list_all (\<lambda>x. x < Suc (sum_list xs + k)) (xs :: nat list)"
proof -
  have "x \<le> sum_list xs" if "x \<in> set xs" for x
    using that by (induction xs) auto
  then show ?thesis
    by (auto simp add: list_all_iff less_Suc_eq_le intro: trans_le_add1)
qed

section \<open>The deduplication of the tagged run\<close>

lemma eliminate_tagged:
  "set (assignedXrefs e) \<subseteq> T \<Longrightarrow>
   set (assignedXrefs (replaceTagged (dedupWrite mode) M e)) \<subseteq> T' \<Longrightarrow>
     replaceTagged (dedupWrite mode) M
       (fst (transformExpressionsInExpression
          (pureTransform (eliminateAssignmentWriting (taggedRead M) T)) e u)) =
     fst (transformExpressionsInExpression (pureTransform (eliminateAssignment T' mode))
       (replaceTagged (dedupWrite mode) M e) u')"
  "set (assignedXrefsList es) \<subseteq> T \<Longrightarrow>
   set (assignedXrefsList (replaceTaggedList (dedupWrite mode) M es)) \<subseteq> T' \<Longrightarrow>
     replaceTaggedList (dedupWrite mode) M
       (fst (transformExpressionList
          (pureTransform (eliminateAssignmentWriting (taggedRead M) T)) es u)) =
     fst (transformExpressionList (pureTransform (eliminateAssignment T' mode))
       (replaceTaggedList (dedupWrite mode) M es) u')"
  "set (assignedXrefsOption fc) \<subseteq> T \<Longrightarrow>
   set (assignedXrefsOption (replaceTaggedOption (dedupWrite mode) M fc)) \<subseteq> T' \<Longrightarrow>
     replaceTaggedOption (dedupWrite mode) M
       (fst (transformOptionalExpression
          (pureTransform (eliminateAssignmentWriting (taggedRead M) T)) fc u)) =
     fst (transformOptionalExpression (pureTransform (eliminateAssignment T' mode))
       (replaceTaggedOption (dedupWrite mode) M fc) u')"
  "set (assignedXrefsEntry entry) \<subseteq> T \<Longrightarrow>
   set (assignedXrefsEntry (replaceTaggedEntry (dedupWrite mode) M entry)) \<subseteq> T' \<Longrightarrow>
     replaceTaggedEntry (dedupWrite mode) M
       (fst (transformMapEntry
          (pureTransform (eliminateAssignmentWriting (taggedRead M) T)) entry u)) =
     fst (transformMapEntry (pureTransform (eliminateAssignment T' mode))
       (replaceTaggedEntry (dedupWrite mode) M entry) u')"
  "set (assignedXrefsEntries entries) \<subseteq> T \<Longrightarrow>
   set (assignedXrefsEntries (replaceTaggedEntries (dedupWrite mode) M entries)) \<subseteq> T' \<Longrightarrow>
     replaceTaggedEntries (dedupWrite mode) M
       (fst (transformMapEntries
          (pureTransform (eliminateAssignmentWriting (taggedRead M) T)) entries u)) =
     fst (transformMapEntries (pureTransform (eliminateAssignment T' mode))
       (replaceTaggedEntries (dedupWrite mode) M entries) u')"
proof (induct e and es and fc and entry and entries
    arbitrary: u u' and u u' and u u' and u u' and u u' rule: Expression_mutual_induct)
qed (auto simp add: visit_children visit_node split_beta pureTransform_apply
      eliminateAssignment_def eliminateAssignmentWriting_def taggedRead_def dedupWrite_def
      selfAssignment_def Let_def simp del: visit_primrec)

lemma eliminateTemporaryAssignments_tagged:
  "replaceTagged (dedupWrite mode) M
     (eliminateTemporaryAssignmentsWriting (taggedRead M) G (temporariesIn G)) =
   eliminateTemporaryAssignments (replaceTagged (dedupWrite mode) M G)
     (temporariesIn (replaceTagged (dedupWrite mode) M G)) mode"
  unfolding eliminateTemporaryAssignments_def eliminateTemporaryAssignmentsWriting_def
    temporariesIn_assignedXrefs
  by (cases G)
     (auto simp add: visit_children visit_node split_beta pureTransform_apply
        eliminateAssignment_def dedupWrite_def selfAssignment_def
        simp del: visit_primrec intro!: eliminate_tagged)

section \<open>One step of the tagged run\<close>

lemma safeTernaryWithTemporary_tagged:
  assumes "\<And>x. replaceTagged (dedupWrite mode) M (body x) =
      body' (replaceTagged (dedupWrite mode) M x)"
    and "snd (safeTernaryWithTemporary (replaceTagged (dedupWrite mode) M G) body' mode n) \<le> M"
  shows "replaceTagged (dedupWrite mode) M
           (fst (safeTernaryWithTemporaryWriting (taggedRead M) G body n)) =
         fst (safeTernaryWithTemporary (replaceTagged (dedupWrite mode) M G) body' mode n) \<and>
         snd (safeTernaryWithTemporaryWriting (taggedRead M) G body n) =
         snd (safeTernaryWithTemporary (replaceTagged (dedupWrite mode) M G) body' mode n)"
  using assms
  by (simp add: safeTernaryWithTemporary_def safeTernaryWithTemporaryWriting_def
      allocateXrefId_def clone_def replaceTagged_needsTemporary
      eliminateTemporaryAssignments_tagged split: if_splits)

lemma safeTransform_tagged:
  assumes "snd (safeTransform mode (replaceTagged (dedupWrite mode) M x) n) \<le> M"
  shows "replaceTagged (dedupWrite mode) M (fst (safeTransformWriting (taggedRead M) x n)) =
           fst (safeTransform mode (replaceTagged (dedupWrite mode) M x) n) \<and>
         snd (safeTransformWriting (taggedRead M) x n) =
           snd (safeTransform mode (replaceTagged (dedupWrite mode) M x) n)"
proof (cases x)
  case (SafePropertyReadExpr r name)
  let ?U = "replaceTagged (dedupWrite mode) M"
  have "?U (fst (safeTernaryWithTemporaryWriting (taggedRead M) (innermostExpr r)
            (\<lambda>x. ReadPropExpr x name) n)) =
         fst (safeTernaryWithTemporary (?U (innermostExpr r)) (\<lambda>x. ReadPropExpr x name) mode n) \<and>
       snd (safeTernaryWithTemporaryWriting (taggedRead M) (innermostExpr r)
            (\<lambda>x. ReadPropExpr x name) n) =
         snd (safeTernaryWithTemporary (?U (innermostExpr r)) (\<lambda>x. ReadPropExpr x name) mode n)"
    using assms
    by (intro safeTernaryWithTemporary_tagged)
       (simp_all add: SafePropertyReadExpr safeTransform_node split_beta
          replaceTagged_innermostExpr)
  then show ?thesis
    by (simp add: SafePropertyReadExpr safeTransform_node safeTransformWriting_node split_beta
        replaceTagged_innermostExpr replaceTagged_withInnermostExpr)
next
  case (SafeKeyedReadExpr r i)
  let ?U = "replaceTagged (dedupWrite mode) M"
  have "?U (fst (safeTernaryWithTemporaryWriting (taggedRead M) (innermostExpr r)
            (\<lambda>x. ReadKeyExpr x i) n)) =
         fst (safeTernaryWithTemporary (?U (innermostExpr r)) (\<lambda>x. ReadKeyExpr x (?U i)) mode n) \<and>
       snd (safeTernaryWithTemporaryWriting (taggedRead M) (innermostExpr r)
            (\<lambda>x. ReadKeyExpr x i) n) =
         snd (safeTernaryWithTemporary (?U (innermostExpr r)) (\<lambda>x. ReadKeyExpr x (?U i)) mode n)"
    using assms
    by (intro safeTernaryWithTemporary_tagged)
       (simp_all add: SafeKeyedReadExpr safeTransform_node split_beta
          replaceTagged_innermostExpr)
  then show ?thesis
    by (simp add: SafeKeyedReadExpr safeTransform_node safeTransformWriting_node split_beta
        replaceTagged_innermostExpr replaceTagged_withInnermostExpr)
next
  case (SafeInvokeFunctionExpr r args)
  let ?U = "replaceTagged (dedupWrite mode) M"
  have "?U (fst (safeTernaryWithTemporaryWriting (taggedRead M) (innermostExpr r)
            (\<lambda>x. InvokeFunctionExpr x args) n)) =
         fst (safeTernaryWithTemporary (?U (innermostExpr r))
            (\<lambda>x. InvokeFunctionExpr x (replaceTaggedList (dedupWrite mode) M args)) mode n) \<and>
       snd (safeTernaryWithTemporaryWriting (taggedRead M) (innermostExpr r)
            (\<lambda>x. InvokeFunctionExpr x args) n) =
         snd (safeTernaryWithTemporary (?U (innermostExpr r))
            (\<lambda>x. InvokeFunctionExpr x (replaceTaggedList (dedupWrite mode) M args)) mode n)"
    using assms
    by (intro safeTernaryWithTemporary_tagged)
       (simp_all add: SafeInvokeFunctionExpr safeTransform_node split_beta
          replaceTagged_innermostExpr)
  then show ?thesis
    by (simp add: SafeInvokeFunctionExpr safeTransform_node safeTransformWriting_node split_beta
        replaceTagged_innermostExpr replaceTagged_withInnermostExpr)
next
  case (ReadTemporaryExpr xref)
  then show ?thesis
    by (simp add: safeTransform_node safeTransformWriting_node dedupWrite_def selfAssignment_def)
qed (simp_all add: safeTransform_node safeTransformWriting_node replaceTagged_isSafeTernaryExpr
      replaceTagged_assignDeepestExpr replaceTagged_innermostExpr)

section \<open>The first sweep of the tagged run\<close>

text \<open>
  The allocator only moves forward, so a bound on its state after a run bounds its state
  at every step of the run.
\<close>

lemma bound_step:
  "(snd (safeTransform mode x s) \<le> M) = (snd (safeTransform mode x s) \<in> {..M} \<and> s \<le> M)"
  using safeTransform_state_mono [of s s mode x] by auto

lemma bound_sweep:
  "(snd (transformExpressionsInExpression (safeTransform mode) e s) \<le> M) =
     (snd (transformExpressionsInExpression (safeTransform mode) e s) \<in> {..M} \<and> s \<le> M)"
  "(snd (transformExpressionList (safeTransform mode) es s) \<le> M) =
     (snd (transformExpressionList (safeTransform mode) es s) \<in> {..M} \<and> s \<le> M)"
  "(snd (transformOptionalExpression (safeTransform mode) fc s) \<le> M) =
     (snd (transformOptionalExpression (safeTransform mode) fc s) \<in> {..M} \<and> s \<le> M)"
  "(snd (transformMapEntry (safeTransform mode) entry s) \<le> M) =
     (snd (transformMapEntry (safeTransform mode) entry s) \<in> {..M} \<and> s \<le> M)"
  "(snd (transformMapEntries (safeTransform mode) entries s) \<le> M) =
     (snd (transformMapEntries (safeTransform mode) entries s) \<in> {..M} \<and> s \<le> M)"
  using sweep_state_mono(1) [of s s mode e] sweep_state_mono(2) [of s s mode es]
    sweep_state_mono(3) [of s s mode fc] sweep_state_mono(4) [of s s mode entry]
    sweep_state_mono(5) [of s s mode entries]
  by auto

lemma sweep_dedupWrite:
  "transformExpressionsInExpression (safeTransform mode) (dedupWrite mode k) n =
     (dedupWrite mode k, n)"
  by (simp add: visit_node visit_children safeTransform_other dedupWrite_def selfAssignment_def
      del: visit_primrec)

lemma sweep_tagged:
  "snd (transformExpressionsInExpression (safeTransform mode)
      (replaceTagged (dedupWrite mode) M e) n) \<le> M \<Longrightarrow>
     replaceTagged (dedupWrite mode) M
       (fst (transformExpressionsInExpression (safeTransformWriting (taggedRead M)) e n)) =
     fst (transformExpressionsInExpression (safeTransform mode)
       (replaceTagged (dedupWrite mode) M e) n) \<and>
     snd (transformExpressionsInExpression (safeTransformWriting (taggedRead M)) e n) =
     snd (transformExpressionsInExpression (safeTransform mode)
       (replaceTagged (dedupWrite mode) M e) n)"
  "snd (transformExpressionList (safeTransform mode)
      (replaceTaggedList (dedupWrite mode) M es) n) \<le> M \<Longrightarrow>
     replaceTaggedList (dedupWrite mode) M
       (fst (transformExpressionList (safeTransformWriting (taggedRead M)) es n)) =
     fst (transformExpressionList (safeTransform mode)
       (replaceTaggedList (dedupWrite mode) M es) n) \<and>
     snd (transformExpressionList (safeTransformWriting (taggedRead M)) es n) =
     snd (transformExpressionList (safeTransform mode)
       (replaceTaggedList (dedupWrite mode) M es) n)"
  "snd (transformOptionalExpression (safeTransform mode)
      (replaceTaggedOption (dedupWrite mode) M fc) n) \<le> M \<Longrightarrow>
     replaceTaggedOption (dedupWrite mode) M
       (fst (transformOptionalExpression (safeTransformWriting (taggedRead M)) fc n)) =
     fst (transformOptionalExpression (safeTransform mode)
       (replaceTaggedOption (dedupWrite mode) M fc) n) \<and>
     snd (transformOptionalExpression (safeTransformWriting (taggedRead M)) fc n) =
     snd (transformOptionalExpression (safeTransform mode)
       (replaceTaggedOption (dedupWrite mode) M fc) n)"
  "snd (transformMapEntry (safeTransform mode)
      (replaceTaggedEntry (dedupWrite mode) M entry) n) \<le> M \<Longrightarrow>
     replaceTaggedEntry (dedupWrite mode) M
       (fst (transformMapEntry (safeTransformWriting (taggedRead M)) entry n)) =
     fst (transformMapEntry (safeTransform mode)
       (replaceTaggedEntry (dedupWrite mode) M entry) n) \<and>
     snd (transformMapEntry (safeTransformWriting (taggedRead M)) entry n) =
     snd (transformMapEntry (safeTransform mode)
       (replaceTaggedEntry (dedupWrite mode) M entry) n)"
  "snd (transformMapEntries (safeTransform mode)
      (replaceTaggedEntries (dedupWrite mode) M entries) n) \<le> M \<Longrightarrow>
     replaceTaggedEntries (dedupWrite mode) M
       (fst (transformMapEntries (safeTransformWriting (taggedRead M)) entries n)) =
     fst (transformMapEntries (safeTransform mode)
       (replaceTaggedEntries (dedupWrite mode) M entries) n) \<and>
     snd (transformMapEntries (safeTransformWriting (taggedRead M)) entries n) =
     snd (transformMapEntries (safeTransform mode)
       (replaceTaggedEntries (dedupWrite mode) M entries) n)"
proof (induct e and es and fc and entry and entries
    arbitrary: n and n and n and n and n rule: Expression_mutual_induct)
qed (simp_all add: visit_children visit_node split_beta
      safeTransform_other safeTransformWriting_other bound_step bound_sweep sweep_dedupWrite
      safeTransform_tagged [where mode = mode and M = M, THEN conjunct1]
      safeTransform_tagged [where mode = mode and M = M, THEN conjunct2]
      del: visit_primrec atMost_iff)

section \<open>The tagged run through the pass\<close>

lemma lowered_dedupWrite: "lowered (dedupWrite mode k) = dedupWrite mode k"
  by (simp add: dedupWrite_def selfAssignment_def)

lemma replaceTagged_lowered:
  "replaceTagged (dedupWrite mode) M (lowered e) = lowered (replaceTagged (dedupWrite mode) M e)"
  "replaceTaggedList (dedupWrite mode) M (map lowered es) =
     map lowered (replaceTaggedList (dedupWrite mode) M es)"
  "replaceTaggedOption (dedupWrite mode) M (map_option lowered fc) =
     map_option lowered (replaceTaggedOption (dedupWrite mode) M fc)"
  "replaceTaggedEntry (dedupWrite mode) M (map_prod id lowered entry) =
     map_prod id lowered (replaceTaggedEntry (dedupWrite mode) M entry)"
  "replaceTaggedEntries (dedupWrite mode) M (map (map_prod id lowered) entries) =
     map (map_prod id lowered) (replaceTaggedEntries (dedupWrite mode) M entries)"
  by (induct e and es and fc and entry and entries rule: Expression_mutual_induct)
     (simp_all add: NULL_EXPR_def id_def lowered_dedupWrite)

lemma expandOpWriting_lowered:
  "expandOpWriting write op n =
     (map lowered
        (fst (forEach (transformExpressionsInExpression (safeTransformWriting write)) op n)),
      snd (forEach (transformExpressionsInExpression (safeTransformWriting write)) op n))"
  by (simp add: expandOpWriting_def transformExpressionsInOp_def forEach_pure_sweep
      split: prod.splits)

lemma expandOp_tagged:
  assumes "snd (expandOp mode (map (replaceTagged (dedupWrite mode) M) op) n) \<le> M"
  shows "map (replaceTagged (dedupWrite mode) M) (fst (expandOpWriting (taggedRead M) op n)) =
           fst (expandOp mode (map (replaceTagged (dedupWrite mode) M) op) n) \<and>
         snd (expandOpWriting (taggedRead M) op n) =
           snd (expandOp mode (map (replaceTagged (dedupWrite mode) M) op) n)"
proof -
  have "snd (transformExpressionList (safeTransform mode)
      (replaceTaggedList (dedupWrite mode) M op) n) \<le> M"
    using assms by (simp add: expandOp_lowered forEach_visitor replaceTaggedList_map)
  then have "replaceTaggedList (dedupWrite mode) M
       (fst (transformExpressionList (safeTransformWriting (taggedRead M)) op n)) =
     fst (transformExpressionList (safeTransform mode)
       (replaceTaggedList (dedupWrite mode) M op) n) \<and>
     snd (transformExpressionList (safeTransformWriting (taggedRead M)) op n) =
     snd (transformExpressionList (safeTransform mode)
       (replaceTaggedList (dedupWrite mode) M op) n)"
    by (rule sweep_tagged)
  then show ?thesis
    using replaceTagged_lowered(2) [of mode M
        "fst (transformExpressionList (safeTransformWriting (taggedRead M)) op n)"]
    by (simp add: expandOp_lowered expandOpWriting_lowered forEach_visitor replaceTaggedList_map)
qed

lemma forEach_tagged:
  assumes step: "\<And>x s. snd (g (V x) s) \<le> M \<Longrightarrow>
      W (fst (f x s)) = fst (g (V x) s) \<and> snd (f x s) = snd (g (V x) s)"
    and mono: "\<And>x s m. m \<le> s \<Longrightarrow> m \<le> snd (g x s)"
  shows "snd (forEach g (map V xs) s) \<le> (M::nat) \<Longrightarrow>
     map W (fst (forEach f xs s)) = fst (forEach g (map V xs) s) \<and>
     snd (forEach f xs s) = snd (forEach g (map V xs) s)"
proof (induction xs arbitrary: s)
  case Nil
  show ?case by simp
next
  case (Cons x xs)
  let ?s1 = "snd (g (V x) s)"
  have all: "snd (forEach g (map V xs) ?s1) \<le> M"
    using Cons.prems by (simp add: split_beta)
  have "?s1 \<le> snd (forEach g (map V xs) ?s1)"
    by (intro forEach_state_mono mono order_refl)
  with all have s1: "?s1 \<le> M" by simp
  have x: "W (fst (f x s)) = fst (g (V x) s)" and sx: "snd (f x s) = ?s1"
    using step [OF s1] by simp_all
  show ?case
    using Cons.IH [OF all] x by (simp add: split_beta sx)
qed

lemma expandSafeReads_tagged:
  assumes reads: "list_all (\<lambda>x. x < M) (readXrefsInJob job)"
    and bound: "nextXrefId (expandSafeReads job) \<le> M"
  shows "units (expandSafeReads job) =
           map (map (map (replaceTagged (dedupWrite (compatibility job)) M)))
             (units (expandSafeReadsWriting (taggedRead M) job)) \<and>
         nextXrefId (expandSafeReadsWriting (taggedRead M) job) = nextXrefId (expandSafeReads job)"
proof -
  let ?mode = "compatibility job"
  let ?U = "replaceTagged (dedupWrite ?mode) M"
  have same: "map (map (map ?U)) (units job) = units job"
    using reads by (rule replaceTagged_job_reads_below)
  have unit: "map (map ?U) (fst (forEach (expandOpWriting (taggedRead M)) u s)) =
        fst (forEach (expandOp ?mode) (map (map ?U) u) s) \<and>
      snd (forEach (expandOpWriting (taggedRead M)) u s) =
        snd (forEach (expandOp ?mode) (map (map ?U) u) s)"
    if "snd (forEach (expandOp ?mode) (map (map ?U) u) s) \<le> M" for u s
    using _ _ that
  proof (rule forEach_tagged)
    show "m \<le> s \<Longrightarrow> m \<le> snd (expandOp ?mode x s)" for x s m
      by (rule expandOp_state_mono)
  qed (rule expandOp_tagged)
  have "snd (forEach (forEach (expandOp ?mode)) (map (map (map ?U)) (units job))
      (nextXrefId job)) \<le> M"
    using bound by (simp add: same nextXrefId_expandSafeReads)
  with _ _ have "map (map (map ?U))
        (fst (forEach (forEach (expandOpWriting (taggedRead M))) (units job) (nextXrefId job))) =
      fst (forEach (forEach (expandOp ?mode)) (map (map (map ?U)) (units job)) (nextXrefId job)) \<and>
    snd (forEach (forEach (expandOpWriting (taggedRead M))) (units job) (nextXrefId job)) =
      snd (forEach (forEach (expandOp ?mode)) (map (map (map ?U)) (units job)) (nextXrefId job))"
  proof (rule forEach_tagged)
    show "m \<le> s \<Longrightarrow> m \<le> snd (forEach (expandOp ?mode) x s)" for x s m
      by (intro forEach_state_mono expandOp_state_mono)
  qed (rule unit)
  then show ?thesis
    by (simp add: same units_expandSafeReads nextXrefId_expandSafeReads
        expandSafeReadsWriting_def split_beta)
qed

section \<open>The legacy mode wraps the reads of the deduplication, and only them\<close>

text \<open>
  C5. For every job, the result of the pass in the legacy mode
  (\<open>TemplateDefinitionBuilder\<close>) is the result in the standard mode (\<open>Normal\<close>) except at
  places where the standard result has a bare read-temporary(id) and the legacy result has
  assign-temporary(read-temporary(id), id) (\<open>selfAssignVariant\<close>), and the allocator ends
  in the same state.

  These places are the reads that the deduplication writes, and no others. The pass with
  the write of the deduplication as a parameter (\<open>expandSafeReadsWriting\<close>) is the pass
  in the standard mode when the write is read-temporary(id), and the pass in the legacy
  mode when the write is the self-assignment. In the tagged run the deduplication writes
  read-temporary(M + id). There is an \<open>M\<close> beyond the ids of the read-temporary nodes
  of the job and beyond the ids that the pass mints (the allocator's state after the pass),
  and for every such \<open>M\<close>: the result in the standard mode is the result of the tagged
  run with read-temporary(id) in the place of every tagged read, and the result in the
  legacy mode is the result of the same tagged run with
  assign-temporary(read-temporary(id), id) in the place of every tagged read, and equal to
  it everywhere else. A read that the pass builds for a fresh temporary (line 130) or that
  the job held before has an id below \<open>M\<close>, carries no tag, and is the same bare
  read in both modes; a tagged read that a later guard copy duplicates keeps its tag.
\<close>

theorem legacy_wraps_the_deduplicated_reads:
  "list_all2 (list_all2 (list_all2 selfAssignVariant))
     (units (expandSafeReads (job\<lparr>compatibility := Normal\<rparr>)))
     (units (expandSafeReads (job\<lparr>compatibility := TemplateDefinitionBuilder\<rparr>))) \<and>
   nextXrefId (expandSafeReads (job\<lparr>compatibility := Normal\<rparr>)) =
   nextXrefId (expandSafeReads (job\<lparr>compatibility := TemplateDefinitionBuilder\<rparr>)) \<and>
   expandSafeReadsWriting ReadTemporaryExpr (job\<lparr>compatibility := Normal\<rparr>) =
     expandSafeReads (job\<lparr>compatibility := Normal\<rparr>) \<and>
   expandSafeReadsWriting selfAssignment (job\<lparr>compatibility := TemplateDefinitionBuilder\<rparr>) =
     expandSafeReads (job\<lparr>compatibility := TemplateDefinitionBuilder\<rparr>) \<and>
   (\<exists>M. list_all (\<lambda>x. x < M) (readXrefsInJob job) \<and>
      nextXrefId (expandSafeReads (job\<lparr>compatibility := Normal\<rparr>)) \<le> M) \<and>
   (list_all (\<lambda>x. x < M) (readXrefsInJob job) \<and>
    nextXrefId (expandSafeReads (job\<lparr>compatibility := Normal\<rparr>)) \<le> M \<longrightarrow>
      units (expandSafeReads (job\<lparr>compatibility := Normal\<rparr>)) =
        map (map (map (replaceTagged ReadTemporaryExpr M)))
          (units (expandSafeReadsWriting (taggedRead M) job)) \<and>
      units (expandSafeReads (job\<lparr>compatibility := TemplateDefinitionBuilder\<rparr>)) =
        map (map (map (replaceTagged selfAssignment M)))
          (units (expandSafeReadsWriting (taggedRead M) job)) \<and>
      nextXrefId (expandSafeReadsWriting (taggedRead M) job) =
        nextXrefId (expandSafeReads (job\<lparr>compatibility := Normal\<rparr>)))"
proof -
  let ?n = "job\<lparr>compatibility := Normal\<rparr>"
  let ?l = "job\<lparr>compatibility := TemplateDefinitionBuilder\<rparr>"
  have modes: "list_all2 (list_all2 (list_all2 selfAssignVariant))
      (units (expandSafeReads ?n)) (units (expandSafeReads ?l)) \<and>
    nextXrefId (expandSafeReads ?n) = nextXrefId (expandSafeReads ?l)"
    by (rule expandSafeReads_modes)
  have wn: "expandSafeReadsWriting ReadTemporaryExpr ?n = expandSafeReads ?n"
    and wl: "expandSafeReadsWriting selfAssignment ?l = expandSafeReads ?l"
    by (simp_all add: expandSafeReads_writing dedupWrite_modes)
  have tagged: "units (expandSafeReads ?n) =
        map (map (map (replaceTagged ReadTemporaryExpr M)))
          (units (expandSafeReadsWriting (taggedRead M) job)) \<and>
      units (expandSafeReads ?l) =
        map (map (map (replaceTagged selfAssignment M)))
          (units (expandSafeReadsWriting (taggedRead M) job)) \<and>
      nextXrefId (expandSafeReadsWriting (taggedRead M) job) = nextXrefId (expandSafeReads ?n)"
    if reads: "list_all (\<lambda>x. x < M) (readXrefsInJob job)"
      and bound: "nextXrefId (expandSafeReads ?n) \<le> M"
  proof -
    have run: "expandSafeReadsWriting (taggedRead M) ?n =
        (expandSafeReadsWriting (taggedRead M) job)\<lparr>compatibility := Normal\<rparr>"
      "expandSafeReadsWriting (taggedRead M) ?l =
        (expandSafeReadsWriting (taggedRead M) job)\<lparr>compatibility := TemplateDefinitionBuilder\<rparr>"
      by (simp_all add: expandSafeReadsWriting_def split_beta)
    have "list_all (\<lambda>x. x < M) (readXrefsInJob ?n)"
      using reads by (simp add: readXrefsInJob_def jobExpressions_def)
    from expandSafeReads_tagged [OF this bound]
    have n: "units (expandSafeReads ?n) =
        map (map (map (replaceTagged ReadTemporaryExpr M)))
          (units (expandSafeReadsWriting (taggedRead M) job))"
      and s: "nextXrefId (expandSafeReadsWriting (taggedRead M) job) =
        nextXrefId (expandSafeReads ?n)"
      by (simp_all add: run dedupWrite_modes)
    have "list_all (\<lambda>x. x < M) (readXrefsInJob ?l)"
      and "nextXrefId (expandSafeReads ?l) \<le> M"
      using reads bound modes by (simp_all add: readXrefsInJob_def jobExpressions_def)
    from expandSafeReads_tagged [OF this]
    have "units (expandSafeReads ?l) =
        map (map (map (replaceTagged selfAssignment M)))
          (units (expandSafeReadsWriting (taggedRead M) job))"
      by (simp add: run dedupWrite_modes)
    with n s show ?thesis by simp
  qed
  have "list_all (\<lambda>x. x < Suc (sum_list (readXrefsInJob job) + nextXrefId (expandSafeReads ?n)))
      (readXrefsInJob job) \<and>
    nextXrefId (expandSafeReads ?n) \<le>
      Suc (sum_list (readXrefsInJob job) + nextXrefId (expandSafeReads ?n))"
    by (simp add: below_sum_list)
  then have ex: "\<exists>M. list_all (\<lambda>x. x < M) (readXrefsInJob job) \<and>
      nextXrefId (expandSafeReads ?n) \<le> M"
    by (rule exI)
  from modes wn wl ex tagged show ?thesis by blast
qed

theorem legacy_wraps_the_deduplicated_reads_witness:
  "readXrefsInJob (singleExpressionJob Normal 4
     (SafePropertyReadExpr
        (SafePropertyReadExpr
           (SafeKeyedReadExpr (ReadTemporaryExpr 3)
              (SafePropertyReadExpr (InvokeFunctionExpr (ReadVarExpr ''f'') []) ''b''))
           ''c'')
        ''d'')) = [3] \<and>
   nextXrefId (expandSafeReads ((singleExpressionJob Normal 4
     (SafePropertyReadExpr
        (SafePropertyReadExpr
           (SafeKeyedReadExpr (ReadTemporaryExpr 3)
              (SafePropertyReadExpr (InvokeFunctionExpr (ReadVarExpr ''f'') []) ''b''))
           ''c'')
        ''d''))\<lparr>compatibility := Normal\<rparr>)) = 5 \<and>
   units (expandSafeReadsWriting (taggedRead 10) (singleExpressionJob Normal 4
     (SafePropertyReadExpr
        (SafePropertyReadExpr
           (SafeKeyedReadExpr (ReadTemporaryExpr 3)
              (SafePropertyReadExpr (InvokeFunctionExpr (ReadVarExpr ''f'') []) ''b''))
           ''c'')
        ''d''))) =
   [[[(ConditionalExpr (BinaryOperatorExpr Equals (ReadTemporaryExpr 3) NULL_EXPR) NULL_EXPR
        (Some (ConditionalExpr
           (BinaryOperatorExpr Equals
              (ReadKeyExpr (ReadTemporaryExpr 3)
                     (ConditionalExpr
                        (BinaryOperatorExpr Equals (AssignTemporaryExpr (InvokeFunctionExpr (ReadVarExpr ''f'') []) 4) NULL_EXPR)
                        NULL_EXPR
                        (Some (ReadPropExpr (ReadTemporaryExpr 4) ''b''))))
              NULL_EXPR)
           NULL_EXPR
           (Some (ConditionalExpr
              (BinaryOperatorExpr Equals
                 (ReadPropExpr
                    (ReadKeyExpr (ReadTemporaryExpr 3)
                     (ConditionalExpr
                        (BinaryOperatorExpr Equals (ReadTemporaryExpr 14) NULL_EXPR)
                        NULL_EXPR
                        (Some (ReadPropExpr (ReadTemporaryExpr 4) ''b''))))
                    ''c'')
                 NULL_EXPR)
              NULL_EXPR
              (Some (ReadPropExpr
                 (ReadPropExpr
                    (ReadKeyExpr (ReadTemporaryExpr 3)
                     (ConditionalExpr
                        (BinaryOperatorExpr Equals (ReadTemporaryExpr 14) NULL_EXPR)
                        NULL_EXPR
                        (Some (ReadPropExpr (ReadTemporaryExpr 4) ''b''))))
                    ''c'')
                 ''d'')))))))]]] \<and>
   units (expandSafeReads ((singleExpressionJob Normal 4
     (SafePropertyReadExpr
        (SafePropertyReadExpr
           (SafeKeyedReadExpr (ReadTemporaryExpr 3)
              (SafePropertyReadExpr (InvokeFunctionExpr (ReadVarExpr ''f'') []) ''b''))
           ''c'')
        ''d''))\<lparr>compatibility := Normal\<rparr>)) =
     map (map (map (replaceTagged ReadTemporaryExpr 10)))
       (units (expandSafeReadsWriting (taggedRead 10) (singleExpressionJob Normal 4
     (SafePropertyReadExpr
        (SafePropertyReadExpr
           (SafeKeyedReadExpr (ReadTemporaryExpr 3)
              (SafePropertyReadExpr (InvokeFunctionExpr (ReadVarExpr ''f'') []) ''b''))
           ''c'')
        ''d'')))) \<and>
   units (expandSafeReads ((singleExpressionJob Normal 4
     (SafePropertyReadExpr
        (SafePropertyReadExpr
           (SafeKeyedReadExpr (ReadTemporaryExpr 3)
              (SafePropertyReadExpr (InvokeFunctionExpr (ReadVarExpr ''f'') []) ''b''))
           ''c'')
        ''d''))\<lparr>compatibility := TemplateDefinitionBuilder\<rparr>)) =
     map (map (map (replaceTagged selfAssignment 10)))
       (units (expandSafeReadsWriting (taggedRead 10) (singleExpressionJob Normal 4
     (SafePropertyReadExpr
        (SafePropertyReadExpr
           (SafeKeyedReadExpr (ReadTemporaryExpr 3)
              (SafePropertyReadExpr (InvokeFunctionExpr (ReadVarExpr ''f'') []) ''b''))
           ''c'')
        ''d'')))) \<and>
   units (expandSafeReads ((singleExpressionJob Normal 4
     (SafePropertyReadExpr
        (SafePropertyReadExpr
           (SafeKeyedReadExpr (ReadTemporaryExpr 3)
              (SafePropertyReadExpr (InvokeFunctionExpr (ReadVarExpr ''f'') []) ''b''))
           ''c'')
        ''d''))\<lparr>compatibility := Normal\<rparr>)) \<noteq>
   units (expandSafeReads ((singleExpressionJob Normal 4
     (SafePropertyReadExpr
        (SafePropertyReadExpr
           (SafeKeyedReadExpr (ReadTemporaryExpr 3)
              (SafePropertyReadExpr (InvokeFunctionExpr (ReadVarExpr ''f'') []) ''b''))
           ''c'')
        ''d''))\<lparr>compatibility := TemplateDefinitionBuilder\<rparr>))"
proof -
  let ?job = "singleExpressionJob Normal 4
     (SafePropertyReadExpr
        (SafePropertyReadExpr
           (SafeKeyedReadExpr (ReadTemporaryExpr 3)
              (SafePropertyReadExpr (InvokeFunctionExpr (ReadVarExpr ''f'') []) ''b''))
           ''c'')
        ''d'')"
  have reads: "readXrefsInJob ?job = [3]"
    by (simp add: readXrefsInJob_def jobExpressions_def singleExpressionJob_def)
  have n: "nextXrefId (expandSafeReads (?job\<lparr>compatibility := Normal\<rparr>)) = 5"
    by (simp add: pass_defs)
  have t: "units (expandSafeReadsWriting (taggedRead 10) ?job) =
   [[[(ConditionalExpr (BinaryOperatorExpr Equals (ReadTemporaryExpr 3) NULL_EXPR) NULL_EXPR
        (Some (ConditionalExpr
           (BinaryOperatorExpr Equals
              (ReadKeyExpr (ReadTemporaryExpr 3)
                     (ConditionalExpr
                        (BinaryOperatorExpr Equals (AssignTemporaryExpr (InvokeFunctionExpr (ReadVarExpr ''f'') []) 4) NULL_EXPR)
                        NULL_EXPR
                        (Some (ReadPropExpr (ReadTemporaryExpr 4) ''b''))))
              NULL_EXPR)
           NULL_EXPR
           (Some (ConditionalExpr
              (BinaryOperatorExpr Equals
                 (ReadPropExpr
                    (ReadKeyExpr (ReadTemporaryExpr 3)
                     (ConditionalExpr
                        (BinaryOperatorExpr Equals (ReadTemporaryExpr 14) NULL_EXPR)
                        NULL_EXPR
                        (Some (ReadPropExpr (ReadTemporaryExpr 4) ''b''))))
                    ''c'')
                 NULL_EXPR)
              NULL_EXPR
              (Some (ReadPropExpr
                 (ReadPropExpr
                    (ReadKeyExpr (ReadTemporaryExpr 3)
                     (ConditionalExpr
                        (BinaryOperatorExpr Equals (ReadTemporaryExpr 14) NULL_EXPR)
                        NULL_EXPR
                        (Some (ReadPropExpr (ReadTemporaryExpr 4) ''b''))))
                    ''c'')
                 ''d'')))))))]]]"
    by (simp add: singleExpressionJob_def expandSafeReadsWriting_def expandOpWriting_def
        transformExpressionsInOp_def transformExpressionsInExpression_def
        safeTransformWriting_def isAccessExpression_def isSafeAccessExpression_def
        isUnsafeAccessExpression_def deepestSafeTernary_def receiver_def isSafeTernaryExpr_def
        safeTernaryWithTemporaryWriting_def eliminateTemporaryAssignmentsWriting_def
        pureTransform_def eliminateAssignmentWriting_def temporariesIn_def collectTemporary_def
        clone_def prop_of_def key_def callFn_def ternaryTransform_def allocateXrefId_def
        taggedRead_def)
  have differ: "units (expandSafeReads (?job\<lparr>compatibility := Normal\<rparr>)) \<noteq>
      units (expandSafeReads (?job\<lparr>compatibility := TemplateDefinitionBuilder\<rparr>))"
    by (simp add: pass_defs)
  show ?thesis
    using legacy_wraps_the_deduplicated_reads [of ?job 10] reads n t differ
    by simp
qed

end
